theory Spec2Isabelle
  imports
    Main
    "HOL-Library.Word"
    "HOL-Library.Char_ord"
    "HOL-Library.List_Lexorder"
    "HOL-Library.Product_Lexorder"
    "HOL-Library.Multiset"
begin

section \<open>The SHOW statements of pkg/sql/show.go\<close>

text \<open>
  A shallow embedding of \<^verbatim>\<open>pkg/sql/show.go\<close>. Every planner method of the file is a
  function from the planner to either an error or a delayed node; the delayed node's
  constructor is a function that is run later. Go's multiple return \<^verbatim>\<open>(x, err)\<close> is a sum
  \<open>error + 'a\<close>, a run-time panic is an error value of its own, and everything the file
  calls but does not define (catalog queries, descriptor lookups, the parser, the memory
  monitor behind the row container) is a field of the planner record, so that the
  theorems hold for every behaviour of those collaborators. \<^verbatim>\<open>ShowDatabases\<close> and
  \<^verbatim>\<open>ShowUsers\<close>, which hand a fixed query to \<^verbatim>\<open>newPlan\<close> and build no delayed node, are
  left out.
\<close>

subsection \<open>Errors\<close>

datatype error =
    UnknownVariable string
      \<comment> \<open>\<^verbatim>\<open>fmt.Errorf("unknown variable: %q", name)\<close>\<close>
  | UndefinedDatabaseError string
      \<comment> \<open>\<^verbatim>\<open>sqlbase.NewUndefinedDatabaseError(name)\<close>\<close>
  | UndefinedTableError string
      \<comment> \<open>\<^verbatim>\<open>sqlbase.NewUndefinedTableError(name)\<close>\<close>
  | NoPrivilegesOnTable string string
      \<comment> \<open>\<^verbatim>\<open>fmt.Errorf("user %s has no privileges on table %s", user, table)\<close>\<close>
  | FailedToParseView error string
      \<comment> \<open>\<^verbatim>\<open>errors.Wrapf(err, "failed to parse underlying query from view %q", tn)\<close>\<close>
  | ViewNotASelect string
      \<comment> \<open>\<^verbatim>\<open>errors.Errorf("failed to parse underlying query from view %q as a select", tn)\<close>\<close>
  | GrantsWithoutTargets
      \<comment> \<open>\<^verbatim>\<open>errors.Errorf("TODO(marc): implement SHOW GRANT with no targets")\<close>\<close>
  | errNoDatabase
  | CollaboratorError string
      \<comment> \<open>any other error value that a collaborator returns\<close>

datatype panic =
    IndexOutOfRange
      \<comment> \<open>\<^verbatim>\<open>s[i]\<close> with \<^verbatim>\<open>i >= len(s)\<close>\<close>
  | SliceBoundsOutOfRange
      \<comment> \<open>\<^verbatim>\<open>s[:n]\<close> with \<^verbatim>\<open>n\<close> out of range\<close>
  | NilDereference
      \<comment> \<open>a call of a \<^verbatim>\<open>nil\<close> function value\<close>

text \<open>
  What a function of \<^verbatim>\<open>show.go\<close> does: it returns a value, returns an error, or panics.
  The collaborators return a value or an error (\<open>error + 'a\<close>).
\<close>

datatype 'a result = Ok 'a | Err error | Panic panic

subsection \<open>Datums, result columns and the row container\<close>

text \<open>Go's \<^verbatim>\<open>int\<close> is the 64-bit signed integer of the supported platforms.\<close>

type_synonym goint = "64 word"

datatype datum = DString string | DInt "64 word" | DBool bool | DNull

type_synonym DTuple = "datum list"

datatype coltype = TypeString | TypeBool | TypeInt

record ResultColumn =
  rc_Name :: string
  rc_Typ :: coltype

type_synonym ResultColumns = "ResultColumn list"

record RowContainer =
  rows_of :: "DTuple list"
  closed :: bool

text \<open>
  Modelled from the spec: the Result Accumulator (\<^verbatim>\<open>RowContainer\<close>, declared outside
  \<^verbatim>\<open>show.go\<close>) is an ordered, append-only row container with explicit release. \<open>AddRow\<close>
  appends the row, or fails and leaves the container as it is when the memory monitor
  refuses the growth; the monitor's decision is the parameter \<open>accepts\<close>. \<open>Close\<close> releases
  the rows.
\<close>

definition AddRow ::
  "(DTuple list \<Rightarrow> DTuple \<Rightarrow> bool) \<Rightarrow> RowContainer \<Rightarrow> DTuple \<Rightarrow> error + RowContainer" where
  "AddRow accepts c r =
     (if accepts (rows_of c) r then Inr (c\<lparr>rows_of := rows_of c @ [r]\<rparr>)
      else Inl (CollaboratorError ''memory budget exceeded''))"

definition Close :: "RowContainer \<Rightarrow> RowContainer" where
  "Close c = c\<lparr>rows_of := [], closed := True\<rparr>"

record valuesNode =
  vn_columns :: ResultColumns
  vn_rows :: RowContainer

definition newContainerValuesNode :: "ResultColumns \<Rightarrow> valuesNode" where
  "newContainerValuesNode columns =
     \<lparr>vn_columns = columns, vn_rows = \<lparr>rows_of = [], closed = False\<rparr>\<rparr>"

definition closeRows :: "valuesNode \<Rightarrow> valuesNode" where
  \<comment> \<open>\<^verbatim>\<open>v.rows.Close()\<close> (and \<^verbatim>\<open>v.Close()\<close>, which closes the rows)\<close>
  "closeRows v = v\<lparr>vn_rows := Close (vn_rows v)\<rparr>"

datatype Direction = Ascending | Descending

record ColumnOrderInfo =
  ColIdx :: nat
  Dir :: Direction

record sortNode =
  ordering :: "ColumnOrderInfo list"
  sn_columns :: ResultColumns

datatype planNode =
    ValuesNode valuesNode
  | SelectTopNode valuesNode sortNode
      \<comment> \<open>\<^verbatim>\<open>&selectTopNode{source: v, sort: sort}\<close>\<close>

subsection \<open>Descriptors\<close>

type_synonym ID = "32 word"
type_synonym ColumnType = nat
  \<comment> \<open>\<^verbatim>\<open>sqlbase.ColumnType\<close> is used through its \<^verbatim>\<open>SQLString\<close> method only, a parameter below\<close>

datatype IndexDirection = ASC | DESC

fun IndexDirection_String :: "IndexDirection \<Rightarrow> string" where
  "IndexDirection_String ASC = ''ASC''"
| "IndexDirection_String DESC = ''DESC''"

record Ancestor =
  anc_TableID :: ID
  anc_SharedPrefixLen :: "32 word"

record IndexDescriptor =
  idx_Name :: string
  idx_Unique :: bool
  idx_ColumnNames :: "string list"
  idx_ColumnNames_spare :: "string list"
    \<comment> \<open>the elements of the backing array of \<^verbatim>\<open>ColumnNames\<close> between its length and its
        capacity: \<^verbatim>\<open>cap(idx.ColumnNames)\<close> is the length of both lists together\<close>
  idx_ColumnDirections :: "IndexDirection list"
  idx_ColumnIDs :: "ID list"
  idx_StoreColumnNames :: "string list"
  idx_Ancestors :: "Ancestor list"
    \<comment> \<open>\<^verbatim>\<open>idx.Interleave.Ancestors\<close>\<close>

record ColumnDescriptor =
  col_Name :: string
  col_ID :: ID
  col_Type :: ColumnType
  col_Nullable :: bool
  col_DefaultExpr :: "string option"
  col_Active :: bool

record FamilyDescriptor =
  fam_Name :: string
  fam_ColumnNames :: "string list"
  fam_ColumnIDs :: "ID list"

record CheckConstraint =
  chk_Name :: string
  chk_Expr :: string

record TableDescriptor =
  td_Name :: string
  td_Columns :: "ColumnDescriptor list"
  td_PrimaryIndex :: IndexDescriptor
  td_Indexes :: "IndexDescriptor list"
  td_Families :: "FamilyDescriptor list"
  td_Checks :: "CheckConstraint list"
  td_ViewQuery :: string
  td_IsPhysicalTable :: bool

text \<open>
  Modelled from the spec: \<^verbatim>\<open>VisibleColumns\<close>, \<^verbatim>\<open>FindActiveColumnByID\<close> and
  \<^verbatim>\<open>IsPhysicalTable\<close> are methods of the descriptor declared outside \<^verbatim>\<open>show.go\<close>. The spec
  gives a column an "active" flag (a column may be descriptor-present but not
  user-visible), renders one line per visible column, skipping the descriptors marked
  inactive, and gives the table a flag "is physical table".
\<close>

definition VisibleColumns :: "TableDescriptor \<Rightarrow> ColumnDescriptor list" where
  "VisibleColumns desc = filter col_Active (td_Columns desc)"

definition FindActiveColumnByID :: "TableDescriptor \<Rightarrow> ID \<Rightarrow> ColumnDescriptor option" where
  "FindActiveColumnByID desc i = find (\<lambda>c. col_Active c \<and> col_ID c = i) (td_Columns desc)"

definition IsPhysicalTable :: "TableDescriptor \<Rightarrow> bool" where
  "IsPhysicalTable desc = td_IsPhysicalTable desc"

subsection \<open>Names\<close>

record TableName =
  DatabaseName :: string
  TableName :: string

text \<open>
  Modelled from the spec: a Qualified Name is {database, object name}, normalized against
  the session's default database when the database part is omitted
  (\<^verbatim>\<open>parser.NormalizableTableName\<close> and \<^verbatim>\<open>parser.TableName\<close> are declared outside
  \<^verbatim>\<open>show.go\<close>). An omitted database part is the empty string; the rendering of a name
  writes its parts with a dot between them.
\<close>

type_synonym NormalizableTableName = TableName

definition TableName_String :: "TableName \<Rightarrow> string" where
  "TableName_String tn =
     (if DatabaseName tn = [] then TableName tn else DatabaseName tn @ ''.'' @ TableName tn)"

definition NormalizeWithDatabaseName :: "NormalizableTableName \<Rightarrow> string \<Rightarrow> error + TableName" where
  "NormalizeWithDatabaseName nt database =
     (if DatabaseName nt = [] then
        (if database = [] then Inl errNoDatabase else Inr (nt\<lparr>DatabaseName := database\<rparr>))
      else Inr nt)"

subsection \<open>The planner and its collaborators\<close>

record session =
  Database :: string
  User :: string
  DefaultIsolationLevel :: "32 word"
  Syntax :: "32 word"
  Location :: string
    \<comment> \<open>a \<^verbatim>\<open>*time.Location\<close>, whose \<^verbatim>\<open>String()\<close> is its name\<close>
  SearchPath :: "string list"

record txnState =
  Isolation :: "32 word"
  UserPriority :: "64 word"
    \<comment> \<open>a \<^verbatim>\<open>float64\<close>, kept as its 64 bits\<close>

type_synonym SelectAST = string
type_synonym TablePattern = string

datatype Statement = SelectStatement SelectAST | OtherStatement string

record ConstraintDetail =
  cd_Kind :: string
  cd_Columns :: "string list option"
  cd_Details :: string
  cd_Unvalidated :: bool

record Builtin =
  b_Signature :: string
  b_Category :: string
  b_Info :: string

text \<open>
  What \<^verbatim>\<open>show.go\<close> calls and does not define. The three query functions get the database
  of the evaluation context in force at the call (\<^verbatim>\<open>p.evalCtx.Database\<close>), the SQL text and
  its arguments.
\<close>

record catalog =
  queryRowsAsRoot :: "string \<Rightarrow> string \<Rightarrow> string list \<Rightarrow> error + DTuple list"
  queryRows :: "string \<Rightarrow> string \<Rightarrow> string list \<Rightarrow> error + DTuple list"
  QueryRow :: "string \<Rightarrow> string \<Rightarrow> string list \<Rightarrow> error + DTuple"
  getVirtualTableDesc :: "TableName \<Rightarrow> error + TableDescriptor option"
  mustGetTableDesc :: "TableName \<Rightarrow> error + TableDescriptor"
  mustGetViewDesc :: "TableName \<Rightarrow> error + TableDescriptor"
  anyPrivilege :: "string \<Rightarrow> TableDescriptor \<Rightarrow> error option"
    \<comment> \<open>the user of the session and the descriptor; \<open>None\<close> is Go's \<^verbatim>\<open>nil\<close> error\<close>
  GetTableDescFromID :: "ID \<Rightarrow> error + TableDescriptor"
  GetConstraintInfo :: "TableDescriptor \<Rightarrow> error + (string \<times> ConstraintDetail) list"
    \<comment> \<open>the map, as the list of its entries in the order the \<^verbatim>\<open>range\<close> visits them\<close>
  expandTableGlob :: "TablePattern \<Rightarrow> error + TableName list"

record parserfns =
  ParseOneTraditional :: "string \<Rightarrow> error + Statement"
  planSelect :: "bool \<Rightarrow> SelectAST \<Rightarrow> error + ResultColumns"
    \<comment> \<open>\<^verbatim>\<open>p.Select(sel, []parser.Type{}, false)\<close> under the given
        \<^verbatim>\<open>skipSelectPrivilegeChecks\<close>, and the \<^verbatim>\<open>Columns()\<close> of its plan\<close>
  NormalizeTablePattern :: "TablePattern \<Rightarrow> error + TablePattern"
  AsString_NameList :: "string list \<Rightarrow> string"
    \<comment> \<open>\<^verbatim>\<open>parser.AsString\<close> of a \<^verbatim>\<open>parser.NameList\<close>\<close>
  SQLString :: "ColumnType \<Rightarrow> string"
  Builtins :: "string \<Rightarrow> Builtin list option"
  IsolationType_String :: "32 word \<Rightarrow> string"
  Syntax_String :: "32 word \<Rightarrow> string"
  UserPriority_String :: "64 word \<Rightarrow> string"

record planner =
  session :: session
  txn :: txnState
  evalCtx_Database :: string
  skipSelectPrivilegeChecks :: bool
  accepts :: "DTuple list \<Rightarrow> DTuple \<Rightarrow> bool"
    \<comment> \<open>the memory monitor behind \<open>AddRow\<close>\<close>
  cat :: catalog
  prs :: parserfns

text \<open>
  What a constructor leaves behind: its return value, the planner as the constructor
  (with its deferred functions) left it, and the values node \<^verbatim>\<open>v\<close> in its last state
  when the constructor created one.
\<close>

record cbresult =
  outcome :: "planNode result"
  planner_after :: planner
  container :: "valuesNode option"

record delayedNode =
  dn_p :: planner
  dn_name :: string
  dn_columns :: ResultColumns
  dn_constructor :: "planner \<Rightarrow> cbresult"

subsection \<open>Slices\<close>

text \<open>
  A Go slice is the list of its elements together with the list of the elements its
  backing array holds beyond them, up to its capacity. \<^verbatim>\<open>s[:n]\<close> is in range exactly for
  \<open>0 \<le> n \<le> cap(s)\<close> and then holds the first \<open>n\<close> elements of the backing array, which
  are elements of \<open>s\<close> only up to \<open>len(s)\<close>; \<^verbatim>\<open>s[i]\<close> is in range exactly for \<open>i < len(s)\<close>.
\<close>

definition sliceTo :: "'a list \<Rightarrow> 'a list \<Rightarrow> goint \<Rightarrow> panic + 'a list" where
  "sliceTo xs spare n =
     (if sint n < 0 \<or> int (length xs + length spare) < sint n then Inl SliceBoundsOutOfRange
      else Inr (take (nat (sint n)) (xs @ spare)))"

definition elemAt :: "'a list \<Rightarrow> nat \<Rightarrow> panic + 'a" where
  "elemAt xs i = (if i < length xs then Inr (xs ! i) else Inl IndexOutOfRange)"

subsection \<open>quoteNames and showCreateInterleave\<close>

definition quoteNames :: "planner \<Rightarrow> string list \<Rightarrow> string" where
  "quoteNames p names = AsString_NameList (prs p) names"

text \<open>
  \<^verbatim>\<open>for _, ancestor := range intl.Ancestors { sharedPrefixLen += int(ancestor.SharedPrefixLen) }\<close>
\<close>

fun sumSharedPrefixLen :: "goint \<Rightarrow> Ancestor list \<Rightarrow> goint" where
  "sumSharedPrefixLen sharedPrefixLen [] = sharedPrefixLen"
| "sumSharedPrefixLen sharedPrefixLen (ancestor # rest) =
     sumSharedPrefixLen (sharedPrefixLen + ucast (anc_SharedPrefixLen ancestor)) rest"

definition showCreateInterleave :: "planner \<Rightarrow> IndexDescriptor \<Rightarrow> string result" where
  "showCreateInterleave p idx =
     (if length (idx_Ancestors idx) = 0 then Ok []
      else
        case GetTableDescFromID (cat p) (anc_TableID (last (idx_Ancestors idx))) of
          Inl err \<Rightarrow> Err err
        | Inr parentTable \<Rightarrow>
            (case sliceTo (idx_ColumnNames idx) (idx_ColumnNames_spare idx)
                    (sumSharedPrefixLen 0 (idx_Ancestors idx)) of
               Inl pnc \<Rightarrow> Panic pnc
             | Inr prefix \<Rightarrow>
                 Ok ('' INTERLEAVE IN PARENT '' @ td_Name parentTable @ '' ('' @
                      quoteNames p prefix @ '')'')))"

subsection \<open>Helpers shared by the constructors\<close>

definition failed :: "planner \<Rightarrow> error \<Rightarrow> valuesNode option \<Rightarrow> cbresult" where
  \<comment> \<open>\<^verbatim>\<open>return nil, err\<close>\<close>
  "failed p err v = \<lparr>outcome = Err err, planner_after = p, container = v\<rparr>"

definition panicked :: "planner \<Rightarrow> panic \<Rightarrow> valuesNode option \<Rightarrow> cbresult" where
  \<comment> \<open>a panic leaves the constructor, after its deferred functions\<close>
  "panicked p pnc v = \<lparr>outcome = Panic pnc, planner_after = p, container = v\<rparr>"

definition returned :: "planner \<Rightarrow> planNode \<Rightarrow> valuesNode \<Rightarrow> cbresult" where
  \<comment> \<open>\<^verbatim>\<open>return node, nil\<close>\<close>
  "returned p node v = \<lparr>outcome = Ok node, planner_after = p, container = Some v\<rparr>"

text \<open>
  \<^verbatim>\<open>for _, r := range rows { if _, err := v.rows.AddRow(r); err != nil { v.rows.Close(); return nil, err } }\<close>:
  the loop of \<^verbatim>\<open>ShowColumns\<close> and \<^verbatim>\<open>ShowTables\<close>. On failure the result carries the error
  and the closed values node.
\<close>

fun addRowsOrClose ::
  "planner \<Rightarrow> valuesNode \<Rightarrow> DTuple list \<Rightarrow> (error \<times> valuesNode) + valuesNode" where
  "addRowsOrClose p v [] = Inr v"
| "addRowsOrClose p v (r # rest) =
     (case AddRow (accepts p) (vn_rows v) r of
        Inl err \<Rightarrow> Inl (err, closeRows v)
      | Inr rows' \<Rightarrow> addRowsOrClose p (v\<lparr>vn_rows := rows'\<rparr>) rest)"

subsection \<open>Strings\<close>

definition ToUpper :: "string \<Rightarrow> string" where
  \<comment> \<open>\<^verbatim>\<open>strings.ToUpper\<close> on ASCII text: a byte that is no ASCII letter is left as it is,
      where Go also maps the letters outside ASCII\<close>
  "ToUpper s =
     map (\<lambda>c. let n = (of_char c :: nat) in if 97 \<le> n \<and> n \<le> 122 then char_of (n - 32) else c) s"

fun Join :: "string list \<Rightarrow> string \<Rightarrow> string" where
  \<comment> \<open>\<^verbatim>\<open>strings.Join\<close>\<close>
  "Join [] sep = []"
| "Join [x] sep = x"
| "Join (x # y # ys) sep = x @ sep @ Join (y # ys) sep"

definition newline :: char where "newline = CHR 0x0A"
definition tab :: char where "tab = CHR 0x09"

subsection \<open>SHOW variable and SHOW ALL\<close>

text \<open>The map literal \<^verbatim>\<open>varGen\<close>, as the list of its entries.\<close>

definition varGen :: "(string \<times> (planner \<Rightarrow> string)) list" where
  "varGen =
     [(''DATABASE'', \<lambda>p. Database (session p)),
      (''DEFAULT_TRANSACTION_ISOLATION'',
         \<lambda>p. IsolationType_String (prs p) (DefaultIsolationLevel (session p))),
      (''SYNTAX'', \<lambda>p. Syntax_String (prs p) (Syntax (session p))),
      (''TIME ZONE'', \<lambda>p. Location (session p)),
      (''TRANSACTION ISOLATION LEVEL'', \<lambda>p. IsolationType_String (prs p) (Isolation (txn p))),
      (''TRANSACTION PRIORITY'', \<lambda>p. UserPriority_String (prs p) (UserPriority (txn p))),
      (''MAX_INDEX_KEYS'', \<lambda>_. ''32''),
      (''SEARCH_PATH'', \<lambda>p. Join (SearchPath (session p)) '', '')]"

text \<open>
  \<^verbatim>\<open>varNames\<close> collects the keys of the map in the order the \<^verbatim>\<open>range\<close> visits them, which Go
  leaves open, and sorts them with \<^verbatim>\<open>sort.Strings\<close> (bytewise lexicographic order, which
  is the order of \<open>string\<close> here). The keys are taken in the order of the literal; the
  sorted list is the same for every other order (lemma \<open>varNames_any_order\<close>).
\<close>

definition varNames :: "string list" where
  "varNames = sort (map fst varGen)"

record ShowStmt =
  show_Name :: string

text \<open>
  The loop over \<^verbatim>\<open>varNames\<close>. It ends with the values node, with an error and the values
  node it closed, or with a panic and the values node as it stood.
\<close>

fun showAllLoop ::
  "planner \<Rightarrow> valuesNode \<Rightarrow> string list \<Rightarrow> (valuesNode result \<times> valuesNode)" where
  "showAllLoop p v [] = (Ok v, v)"
| "showAllLoop p v (vName # rest) =
     (case map_of varGen vName of
        None \<Rightarrow> (Panic NilDereference, v)
      | Some gen \<Rightarrow>
          (let val = gen p in
           case AddRow (accepts p) (vn_rows v) [DString vName, DString val] of
             Inl err \<Rightarrow> (Err err, closeRows v)
           | Inr rows' \<Rightarrow> showAllLoop p (v\<lparr>vn_rows := rows'\<rparr>) rest))"

definition Show_constructor :: "string \<Rightarrow> ResultColumns \<Rightarrow> planner \<Rightarrow> cbresult" where
  "Show_constructor name columns p =
     (let v = newContainerValuesNode columns in
      if name = ''ALL'' then
        (case showAllLoop p v varNames of
           (Ok v', _) \<Rightarrow> returned p (ValuesNode v') v'
         | (Err err, v') \<Rightarrow> failed p err (Some v')
         | (Panic pnc, v') \<Rightarrow> panicked p pnc (Some v'))
      else
        (case map_of varGen name of
           None \<Rightarrow> panicked p NilDereference (Some v)
         | Some gen \<Rightarrow>
             (let val = gen p in
              case AddRow (accepts p) (vn_rows v) [DString val] of
                Inl err \<Rightarrow> failed p err (Some (closeRows v))
              | Inr rows' \<Rightarrow>
                  (let v' = v\<lparr>vn_rows := rows'\<rparr> in returned p (ValuesNode v') v'))))"

definition Show :: "planner \<Rightarrow> ShowStmt \<Rightarrow> error + delayedNode" where
  "Show p n =
     (let name = ToUpper (show_Name n) in
      case (if name = ''ALL'' then
              Inr [\<lparr>rc_Name = ''Variable'', rc_Typ = TypeString\<rparr>,
                   \<lparr>rc_Name = ''Value'', rc_Typ = TypeString\<rparr>]
            else
              (case map_of varGen name of
                 None \<Rightarrow> Inl (UnknownVariable name)
               | Some _ \<Rightarrow> Inr [\<lparr>rc_Name = name, rc_Typ = TypeString\<rparr>])) of
        Inl err \<Rightarrow> Inl err
      | Inr columns \<Rightarrow>
          Inr \<lparr>dn_p = p, dn_name = ''SHOW '' @ name, dn_columns = columns,
               dn_constructor = Show_constructor name columns\<rparr>)"

subsection \<open>The catalog query texts\<close>

definition checkSchema :: string where
  "checkSchema = ''SELECT SCHEMA_NAME FROM information_schema.schemata WHERE SCHEMA_NAME=$1 LIMIT 1''"

definition checkTable :: string where
  "checkTable =
     ''SELECT TABLE_SCHEMA FROM information_schema.tables WHERE TABLE_SCHEMA=$1'' @
     [newline] @ replicate 5 tab @ ''AND TABLE_NAME=$2 LIMIT 1''"

definition checkTablePrivilege :: string where
  "checkTablePrivilege =
     ''SELECT TABLE_NAME FROM information_schema.table_privileges'' @
     [newline] @ replicate 7 tab @
     ''WHERE TABLE_SCHEMA=$1 AND TABLE_NAME=$2 AND GRANTEE=$3 LIMIT 1''"

definition dquote :: char where "dquote = CHR 0x22"
definition squote :: char where "squote = CHR 0x27"

definition getColumns :: string where
  "getColumns =
     ''SELECT COLUMN_NAME AS '' @ [dquote] @ ''Field'' @ [dquote] @
     '', DATA_TYPE AS '' @ [dquote] @ ''Type'' @ [dquote] @
     '', (IS_NULLABLE!='' @ [squote] @ ''NO'' @ [squote] @ '') AS '' @
     [dquote] @ ''Null'' @ [dquote] @ '','' @
     '' COLUMN_DEFAULT AS '' @ [dquote] @ ''Default'' @ [dquote] @
     '' FROM information_schema.columns WHERE TABLE_SCHEMA=$1 AND TABLE_NAME=$2'' @
     '' ORDER BY ORDINAL_POSITION''"

definition getTables :: string where
  "getTables =
     ''SELECT TABLE_NAME FROM information_schema.tables'' @
     [newline] @ replicate 7 tab @
     ''WHERE tables.TABLE_SCHEMA=$1 ORDER BY tables.TABLE_NAME''"

subsection \<open>SHOW COLUMNS\<close>

record ShowColumnsStmt =
  sc_Table :: NormalizableTableName

text \<open>
  The block "Check if the user has been granted": \<open>Some err\<close> is the error it returns,
  \<open>None\<close> is falling through to the rest of the constructor.
\<close>

definition ShowColumns_checkGranted :: "TableName \<Rightarrow> planner \<Rightarrow> error option" where
  "ShowColumns_checkGranted tn p =
     (case getVirtualTableDesc (cat p) tn of
        Inl err \<Rightarrow> Some err
      | Inr virDesc \<Rightarrow>
          if virDesc = None then
            (case QueryRow (cat p) (evalCtx_Database p) checkTablePrivilege
                    [DatabaseName tn, TableName tn, User (session p)] of
               Inl err \<Rightarrow> Some err
             | Inr values \<Rightarrow>
                 if length values = 0
                 then Some (NoPrivilegesOnTable (User (session p)) (TableName_String tn))
                 else None)
          else None)"

text \<open>
  The rest of the constructor, from "Temporarily set the current database": the deferred
  function restores \<^verbatim>\<open>p.evalCtx.Database\<close> on every way out.
\<close>

definition ShowColumns_rows :: "TableName \<Rightarrow> ResultColumns \<Rightarrow> planner \<Rightarrow> cbresult" where
  "ShowColumns_rows tn columns p =
     (let origDatabase = evalCtx_Database p;
          p1 = p\<lparr>evalCtx_Database := DatabaseName tn\<rparr>;
          p2 = p1\<lparr>evalCtx_Database := origDatabase\<rparr>
      in
      case queryRows (cat p1) (evalCtx_Database p1) getColumns [DatabaseName tn, TableName tn] of
        Inl err \<Rightarrow> failed p2 err None
      | Inr rows \<Rightarrow>
          (let v = newContainerValuesNode columns in
           case addRowsOrClose p1 v rows of
             Inl (err, v') \<Rightarrow> failed p2 err (Some v')
           | Inr v' \<Rightarrow> returned p2 (ValuesNode v') v'))"

definition ShowColumns_constructor :: "TableName \<Rightarrow> ResultColumns \<Rightarrow> planner \<Rightarrow> cbresult" where
  "ShowColumns_constructor tn columns p =
     (case queryRowsAsRoot (cat p) (evalCtx_Database p) checkSchema [DatabaseName tn] of
        Inl err \<Rightarrow> failed p err None
      | Inr values \<Rightarrow>
          if length values = 0 then failed p (UndefinedDatabaseError (DatabaseName tn)) None
          else
            (case queryRowsAsRoot (cat p) (evalCtx_Database p) checkTable
                    [DatabaseName tn, TableName tn] of
               Inl err \<Rightarrow> failed p err None
             | Inr values \<Rightarrow>
                 if length values = 0
                 then failed p (UndefinedTableError (TableName_String tn)) None
                 else
                   (case ShowColumns_checkGranted tn p of
                      Some err \<Rightarrow> failed p err None
                    | None \<Rightarrow> ShowColumns_rows tn columns p)))"

definition ShowColumns :: "planner \<Rightarrow> ShowColumnsStmt \<Rightarrow> error + delayedNode" where
  "ShowColumns p n =
     (case NormalizeWithDatabaseName (sc_Table n) (Database (session p)) of
        Inl err \<Rightarrow> Inl err
      | Inr tn \<Rightarrow>
          (let columns =
                 [\<lparr>rc_Name = ''Field'', rc_Typ = TypeString\<rparr>,
                  \<lparr>rc_Name = ''Type'', rc_Typ = TypeString\<rparr>,
                  \<lparr>rc_Name = ''Null'', rc_Typ = TypeBool\<rparr>,
                  \<lparr>rc_Name = ''Default'', rc_Typ = TypeString\<rparr>]
           in Inr \<lparr>dn_p = p, dn_name = ''SHOW COLUMNS FROM '' @ TableName_String tn,
                   dn_columns = columns,
                   dn_constructor = ShowColumns_constructor tn columns\<rparr>))"

subsection \<open>SHOW TABLES\<close>

record ShowTablesStmt =
  st_Database :: string

definition ShowTables_constructor :: "string \<Rightarrow> ResultColumns \<Rightarrow> planner \<Rightarrow> cbresult" where
  "ShowTables_constructor name columns p =
     (case queryRowsAsRoot (cat p) (evalCtx_Database p) checkSchema [name] of
        Inl err \<Rightarrow> failed p err None
      | Inr values \<Rightarrow>
          if length values = 0 then failed p (UndefinedDatabaseError name) None
          else
            (let origDatabase = evalCtx_Database p;
                 p1 = p\<lparr>evalCtx_Database := name\<rparr>;
                 p2 = p1\<lparr>evalCtx_Database := origDatabase\<rparr>
             in
             case queryRows (cat p1) (evalCtx_Database p1) getTables [name] of
               Inl err \<Rightarrow> failed p2 err None
             | Inr rows \<Rightarrow>
                 (let v = newContainerValuesNode columns in
                  case addRowsOrClose p1 v rows of
                    Inl (err, v') \<Rightarrow> failed p2 err (Some v')
                  | Inr v' \<Rightarrow> returned p2 (ValuesNode v') v')))"

definition ShowTables :: "planner \<Rightarrow> ShowTablesStmt \<Rightarrow> error + delayedNode" where
  "ShowTables p n =
     (let name = (if st_Database n \<noteq> [] then st_Database n else Database (session p)) in
      if name = [] then Inl errNoDatabase
      else
        (let columns = [\<lparr>rc_Name = ''Table'', rc_Typ = TypeString\<rparr>]
         in Inr \<lparr>dn_p = p, dn_name = ''SHOW TABLES FROM '' @ name, dn_columns = columns,
                 dn_constructor = ShowTables_constructor name columns\<rparr>))"

subsection \<open>SHOW CREATE TABLE\<close>

record ShowCreateTableStmt =
  sct_Table :: NormalizableTableName

definition isUnique :: "bool \<Rightarrow> string" where
  \<comment> \<open>\<^verbatim>\<open>map[bool]string{true: "UNIQUE "}\<close>: a missing key reads as the empty string\<close>
  "isUnique b = (if b then ''UNIQUE '' else [])"

definition primaryKeyClause :: "planner \<Rightarrow> TableDescriptor \<Rightarrow> string" where
  "primaryKeyClause p desc =
     '','' @ [newline, tab] @ ''CONSTRAINT '' @
     quoteNames p [idx_Name (td_PrimaryIndex desc)] @ '' PRIMARY KEY ('' @
     quoteNames p (idx_ColumnNames (td_PrimaryIndex desc)) @ '')''"

text \<open>
  The loop over \<^verbatim>\<open>desc.VisibleColumns()\<close>, with its index \<open>i\<close>, the buffer and the variable
  \<^verbatim>\<open>primary\<close>. \<^verbatim>\<open>desc.PrimaryIndex.ColumnIDs[0]\<close> is read only when
  \<^verbatim>\<open>desc.IsPhysicalTable()\<close> holds (\<^verbatim>\<open>&&\<close> evaluates its right operand on demand).
\<close>

fun showCreateColumns ::
  "planner \<Rightarrow> TableDescriptor \<Rightarrow> nat \<Rightarrow> ColumnDescriptor list \<Rightarrow> string \<Rightarrow> string \<Rightarrow>
     panic + (string \<times> string)" where
  "showCreateColumns p desc i [] buf primary = Inr (buf, primary)"
| "showCreateColumns p desc i (col # rest) buf primary =
     (let buf1 = (if i \<noteq> 0 then buf @ '','' else buf);
          buf2 = buf1 @ [newline, tab];
          buf3 = buf2 @ quoteNames p [col_Name col] @ '' '' @ SQLString (prs p) (col_Type col);
          buf4 = (if col_Nullable col then buf3 @ '' NULL'' else buf3 @ '' NOT NULL'');
          buf5 = (case col_DefaultExpr col of
                    Some e \<Rightarrow> buf4 @ '' DEFAULT '' @ e
                  | None \<Rightarrow> buf4)
      in
      if IsPhysicalTable desc then
        (case elemAt (idx_ColumnIDs (td_PrimaryIndex desc)) 0 of
           Inl pnc \<Rightarrow> Inl pnc
         | Inr first \<Rightarrow>
             showCreateColumns p desc (Suc i) rest buf5
               (if first = col_ID col then primaryKeyClause p desc else primary))
      else showCreateColumns p desc (Suc i) rest buf5 primary)"

text \<open>The loop over \<^verbatim>\<open>desc.Indexes\<close>.\<close>

fun showCreateIndexes :: "planner \<Rightarrow> IndexDescriptor list \<Rightarrow> string \<Rightarrow> string result" where
  "showCreateIndexes p [] buf = Ok buf"
| "showCreateIndexes p (idx # rest) buf =
     (let storing =
            (if length (idx_StoreColumnNames idx) > 0
             then '' STORING ('' @ quoteNames p (idx_StoreColumnNames idx) @ '')''
             else [])
      in
      case showCreateInterleave p idx of
        Err err \<Rightarrow> Err err
      | Panic pnc \<Rightarrow> Panic pnc
      | Ok interleave \<Rightarrow>
          showCreateIndexes p rest
            (buf @ '','' @ [newline, tab] @ isUnique (idx_Unique idx) @ ''INDEX '' @
             quoteNames p [idx_Name idx] @ '' ('' @ quoteNames p (idx_ColumnNames idx) @ '')'' @
             storing @ interleave))"

text \<open>The inner loop over \<^verbatim>\<open>fam.ColumnIDs\<close>, reading \<^verbatim>\<open>fam.ColumnNames[i]\<close>.\<close>

fun activeColumnNames ::
  "TableDescriptor \<Rightarrow> FamilyDescriptor \<Rightarrow> nat \<Rightarrow> ID list \<Rightarrow> string list \<Rightarrow> panic + string list" where
  "activeColumnNames desc fam i [] acc = Inr acc"
| "activeColumnNames desc fam i (colID # rest) acc =
     (case FindActiveColumnByID desc colID of
        Some _ \<Rightarrow>
          (case elemAt (fam_ColumnNames fam) i of
             Inl pnc \<Rightarrow> Inl pnc
           | Inr nm \<Rightarrow> activeColumnNames desc fam (Suc i) rest (acc @ [nm]))
      | None \<Rightarrow> activeColumnNames desc fam (Suc i) rest acc)"

fun showCreateFamilies ::
  "planner \<Rightarrow> TableDescriptor \<Rightarrow> FamilyDescriptor list \<Rightarrow> string \<Rightarrow> panic + string" where
  "showCreateFamilies p desc [] buf = Inr buf"
| "showCreateFamilies p desc (fam # rest) buf =
     (case activeColumnNames desc fam 0 (fam_ColumnIDs fam) [] of
        Inl pnc \<Rightarrow> Inl pnc
      | Inr names \<Rightarrow>
          showCreateFamilies p desc rest
            (buf @ '','' @ [newline, tab] @ ''FAMILY '' @ quoteNames p [fam_Name fam] @
             '' ('' @ quoteNames p names @ '')''))"

fun showCreateChecks :: "planner \<Rightarrow> CheckConstraint list \<Rightarrow> string \<Rightarrow> string" where
  "showCreateChecks p [] buf = buf"
| "showCreateChecks p (e # rest) buf =
     (let buf1 = buf @ '','' @ [newline, tab];
          buf2 = (if length (chk_Name e) > 0
                  then buf1 @ ''CONSTRAINT '' @ quoteNames p [chk_Name e] @ '' ''
                  else buf1)
      in showCreateChecks p rest (buf2 @ ''CHECK ('' @ chk_Expr e @ '')''))"

text \<open>
  The text of the statement, or what ends the constructor before: an error that
  \<^verbatim>\<open>showCreateInterleave\<close> returned, or a panic.
\<close>

definition showCreateTableText ::
  "planner \<Rightarrow> ShowCreateTableStmt \<Rightarrow> TableDescriptor \<Rightarrow> string result" where
  "showCreateTableText p n desc =
     (let buf0 = ''CREATE TABLE '' @ quoteNames p [TableName_String (sct_Table n)] @ '' ('' in
      case showCreateColumns p desc 0 (VisibleColumns desc) buf0 [] of
        Inl pnc \<Rightarrow> Panic pnc
      | Inr (buf1, primary) \<Rightarrow>
          (case showCreateIndexes p (td_Indexes desc) (buf1 @ primary) of
             Err err \<Rightarrow> Err err
           | Panic pnc \<Rightarrow> Panic pnc
           | Ok buf2 \<Rightarrow>
               (case showCreateFamilies p desc (td_Families desc) buf2 of
                  Inl pnc \<Rightarrow> Panic pnc
                | Inr buf3 \<Rightarrow>
                    (let buf4 = showCreateChecks p (td_Checks desc) buf3 @ [newline] @ '')'' in
                     case showCreateInterleave p (td_PrimaryIndex desc) of
                       Err err \<Rightarrow> Err err
                     | Panic pnc \<Rightarrow> Panic pnc
                     | Ok interleave \<Rightarrow> Ok (buf4 @ interleave)))))"

text \<open>
  Both \<^verbatim>\<open>if err != nil\<close> after \<^verbatim>\<open>showCreateInterleave\<close>, and the one after \<^verbatim>\<open>AddRow\<close>, close the
  rows before they return the error; a panic passes them by.
\<close>

definition ShowCreateTable_constructor ::
  "ShowCreateTableStmt \<Rightarrow> TableDescriptor \<Rightarrow> ResultColumns \<Rightarrow> planner \<Rightarrow> cbresult" where
  "ShowCreateTable_constructor n desc columns p =
     (let v = newContainerValuesNode columns in
      case showCreateTableText p n desc of
        Err err \<Rightarrow> failed p err (Some (closeRows v))
      | Panic pnc \<Rightarrow> panicked p pnc (Some v)
      | Ok text \<Rightarrow>
          (case AddRow (accepts p) (vn_rows v)
                  [DString (TableName_String (sct_Table n)), DString text] of
             Inl err \<Rightarrow> failed p err (Some (closeRows v))
           | Inr rows' \<Rightarrow> (let v' = v\<lparr>vn_rows := rows'\<rparr> in returned p (ValuesNode v') v')))"

definition ShowCreateTable :: "planner \<Rightarrow> ShowCreateTableStmt \<Rightarrow> error + delayedNode" where
  "ShowCreateTable p n =
     (case NormalizeWithDatabaseName (sct_Table n) (Database (session p)) of
        Inl err \<Rightarrow> Inl err
      | Inr tn \<Rightarrow>
          (case mustGetTableDesc (cat p) tn of
             Inl err \<Rightarrow> Inl err
           | Inr desc \<Rightarrow>
               (case anyPrivilege (cat p) (User (session p)) desc of
                  Some err \<Rightarrow> Inl err
                | None \<Rightarrow>
                    (let columns =
                           [\<lparr>rc_Name = ''Table'', rc_Typ = TypeString\<rparr>,
                            \<lparr>rc_Name = ''CreateTable'', rc_Typ = TypeString\<rparr>]
                     in Inr \<lparr>dn_p = p, dn_name = ''SHOW CREATE TABLE '' @ TableName_String tn,
                             dn_columns = columns,
                             dn_constructor = ShowCreateTable_constructor n desc columns\<rparr>))))"

subsection \<open>SHOW CREATE VIEW\<close>

record ShowCreateViewStmt =
  scv_View :: NormalizableTableName

text \<open>
  \<^verbatim>\<open>for i, col := range sourcePlan.Columns() { if col.Name != desc.Columns[i].Name { customColNames = true; break } }\<close>
\<close>

fun customColNamesLoop :: "ResultColumns \<Rightarrow> ColumnDescriptor list \<Rightarrow> nat \<Rightarrow> panic + bool" where
  "customColNamesLoop [] descColumns i = Inr False"
| "customColNamesLoop (col # rest) descColumns i =
     (case elemAt descColumns i of
        Inl pnc \<Rightarrow> Inl pnc
      | Inr dc \<Rightarrow>
          if rc_Name col \<noteq> col_Name dc then Inr True
          else customColNamesLoop rest descColumns (Suc i))"

definition ShowCreateView_constructor ::
  "ShowCreateViewStmt \<Rightarrow> TableName \<Rightarrow> TableDescriptor \<Rightarrow> ResultColumns \<Rightarrow> planner \<Rightarrow> cbresult" where
  "ShowCreateView_constructor n tn desc columns p =
     (let v = newContainerValuesNode columns;
          buf0 = ''CREATE VIEW '' @ quoteNames p [TableName_String (scv_View n)] @ '' ''
      in
      case ParseOneTraditional (prs p) (td_ViewQuery desc) of
        Inl err \<Rightarrow> failed p (FailedToParseView err (TableName_String tn)) (Some v)
      | Inr stmt \<Rightarrow>
          (case stmt of
             OtherStatement _ \<Rightarrow> failed p (ViewNotASelect (TableName_String tn)) (Some v)
           | SelectStatement sel \<Rightarrow>
               (let p1 = p\<lparr>skipSelectPrivilegeChecks := True\<rparr>;
                    p2 = p1\<lparr>skipSelectPrivilegeChecks := False\<rparr>
                in
                case planSelect (prs p1) (skipSelectPrivilegeChecks p1) sel of
                  Inl err \<Rightarrow> failed p2 err (Some v)
                | Inr sourceColumns \<Rightarrow>
                    (case customColNamesLoop sourceColumns (td_Columns desc) 0 of
                       Inl pnc \<Rightarrow> panicked p2 pnc (Some v)
                     | Inr customColNames \<Rightarrow>
                         (let buf1 =
                                (if customColNames
                                 then buf0 @ ''('' @ Join (map col_Name (td_Columns desc)) '', '' @ '') ''
                                 else buf0);
                              buf2 = buf1 @ ''AS '' @ td_ViewQuery desc
                          in
                          case AddRow (accepts p1) (vn_rows v)
                                 [DString (TableName_String (scv_View n)), DString buf2] of
                            Inl err \<Rightarrow> failed p2 err (Some (closeRows v))
                          | Inr rows' \<Rightarrow>
                              (let v' = v\<lparr>vn_rows := rows'\<rparr>
                               in returned p2 (ValuesNode v') v'))))))"

definition ShowCreateView :: "planner \<Rightarrow> ShowCreateViewStmt \<Rightarrow> error + delayedNode" where
  "ShowCreateView p n =
     (case NormalizeWithDatabaseName (scv_View n) (Database (session p)) of
        Inl err \<Rightarrow> Inl err
      | Inr tn \<Rightarrow>
          (case mustGetViewDesc (cat p) tn of
             Inl err \<Rightarrow> Inl err
           | Inr desc \<Rightarrow>
               (case anyPrivilege (cat p) (User (session p)) desc of
                  Some err \<Rightarrow> Inl err
                | None \<Rightarrow>
                    (let columns =
                           [\<lparr>rc_Name = ''View'', rc_Typ = TypeString\<rparr>,
                            \<lparr>rc_Name = ''CreateView'', rc_Typ = TypeString\<rparr>]
                     in Inr \<lparr>dn_p = p, dn_name = ''SHOW CREATE VIEW '' @ TableName_String tn,
                             dn_columns = columns,
                             dn_constructor = ShowCreateView_constructor n tn desc columns\<rparr>))))"

subsection \<open>SHOW INDEX\<close>

record ShowIndexStmt =
  si_Table :: NormalizableTableName

definition appendRow ::
  "planner \<Rightarrow> TableName \<Rightarrow> valuesNode \<Rightarrow> IndexDescriptor \<Rightarrow> string \<Rightarrow> goint \<Rightarrow> string \<Rightarrow> bool \<Rightarrow>
     error + valuesNode" where
  "appendRow p tn v index colName sequence direction isStored =
     (let newRow =
            [DString (TableName tn), DString (idx_Name index), DBool (idx_Unique index),
             DInt sequence, DString colName, DString direction, DBool isStored]
      in
      case AddRow (accepts p) (vn_rows v) newRow of
        Inl err \<Rightarrow> Inl err
      | Inr rows' \<Rightarrow> Inr (v\<lparr>vn_rows := rows'\<rparr>))"

text \<open>
  The two inner loops of one index. Each ends with the sequence counter, with an error
  (the rows closed), or with the panic of \<^verbatim>\<open>index.ColumnDirections[i]\<close>; the second
  component is the values node as the loop left it.
\<close>

fun showIndexKeyColumns ::
  "planner \<Rightarrow> TableName \<Rightarrow> IndexDescriptor \<Rightarrow> nat \<Rightarrow> string list \<Rightarrow> goint \<Rightarrow> valuesNode \<Rightarrow>
     goint result \<times> valuesNode" where
  "showIndexKeyColumns p tn index i [] sequence v = (Ok sequence, v)"
| "showIndexKeyColumns p tn index i (col # rest) sequence v =
     (case elemAt (idx_ColumnDirections index) i of
        Inl pnc \<Rightarrow> (Panic pnc, v)
      | Inr dir \<Rightarrow>
          (case appendRow p tn v index col sequence (IndexDirection_String dir) False of
             Inl err \<Rightarrow> (Err err, closeRows v)
           | Inr v' \<Rightarrow> showIndexKeyColumns p tn index (Suc i) rest (sequence + 1) v'))"

fun showIndexStoreColumns ::
  "planner \<Rightarrow> TableName \<Rightarrow> IndexDescriptor \<Rightarrow> string list \<Rightarrow> goint \<Rightarrow> valuesNode \<Rightarrow>
     goint result \<times> valuesNode" where
  "showIndexStoreColumns p tn index [] sequence v = (Ok sequence, v)"
| "showIndexStoreColumns p tn index (col # rest) sequence v =
     (case appendRow p tn v index col sequence ''N/A'' True of
        Inl err \<Rightarrow> (Err err, closeRows v)
      | Inr v' \<Rightarrow> showIndexStoreColumns p tn index rest (sequence + 1) v')"

text \<open>
  The outer loop over \<^verbatim>\<open>append([]sqlbase.IndexDescriptor{desc.PrimaryIndex}, desc.Indexes...)\<close>.
\<close>

fun showIndexLoop ::
  "planner \<Rightarrow> TableName \<Rightarrow> IndexDescriptor list \<Rightarrow> valuesNode \<Rightarrow> valuesNode result \<times> valuesNode" where
  "showIndexLoop p tn [] v = (Ok v, v)"
| "showIndexLoop p tn (index # rest) v =
     (case showIndexKeyColumns p tn index 0 (idx_ColumnNames index) 1 v of
        (Err err, v1) \<Rightarrow> (Err err, v1)
      | (Panic pnc, v1) \<Rightarrow> (Panic pnc, v1)
      | (Ok sequence, v1) \<Rightarrow>
          (case showIndexStoreColumns p tn index (idx_StoreColumnNames index) sequence v1 of
             (Err err, v2) \<Rightarrow> (Err err, v2)
           | (Panic pnc, v2) \<Rightarrow> (Panic pnc, v2)
           | (Ok _, v2) \<Rightarrow> showIndexLoop p tn rest v2))"

definition ShowIndex_constructor ::
  "TableName \<Rightarrow> TableDescriptor \<Rightarrow> ResultColumns \<Rightarrow> planner \<Rightarrow> cbresult" where
  "ShowIndex_constructor tn desc columns p =
     (let v = newContainerValuesNode columns in
      case showIndexLoop p tn (td_PrimaryIndex desc # td_Indexes desc) v of
        (Err err, v') \<Rightarrow> failed p err (Some v')
      | (Panic pnc, v') \<Rightarrow> panicked p pnc (Some v')
      | (Ok v', _) \<Rightarrow> returned p (ValuesNode v') v')"

definition ShowIndex :: "planner \<Rightarrow> ShowIndexStmt \<Rightarrow> error + delayedNode" where
  "ShowIndex p n =
     (case NormalizeWithDatabaseName (si_Table n) (Database (session p)) of
        Inl err \<Rightarrow> Inl err
      | Inr tn \<Rightarrow>
          (case mustGetTableDesc (cat p) tn of
             Inl err \<Rightarrow> Inl err
           | Inr desc \<Rightarrow>
               (case anyPrivilege (cat p) (User (session p)) desc of
                  Some err \<Rightarrow> Inl err
                | None \<Rightarrow>
                    (let columns =
                           [\<lparr>rc_Name = ''Table'', rc_Typ = TypeString\<rparr>,
                            \<lparr>rc_Name = ''Name'', rc_Typ = TypeString\<rparr>,
                            \<lparr>rc_Name = ''Unique'', rc_Typ = TypeBool\<rparr>,
                            \<lparr>rc_Name = ''Seq'', rc_Typ = TypeInt\<rparr>,
                            \<lparr>rc_Name = ''Column'', rc_Typ = TypeString\<rparr>,
                            \<lparr>rc_Name = ''Direction'', rc_Typ = TypeString\<rparr>,
                            \<lparr>rc_Name = ''Storing'', rc_Typ = TypeBool\<rparr>]
                     in Inr \<lparr>dn_p = p, dn_name = ''SHOW INDEX FROM '' @ TableName_String tn,
                             dn_columns = columns,
                             dn_constructor = ShowIndex_constructor tn desc columns\<rparr>))))"

subsection \<open>SHOW CONSTRAINTS\<close>

record ShowConstraintsStmt =
  scn_Table :: NormalizableTableName

definition ascending :: "nat \<Rightarrow> ColumnOrderInfo" where
  \<comment> \<open>\<^verbatim>\<open>{ColIdx: i, Direction: encoding.Ascending}\<close>\<close>
  "ascending i = \<lparr>ColIdx = i, Dir = Ascending\<rparr>"

fun showConstraintsLoop ::
  "planner \<Rightarrow> TableName \<Rightarrow> (string \<times> ConstraintDetail) list \<Rightarrow> valuesNode \<Rightarrow>
     (error \<times> valuesNode) + valuesNode" where
  "showConstraintsLoop p tn [] v = Inr v"
| "showConstraintsLoop p tn ((name, c) # rest) v =
     (let detailsDatum = (if cd_Details c \<noteq> [] then DString (cd_Details c) else DNull);
          columnsDatum =
            (case cd_Columns c of
               Some cols \<Rightarrow> DString (Join cols '', '')
             | None \<Rightarrow> DNull);
          kind = (if cd_Unvalidated c then cd_Kind c @ '' (UNVALIDATED)'' else cd_Kind c);
          newRow = [DString (TableName tn), DString name, DString kind, columnsDatum, detailsDatum]
      in
      case AddRow (accepts p) (vn_rows v) newRow of
        Inl err \<Rightarrow> Inl (err, closeRows v)
      | Inr rows' \<Rightarrow> showConstraintsLoop p tn rest (v\<lparr>vn_rows := rows'\<rparr>))"

definition ShowConstraints_constructor ::
  "TableName \<Rightarrow> TableDescriptor \<Rightarrow> ResultColumns \<Rightarrow> planner \<Rightarrow> cbresult" where
  "ShowConstraints_constructor tn desc columns p =
     (let v = newContainerValuesNode columns in
      case GetConstraintInfo (cat p) desc of
        Inl err \<Rightarrow> failed p err (Some v)
      | Inr info \<Rightarrow>
          (case showConstraintsLoop p tn info v of
             Inl (err, v') \<Rightarrow> failed p err (Some v')
           | Inr v' \<Rightarrow>
               (let sort = \<lparr>ordering = [ascending 0, ascending 1], sn_columns = vn_columns v'\<rparr>
                in returned p (SelectTopNode v' sort) v')))"

definition ShowConstraints :: "planner \<Rightarrow> ShowConstraintsStmt \<Rightarrow> error + delayedNode" where
  "ShowConstraints p n =
     (case NormalizeWithDatabaseName (scn_Table n) (Database (session p)) of
        Inl err \<Rightarrow> Inl err
      | Inr tn \<Rightarrow>
          (case mustGetTableDesc (cat p) tn of
             Inl err \<Rightarrow> Inl err
           | Inr desc \<Rightarrow>
               (case anyPrivilege (cat p) (User (session p)) desc of
                  Some err \<Rightarrow> Inl err
                | None \<Rightarrow>
                    (let columns =
                           [\<lparr>rc_Name = ''Table'', rc_Typ = TypeString\<rparr>,
                            \<lparr>rc_Name = ''Name'', rc_Typ = TypeString\<rparr>,
                            \<lparr>rc_Name = ''Type'', rc_Typ = TypeString\<rparr>,
                            \<lparr>rc_Name = ''Column(s)'', rc_Typ = TypeString\<rparr>,
                            \<lparr>rc_Name = ''Details'', rc_Typ = TypeString\<rparr>]
                     in Inr \<lparr>dn_p = p, dn_name = ''SHOW CONSTRAINTS FROM '' @ TableName_String tn,
                             dn_columns = columns,
                             dn_constructor = ShowConstraints_constructor tn desc columns\<rparr>))))"

subsection \<open>SHOW GRANTS\<close>

record TargetList =
  Databases :: "string list option"
    \<comment> \<open>\<open>None\<close> is the \<^verbatim>\<open>nil\<close> slice; the names are \<^verbatim>\<open>Databases.ToStrings()\<close>\<close>
  Tables :: "TablePattern list option"

record ShowGrantsStmt =
  sg_Targets :: "TargetList option"
  sg_Grantees :: "string list option"

fun digits :: "nat \<Rightarrow> string" where
  "digits n = (if n < 10 then [char_of (48 + n)] else digits (n div 10) @ [char_of (48 + n mod 10)])"

declare digits.simps [simp del]

definition itoa :: "goint \<Rightarrow> string" where
  \<comment> \<open>\<^verbatim>\<open>%d\<close> of an \<^verbatim>\<open>int\<close>\<close>
  "itoa n = (if sint n < 0 then ''-'' @ digits (nat (- sint n)) else digits (nat (sint n)))"

definition checkFn :: "planner \<Rightarrow> string \<Rightarrow> string list \<Rightarrow> error + bool" where
  "checkFn p sql args =
     (case queryRowsAsRoot (cat p) (evalCtx_Database p) sql args of
        Inl err \<Rightarrow> Inl err
      | Inr values \<Rightarrow> if length values > 0 then Inr True else Inr False)"

text \<open>
  \<^verbatim>\<open>queryFn\<close> adds the rows of the query to \<^verbatim>\<open>v\<close> and returns the first error, without
  closing anything: its result is the error, if any, and \<^verbatim>\<open>v\<close> as it stands.
\<close>

fun addRowsNoClose :: "planner \<Rightarrow> valuesNode \<Rightarrow> DTuple list \<Rightarrow> error option \<times> valuesNode" where
  "addRowsNoClose p v [] = (None, v)"
| "addRowsNoClose p v (r # rest) =
     (case AddRow (accepts p) (vn_rows v) r of
        Inl err \<Rightarrow> (Some err, v)
      | Inr rows' \<Rightarrow> addRowsNoClose p (v\<lparr>vn_rows := rows'\<rparr>) rest)"

definition queryFn :: "planner \<Rightarrow> valuesNode \<Rightarrow> string \<Rightarrow> string list \<Rightarrow> error option \<times> valuesNode" where
  "queryFn p v sql args =
     (case queryRows (cat p) (evalCtx_Database p) sql args of
        Inl err \<Rightarrow> (Some err, v)
      | Inr rows \<Rightarrow> addRowsNoClose p v rows)"

text \<open>
  The loops that check the targets and collect \<^verbatim>\<open>params\<close>, \<^verbatim>\<open>paramHolders\<close> and
  \<^verbatim>\<open>paramSeq\<close>.
\<close>

fun grantsDatabases ::
  "planner \<Rightarrow> string list \<Rightarrow> string list \<Rightarrow> string list \<Rightarrow> goint \<Rightarrow>
     error + (string list \<times> string list \<times> goint)" where
  "grantsDatabases p [] params paramHolders paramSeq = Inr (params, paramHolders, paramSeq)"
| "grantsDatabases p (db # rest) params paramHolders paramSeq =
     (case checkFn p checkSchema [db] of
        Inl err \<Rightarrow> Inl err
      | Inr exists \<Rightarrow>
          if \<not> exists then Inl (UndefinedDatabaseError db)
          else grantsDatabases p rest (params @ [db]) (paramHolders @ [''$'' @ itoa paramSeq])
                 (paramSeq + 1))"

fun grantsGrantees ::
  "string list \<Rightarrow> string list \<Rightarrow> string list \<Rightarrow> goint \<Rightarrow> string list \<times> string list \<times> goint" where
  "grantsGrantees [] params paramHolders paramSeq = (params, paramHolders, paramSeq)"
| "grantsGrantees (grantee # rest) params paramHolders paramSeq =
     grantsGrantees rest (params @ [grantee]) (paramHolders @ [''$'' @ itoa paramSeq])
       (paramSeq + 1)"

fun grantsTables ::
  "planner \<Rightarrow> TableName list \<Rightarrow> string list \<Rightarrow> string list \<Rightarrow> goint \<Rightarrow>
     error + (string list \<times> string list \<times> goint)" where
  "grantsTables p [] params paramHolders paramSeq = Inr (params, paramHolders, paramSeq)"
| "grantsTables p (t # rest) params paramHolders paramSeq =
     (case checkFn p checkTable [DatabaseName t, TableName t] of
        Inl err \<Rightarrow> Inl err
      | Inr exists \<Rightarrow>
          if \<not> exists then Inl (UndefinedTableError (TableName_String t))
          else grantsTables p rest (params @ [DatabaseName t, TableName t])
                 (paramHolders @ [''($'' @ itoa paramSeq @ '',$'' @ itoa (paramSeq + 1) @ '')''])
                 (paramSeq + 2))"

fun grantsTableTargets ::
  "planner \<Rightarrow> TablePattern list \<Rightarrow> string list \<Rightarrow> string list \<Rightarrow> goint \<Rightarrow>
     error + (string list \<times> string list \<times> goint)" where
  "grantsTableTargets p [] params paramHolders paramSeq = Inr (params, paramHolders, paramSeq)"
| "grantsTableTargets p (tableTarget # rest) params paramHolders paramSeq =
     (case NormalizeTablePattern (prs p) tableTarget of
        Inl err \<Rightarrow> Inl err
      | Inr tableGlob \<Rightarrow>
          (case expandTableGlob (cat p) tableGlob of
             Inl err \<Rightarrow> Inl err
           | Inr tables \<Rightarrow>
               (case grantsTables p tables params paramHolders paramSeq of
                  Inl err \<Rightarrow> Inl err
                | Inr (params', paramHolders', paramSeq') \<Rightarrow>
                    grantsTableTargets p rest params' paramHolders' paramSeq')))"

definition schemaGrantsText :: "string list \<Rightarrow> string" where
  "schemaGrantsText paramHolders =
     ''SELECT TABLE_SCHEMA AS '' @ [dquote] @ ''Database'' @ [dquote] @
     '', GRANTEE AS '' @ [dquote] @ ''User'' @ [dquote] @ '','' @
     [newline] @ replicate 9 tab @
     ''PRIVILEGE_TYPE AS '' @ [dquote] @ ''Privileges'' @ [dquote] @
     '' FROM information_schema.schema_privileges'' @
     [newline] @ replicate 9 tab @
     ''WHERE TABLE_SCHEMA IN ('' @ Join paramHolders '','' @ '')''"

definition tableGrantsText :: "string list \<Rightarrow> string" where
  "tableGrantsText paramHolders =
     ''SELECT TABLE_NAME, GRANTEE, PRIVILEGE_TYPE FROM information_schema.table_privileges'' @
     [newline] @ replicate 9 tab @
     ''WHERE (TABLE_SCHEMA, TABLE_NAME) IN ('' @ Join paramHolders '','' @ '')''"

definition withGrantees :: "string \<Rightarrow> string list \<Rightarrow> string" where
  \<comment> \<open>\<^verbatim>\<open>fmt.Sprintf(`%s AND GRANTEE IN(%s)`, grants, strings.Join(paramHolders, ","))\<close>\<close>
  "withGrantees grants paramHolders = grants @ '' AND GRANTEE IN('' @ Join paramHolders '','' @ '')''"

text \<open>
  The block \<^verbatim>\<open>if n.Targets.Databases != nil\<close>: the error that makes the constructor close
  the rows and return, if any, and \<^verbatim>\<open>v\<close> as the block leaves it.
\<close>

definition ShowGrants_databases ::
  "planner \<Rightarrow> ShowGrantsStmt \<Rightarrow> TargetList \<Rightarrow> valuesNode \<Rightarrow> error option \<times> valuesNode" where
  "ShowGrants_databases p n targets v =
     (case Databases targets of
        None \<Rightarrow> (None, v)
      | Some dbs \<Rightarrow>
          (case grantsDatabases p dbs [] [] 1 of
             Inl err \<Rightarrow> (Some err, v)
           | Inr (params, paramHolders, paramSeq) \<Rightarrow>
               (let schemaGrants = schemaGrantsText paramHolders in
                case sg_Grantees n of
                  None \<Rightarrow> queryFn p v schemaGrants params
                | Some grantees \<Rightarrow>
                    (case grantsGrantees grantees params [] paramSeq of
                       (params', paramHolders', _) \<Rightarrow>
                         queryFn p v (withGrantees schemaGrants paramHolders') params'))))"

text \<open>The block \<^verbatim>\<open>if n.Targets.Tables != nil\<close>.\<close>

definition ShowGrants_tables ::
  "planner \<Rightarrow> ShowGrantsStmt \<Rightarrow> TargetList \<Rightarrow> valuesNode \<Rightarrow> error option \<times> valuesNode" where
  "ShowGrants_tables p n targets v =
     (case Tables targets of
        None \<Rightarrow> (None, v)
      | Some tableTargets \<Rightarrow>
          (case grantsTableTargets p tableTargets [] [] 1 of
             Inl err \<Rightarrow> (Some err, v)
           | Inr (params, paramHolders, paramSeq) \<Rightarrow>
               (let tableGrants = tableGrantsText paramHolders in
                case sg_Grantees n of
                  None \<Rightarrow> queryFn p v tableGrants params
                | Some grantees \<Rightarrow>
                    (case grantsGrantees grantees params [] paramSeq of
                       (params', paramHolders', _) \<Rightarrow>
                         queryFn p v (withGrantees tableGrants paramHolders') params'))))"

definition ShowGrants_constructor ::
  "ShowGrantsStmt \<Rightarrow> TargetList \<Rightarrow> ResultColumns \<Rightarrow> planner \<Rightarrow> cbresult" where
  "ShowGrants_constructor n targets columns p =
     (let v = newContainerValuesNode columns in
      case ShowGrants_databases p n targets v of
        (Some err, v1) \<Rightarrow> failed p err (Some (closeRows v1))
      | (None, v1) \<Rightarrow>
          (case ShowGrants_tables p n targets v1 of
             (Some err, v2) \<Rightarrow> failed p err (Some (closeRows v2))
           | (None, v2) \<Rightarrow>
               (let sort = \<lparr>ordering = [ascending 0, ascending 1, ascending 2],
                            sn_columns = vn_columns v2\<rparr>
                in returned p (SelectTopNode v2 sort) v2)))"

definition ShowGrants :: "planner \<Rightarrow> ShowGrantsStmt \<Rightarrow> error + delayedNode" where
  "ShowGrants p n =
     (case sg_Targets n of
        None \<Rightarrow> Inl GrantsWithoutTargets
      | Some targets \<Rightarrow>
          (let objectType = (if Tables targets \<noteq> None then ''Table'' else ''Database'');
               columns =
                 [\<lparr>rc_Name = objectType, rc_Typ = TypeString\<rparr>,
                  \<lparr>rc_Name = ''User'', rc_Typ = TypeString\<rparr>,
                  \<lparr>rc_Name = ''Privileges'', rc_Typ = TypeString\<rparr>]
           in Inr \<lparr>dn_p = p, dn_name = ''SHOW GRANTS'', dn_columns = columns,
                   dn_constructor = ShowGrants_constructor n targets columns\<rparr>))"

subsection \<open>HELP\<close>

record HelpStmt =
  help_Name :: string
    \<comment> \<open>\<^verbatim>\<open>n.Name.String()\<close>\<close>

definition ToLower :: "string \<Rightarrow> string" where
  \<comment> \<open>\<^verbatim>\<open>strings.ToLower\<close> on ASCII text: a byte that is no ASCII letter is left as it is,
      where Go also maps the letters outside ASCII\<close>
  "ToLower s =
     map (\<lambda>c. let n = (of_char c :: nat) in if 65 \<le> n \<and> n \<le> 90 then char_of (n + 32) else c) s"

fun helpLoop ::
  "planner \<Rightarrow> string \<Rightarrow> Builtin list \<Rightarrow> valuesNode \<Rightarrow> (error \<times> valuesNode) + valuesNode" where
  "helpLoop p name [] v = Inr v"
| "helpLoop p name (f # rest) v =
     (let row = [DString name, DString (b_Signature f), DString (b_Category f), DString (b_Info f)]
      in
      case AddRow (accepts p) (vn_rows v) row of
        Inl err \<Rightarrow> Inl (err, closeRows v)
      | Inr rows' \<Rightarrow> helpLoop p name rest (v\<lparr>vn_rows := rows'\<rparr>))"

definition Help_constructor :: "string \<Rightarrow> ResultColumns \<Rightarrow> planner \<Rightarrow> cbresult" where
  "Help_constructor name columns p =
     (let v = newContainerValuesNode columns in
      case Builtins (prs p) name of
        None \<Rightarrow> returned p (ValuesNode v) v
      | Some matches \<Rightarrow>
          (case helpLoop p name matches v of
             Inl (err, v') \<Rightarrow> failed p err (Some v')
           | Inr v' \<Rightarrow> returned p (ValuesNode v') v'))"

definition Help :: "planner \<Rightarrow> HelpStmt \<Rightarrow> error + delayedNode" where
  "Help p n =
     (let name = ToLower (help_Name n);
          columns =
            [\<lparr>rc_Name = ''Function'', rc_Typ = TypeString\<rparr>,
             \<lparr>rc_Name = ''Signature'', rc_Typ = TypeString\<rparr>,
             \<lparr>rc_Name = ''Category'', rc_Typ = TypeString\<rparr>,
             \<lparr>rc_Name = ''Details'', rc_Typ = TypeString\<rparr>]
      in Inr \<lparr>dn_p = p, dn_name = ''HELP '' @ name, dn_columns = columns,
              dn_constructor = Help_constructor name columns\<rparr>)"

subsection \<open>The sort stage\<close>

text \<open>
  Modelled from the spec: the Sort Stage (\<^verbatim>\<open>sortNode\<close> under a \<^verbatim>\<open>selectTopNode\<close>, declared
  outside \<^verbatim>\<open>show.go\<close>) is a post-processing node imposing a deterministic multi-column
  ordering over an already materialized row set. The rows a plan yields are the rows of
  its values node, sorted by the columns of the ordering, each in the direction the
  ordering gives it, when the plan has a sort stage; rows that the ordering does not
  tell apart keep their order. Datums are compared through a key: \<^verbatim>\<open>NULL\<close> first, then by
  value within a type, strings bytewise; a column a row does not have counts as \<^verbatim>\<open>NULL\<close>.
\<close>

fun datumKey :: "datum \<Rightarrow> nat \<times> int \<times> string" where
  "datumKey DNull = (0, 0, [])"
| "datumKey (DBool b) = (1, (if b then 1 else 0), [])"
| "datumKey (DInt i) = (2, sint i, [])"
| "datumKey (DString s) = (3, 0, s)"

definition column :: "DTuple \<Rightarrow> nat \<Rightarrow> datum" where
  "column r i = (if i < length r then r ! i else DNull)"

fun rowLe :: "ColumnOrderInfo list \<Rightarrow> DTuple \<Rightarrow> DTuple \<Rightarrow> bool" where
  "rowLe [] r s = True"
| "rowLe (c # cs) r s =
     (if datumKey (column r (ColIdx c)) = datumKey (column s (ColIdx c)) then rowLe cs r s
      else (case Dir c of
              Ascending \<Rightarrow> datumKey (column r (ColIdx c)) < datumKey (column s (ColIdx c))
            | Descending \<Rightarrow> datumKey (column s (ColIdx c)) < datumKey (column r (ColIdx c))))"

fun insertRow :: "ColumnOrderInfo list \<Rightarrow> DTuple \<Rightarrow> DTuple list \<Rightarrow> DTuple list" where
  "insertRow ord r [] = [r]"
| "insertRow ord r (s # rest) =
     (if rowLe ord r s then r # s # rest else s # insertRow ord r rest)"

definition sortStage :: "ColumnOrderInfo list \<Rightarrow> DTuple list \<Rightarrow> DTuple list" where
  "sortStage ord rs = foldr (insertRow ord) rs []"

fun planRows :: "planNode \<Rightarrow> DTuple list" where
  "planRows (ValuesNode v) = rows_of (vn_rows v)"
| "planRows (SelectTopNode v srt) = sortStage (ordering srt) (rows_of (vn_rows v))"

subsection \<open>The words of the spec, as definitions\<close>

text \<open>
  The N of the interleave clause in the spec's words: the sum of all ancestors'
  shared-prefix lengths, as a natural number.
\<close>

definition sharedPrefixTotal :: "IndexDescriptor \<Rightarrow> nat" where
  "sharedPrefixTotal idx = sum_list (map (\<lambda>a. unat (anc_SharedPrefixLen a)) (idx_Ancestors idx))"

text \<open>
  The line of one visible column in the spec's words:
  \<^verbatim>\<open><quoted-name> <type> [NOT] NULL [DEFAULT <expr>]\<close>, comma-separated, each on its own line.
\<close>

definition columnLine :: "planner \<Rightarrow> nat \<Rightarrow> ColumnDescriptor \<Rightarrow> string" where
  "columnLine p i col =
     (if i \<noteq> 0 then '','' else []) @ [newline, tab] @
     AsString_NameList (prs p) [col_Name col] @ '' '' @ SQLString (prs p) (col_Type col) @
     (if col_Nullable col then '' NULL'' else '' NOT NULL'') @
     (case col_DefaultExpr col of Some e \<Rightarrow> '' DEFAULT '' @ e | None \<Rightarrow> [])"

fun columnLines :: "planner \<Rightarrow> nat \<Rightarrow> ColumnDescriptor list \<Rightarrow> string" where
  "columnLines p i [] = []"
| "columnLines p i (col # rest) = columnLine p i col @ columnLines p (Suc i) rest"

text \<open>
  The condition of the PRIMARY KEY clause in the spec's words: the table is physical and
  its primary index's first key column matches a currently visible column.
\<close>

definition primaryKeyOnVisibleColumn :: "TableDescriptor \<Rightarrow> bool" where
  "primaryKeyOnVisibleColumn desc =
     (IsPhysicalTable desc \<and>
      (case idx_ColumnIDs (td_PrimaryIndex desc) of
         [] \<Rightarrow> False
       | first # _ \<Rightarrow> first \<in> col_ID ` set (VisibleColumns desc)))"

text \<open>
  The rows of SHOW INDEX in the spec's words: per index, pass one emits one row per key
  column in its defined order with the column's direction, pass two emits one row per
  storing column with the direction "N/A", both passes sharing one sequence counter that
  ascends from 1; the primary index comes first, then the secondary indexes in
  descriptor order.
\<close>

definition indexRow ::
  "TableName \<Rightarrow> IndexDescriptor \<Rightarrow> nat \<Rightarrow> string \<Rightarrow> string \<Rightarrow> bool \<Rightarrow> DTuple" where
  "indexRow tn index sequence colName direction isStored =
     [DString (TableName tn), DString (idx_Name index), DBool (idx_Unique index),
      DInt (of_nat sequence), DString colName, DString direction, DBool isStored]"

definition keyColumnRows :: "TableName \<Rightarrow> IndexDescriptor \<Rightarrow> DTuple list" where
  "keyColumnRows tn index =
     map (\<lambda>(k, col, dir). indexRow tn index k col (IndexDirection_String dir) False)
       (enumerate 1 (zip (idx_ColumnNames index) (idx_ColumnDirections index)))"

definition storeColumnRows :: "TableName \<Rightarrow> IndexDescriptor \<Rightarrow> DTuple list" where
  "storeColumnRows tn index =
     map (\<lambda>(k, col). indexRow tn index k col ''N/A'' True)
       (enumerate (Suc (length (idx_ColumnNames index))) (idx_StoreColumnNames index))"

definition showIndexRows :: "TableName \<Rightarrow> TableDescriptor \<Rightarrow> DTuple list" where
  "showIndexRows tn desc =
     concat (map (\<lambda>index. keyColumnRows tn index @ storeColumnRows tn index)
               (td_PrimaryIndex desc # td_Indexes desc))"

definition sequenceOf :: "DTuple \<Rightarrow> int" where
  \<comment> \<open>the value of the column "Seq" of a row of SHOW INDEX\<close>
  "sequenceOf r = (case column r 3 of DInt i \<Rightarrow> sint i | _ \<Rightarrow> 0)"

definition columnNameOf :: "DTuple \<Rightarrow> string" where
  \<comment> \<open>the value of the column "Column" of a row of SHOW INDEX\<close>
  "columnNameOf r = (case column r 4 of DString s \<Rightarrow> s | _ \<Rightarrow> [])"

definition directionOf :: "DTuple \<Rightarrow> string" where
  \<comment> \<open>the value of the column "Direction" of a row of SHOW INDEX\<close>
  "directionOf r = (case column r 5 of DString s \<Rightarrow> s | _ \<Rightarrow> [])"

text \<open>
  The rows of SHOW ALL in the spec's words: one row (name, value) per registered
  variable, ordered by ascending variable name.
\<close>

definition varValue :: "planner \<Rightarrow> string \<Rightarrow> string" where
  "varValue p name = (case map_of varGen name of Some gen \<Rightarrow> gen p | None \<Rightarrow> [])"

definition showAllRows :: "planner \<Rightarrow> DTuple list" where
  "showAllRows p = map (\<lambda>name. [DString name, DString (varValue p name)]) varNames"

text \<open>
  The ordering of SHOW GRANTS in the spec's words: ascending by (object name, grantee,
  privilege kind), the first three columns of a row.
\<close>

definition grantKey :: "DTuple \<Rightarrow> (nat \<times> int \<times> string) \<times> (nat \<times> int \<times> string) \<times> (nat \<times> int \<times> string)" where
  "grantKey r = (datumKey (column r 0), datumKey (column r 1), datumKey (column r 2))"

definition grantsOrdering :: "ColumnOrderInfo list" where
  "grantsOrdering =
     [\<lparr>ColIdx = 0, Dir = Ascending\<rparr>, \<lparr>ColIdx = 1, Dir = Ascending\<rparr>,
      \<lparr>ColIdx = 2, Dir = Ascending\<rparr>]"

text \<open>
  The two privilege sources of SHOW GRANTS in the spec's words: the schema-level grants
  select (database, grantee, privilege) filtered by the database targets, the
  table-level grants select (table, grantee, privilege) filtered by the tables that the
  table targets expand to, both with the optional grantee list as a further filter. The
  targets and the grantees are passed as the positional parameters \<^verbatim>\<open>$1\<close>, \<^verbatim>\<open>$2\<close>, ... in
  that order, a table as the pair of its database and its name.
\<close>

fun decimal :: "nat \<Rightarrow> string" where
  "decimal n =
     (if n < 10 then [char_of (48 + n)] else decimal (n div 10) @ [char_of (48 + n mod 10)])"

declare decimal.simps [simp del]

definition placeholder :: "nat \<Rightarrow> string" where
  "placeholder k = ''$'' @ decimal k"

definition placeholders :: "nat \<Rightarrow> nat \<Rightarrow> string list" where
  \<comment> \<open>\<open>num\<close> placeholders from \<open>$first\<close> on\<close>
  "placeholders first num = map placeholder [first..<first + num]"

definition pairPlaceholders :: "nat \<Rightarrow> string list" where
  \<comment> \<open>\<^verbatim>\<open>($1,$2)\<close>, \<^verbatim>\<open>($3,$4)\<close>, ... for \<open>num\<close> tables\<close>
  "pairPlaceholders num =
     map (\<lambda>i. ''('' @ placeholder (2 * i + 1) @ '','' @ placeholder (2 * i + 2) @ '')'')
       [0..<num]"

definition granteeArgs :: "string list option \<Rightarrow> string list" where
  "granteeArgs grantees = (case grantees of None \<Rightarrow> [] | Some gs \<Rightarrow> gs)"

definition granteeFilter :: "nat \<Rightarrow> string list option \<Rightarrow> string" where
  "granteeFilter first grantees =
     (case grantees of
        None \<Rightarrow> []
      | Some gs \<Rightarrow> '' AND GRANTEE IN('' @ Join (placeholders first (length gs)) '','' @ '')'')"

definition schemaPrivilegesQuery :: "nat \<Rightarrow> string list option \<Rightarrow> string" where
  "schemaPrivilegesQuery databases grantees =
     ''SELECT TABLE_SCHEMA AS '' @ [dquote] @ ''Database'' @ [dquote] @
     '', GRANTEE AS '' @ [dquote] @ ''User'' @ [dquote] @ '','' @
     [newline] @ replicate 9 tab @
     ''PRIVILEGE_TYPE AS '' @ [dquote] @ ''Privileges'' @ [dquote] @
     '' FROM information_schema.schema_privileges'' @
     [newline] @ replicate 9 tab @
     ''WHERE TABLE_SCHEMA IN ('' @ Join (placeholders 1 databases) '','' @ '')'' @
     granteeFilter (Suc databases) grantees"

definition tablePrivilegesQuery :: "nat \<Rightarrow> string list option \<Rightarrow> string" where
  "tablePrivilegesQuery tables grantees =
     ''SELECT TABLE_NAME, GRANTEE, PRIVILEGE_TYPE FROM information_schema.table_privileges'' @
     [newline] @ replicate 9 tab @
     ''WHERE (TABLE_SCHEMA, TABLE_NAME) IN ('' @ Join (pairPlaceholders tables) '','' @ '')'' @
     granteeFilter (Suc (2 * tables)) grantees"

definition tableArgs :: "TableName list \<Rightarrow> string list" where
  "tableArgs ts = concat (map (\<lambda>t. [DatabaseName t, TableName t]) ts)"

text \<open>The tables that a list of table targets expands to, in the order of the targets.\<close>

fun expandTargets :: "planner \<Rightarrow> TablePattern list \<Rightarrow> error + TableName list" where
  "expandTargets p [] = Inr []"
| "expandTargets p (tableTarget # rest) =
     (case NormalizeTablePattern (prs p) tableTarget of
        Inl err \<Rightarrow> Inl err
      | Inr tableGlob \<Rightarrow>
          (case expandTableGlob (cat p) tableGlob of
             Inl err \<Rightarrow> Inl err
           | Inr tables \<Rightarrow>
               (case expandTargets p rest of
                  Inl err \<Rightarrow> Inl err
                | Inr others \<Rightarrow> Inr (tables @ others))))"

text \<open>
  What the table-scoped statements do before they build a plan, in one expression:
  resolve the qualified name against the session's database, fetch the descriptor, and
  check that the user holds any privilege on it.
\<close>

definition resolveAndCheck ::
  "planner \<Rightarrow> (TableName \<Rightarrow> error + TableDescriptor) \<Rightarrow> NormalizableTableName \<Rightarrow>
     error + (TableName \<times> TableDescriptor)" where
  "resolveAndCheck p fetch name =
     (case NormalizeWithDatabaseName name (Database (session p)) of
        Inl err \<Rightarrow> Inl err
      | Inr tn \<Rightarrow>
          (case fetch tn of
             Inl err \<Rightarrow> Inl err
           | Inr desc \<Rightarrow>
               (case anyPrivilege (cat p) (User (session p)) desc of
                  Some err \<Rightarrow> Inl err
                | None \<Rightarrow> Inr (tn, desc))))"

definition closedAfter :: "cbresult \<Rightarrow> bool option" where
  \<comment> \<open>whether the rows of the values node were closed when the constructor ended;
      \<open>None\<close> when it created no values node\<close>
  "closedAfter r = map_option (\<lambda>v. closed (vn_rows v)) (container r)"

subsection \<open>Concrete inputs\<close>

text \<open>
  A planner whose catalog knows nothing: every probe finds no row, every lookup fails.
  Names are quoted by joining them with a comma; the memory monitor accepts every row.
\<close>

definition catalog0 :: catalog where
  "catalog0 =
     \<lparr>queryRowsAsRoot = (\<lambda>db sql args. Inr []),
      queryRows = (\<lambda>db sql args. Inr []),
      QueryRow = (\<lambda>db sql args. Inr []),
      getVirtualTableDesc = (\<lambda>tn. Inr None),
      mustGetTableDesc = (\<lambda>tn. Inl (UndefinedTableError (TableName_String tn))),
      mustGetViewDesc = (\<lambda>tn. Inl (UndefinedTableError (TableName_String tn))),
      anyPrivilege = (\<lambda>user desc. None),
      GetTableDescFromID = (\<lambda>i. Inl (CollaboratorError ''descriptor not found'')),
      GetConstraintInfo = (\<lambda>desc. Inr []),
      expandTableGlob = (\<lambda>pat. Inr [])\<rparr>"

definition parserfns0 :: parserfns where
  "parserfns0 =
     \<lparr>ParseOneTraditional = (\<lambda>sql. Inl (CollaboratorError ''syntax error'')),
      planSelect = (\<lambda>skip sel. Inr []),
      NormalizeTablePattern = (\<lambda>pat. Inr pat),
      AsString_NameList = (\<lambda>names. Join names '', ''),
      SQLString = (\<lambda>t. ''INT''),
      Builtins = (\<lambda>name. None),
      IsolationType_String = (\<lambda>i. if i = 0 then ''SERIALIZABLE'' else ''SNAPSHOT''),
      Syntax_String = (\<lambda>i. ''Traditional''),
      UserPriority_String = (\<lambda>w. ''NORMAL'')\<rparr>"

definition planner0 :: planner where
  "planner0 =
     \<lparr>session = \<lparr>Database = ''d'', User = ''alice'', DefaultIsolationLevel = 0, Syntax = 0,
                  Location = ''UTC'', SearchPath = [''pg_catalog'']\<rparr>,
      txn = \<lparr>Isolation = 0, UserPriority = 0\<rparr>,
      evalCtx_Database = ''d'',
      skipSelectPrivilegeChecks = False,
      accepts = (\<lambda>rows r. True),
      cat = catalog0,
      prs = parserfns0\<rparr>"

definition index0 :: IndexDescriptor where
  "index0 =
     \<lparr>idx_Name = ''primary'', idx_Unique = True,
      idx_ColumnNames = [''a'', ''b'', ''c''], idx_ColumnNames_spare = [],
      idx_ColumnDirections = [ASC, ASC, DESC], idx_ColumnIDs = [1, 2, 3],
      idx_StoreColumnNames = [], idx_Ancestors = []\<rparr>"

definition table0 :: TableDescriptor where
  "table0 =
     \<lparr>td_Name = ''parent'', td_Columns = [], td_PrimaryIndex = index0, td_Indexes = [],
      td_Families = [], td_Checks = [], td_ViewQuery = [], td_IsPhysicalTable = True\<rparr>"

text \<open>A planner that finds the descriptor \<open>table0\<close> under every table id.\<close>

definition planner1 :: planner where
  "planner1 = planner0\<lparr>cat := catalog0\<lparr>GetTableDescFromID := (\<lambda>i. Inr table0)\<rparr>\<rparr>"

text \<open>
  An index interleaved two levels deep, each ancestor sharing one key column, and one
  whose two ancestors each share two of its three key columns. The key-column name
  slices of both are full: their capacity is their length.
\<close>

definition index1 :: IndexDescriptor where
  "index1 =
     index0\<lparr>idx_Ancestors :=
       [\<lparr>anc_TableID = 51, anc_SharedPrefixLen = 1\<rparr>, \<lparr>anc_TableID = 52, anc_SharedPrefixLen = 1\<rparr>]\<rparr>"

definition index2 :: IndexDescriptor where
  "index2 =
     index0\<lparr>idx_Ancestors :=
       [\<lparr>anc_TableID = 51, anc_SharedPrefixLen = 2\<rparr>, \<lparr>anc_TableID = 52, anc_SharedPrefixLen = 2\<rparr>]\<rparr>"

text \<open>
  The same index as \<open>index2\<close> with a key-column name slice of length 3 and capacity 4,
  the fourth element of the backing array being the empty string; and an index with two
  key columns, a name slice of capacity 3, and two ancestors sharing two and one.
\<close>

definition index2c :: IndexDescriptor where
  "index2c = index2\<lparr>idx_ColumnNames_spare := [[]]\<rparr>"

definition index3c :: IndexDescriptor where
  "index3c =
     \<lparr>idx_Name = ''primary'', idx_Unique = True,
      idx_ColumnNames = [''a'', ''b''], idx_ColumnNames_spare = [[]],
      idx_ColumnDirections = [ASC, ASC], idx_ColumnIDs = [1, 2],
      idx_StoreColumnNames = [],
      idx_Ancestors =
        [\<lparr>anc_TableID = 51, anc_SharedPrefixLen = 2\<rparr>, \<lparr>anc_TableID = 52, anc_SharedPrefixLen = 1\<rparr>]\<rparr>"

text \<open>
  A table \<^verbatim>\<open>t (a INT NOT NULL, b INT NULL DEFAULT 5)\<close> with the primary key on \<^verbatim>\<open>a\<close>; the same
  table with the primary key on a hidden \<^verbatim>\<open>rowid\<close> column instead; and a physical table
  whose primary index has no key column.
\<close>

definition column_a :: ColumnDescriptor where
  "column_a =
     \<lparr>col_Name = ''a'', col_ID = 1, col_Type = 0, col_Nullable = False,
      col_DefaultExpr = None, col_Active = True\<rparr>"

definition column_b :: ColumnDescriptor where
  "column_b =
     \<lparr>col_Name = ''b'', col_ID = 2, col_Type = 0, col_Nullable = True,
      col_DefaultExpr = Some ''5'', col_Active = True\<rparr>"

definition column_rowid :: ColumnDescriptor where
  "column_rowid =
     \<lparr>col_Name = ''rowid'', col_ID = 3, col_Type = 0, col_Nullable = False,
      col_DefaultExpr = Some ''unique_rowid()'', col_Active = False\<rparr>"

definition index_a :: IndexDescriptor where
  "index_a =
     \<lparr>idx_Name = ''primary'', idx_Unique = True,
      idx_ColumnNames = [''a''], idx_ColumnNames_spare = [],
      idx_ColumnDirections = [ASC], idx_ColumnIDs = [1], idx_StoreColumnNames = [],
      idx_Ancestors = []\<rparr>"

definition index_rowid :: IndexDescriptor where
  "index_rowid =
     \<lparr>idx_Name = ''primary'', idx_Unique = True,
      idx_ColumnNames = [''rowid''], idx_ColumnNames_spare = [],
      idx_ColumnDirections = [ASC], idx_ColumnIDs = [3], idx_StoreColumnNames = [],
      idx_Ancestors = []\<rparr>"

definition index_nokey :: IndexDescriptor where
  "index_nokey =
     \<lparr>idx_Name = ''primary'', idx_Unique = True,
      idx_ColumnNames = [], idx_ColumnNames_spare = [],
      idx_ColumnDirections = [], idx_ColumnIDs = [], idx_StoreColumnNames = [],
      idx_Ancestors = []\<rparr>"

definition table_a :: TableDescriptor where
  "table_a =
     \<lparr>td_Name = ''t'', td_Columns = [column_a, column_b], td_PrimaryIndex = index_a,
      td_Indexes = [], td_Families = [], td_Checks = [], td_ViewQuery = [],
      td_IsPhysicalTable = True\<rparr>"

definition table_rowid :: TableDescriptor where
  "table_rowid =
     table_a\<lparr>td_Columns := [column_a, column_b, column_rowid], td_PrimaryIndex := index_rowid\<rparr>"

definition table_nokey :: TableDescriptor where
  "table_nokey = table_a\<lparr>td_PrimaryIndex := index_nokey\<rparr>"

definition name_t :: NormalizableTableName where
  "name_t = \<lparr>DatabaseName = [], TableName = ''t''\<rparr>"

definition stmt_t :: ShowCreateTableStmt where
  "stmt_t = \<lparr>sct_Table = name_t\<rparr>"

text \<open>
  Planners whose catalog holds, under the name \<^verbatim>\<open>d.t\<close> only, the table with the primary key
  on \<^verbatim>\<open>a\<close>, and the table with the primary key on \<^verbatim>\<open>rowid\<close>.
\<close>

definition planner_table_a :: planner where
  "planner_table_a =
     planner0\<lparr>cat := catalog0\<lparr>mustGetTableDesc :=
       (\<lambda>tn. if tn = \<lparr>DatabaseName = ''d'', TableName = ''t''\<rparr> then Inr table_a
             else Inl (UndefinedTableError (TableName_String tn)))\<rparr>\<rparr>"

definition planner_table_rowid :: planner where
  "planner_table_rowid =
     planner0\<lparr>cat := catalog0\<lparr>mustGetTableDesc :=
       (\<lambda>tn. if tn = \<lparr>DatabaseName = ''d'', TableName = ''t''\<rparr> then Inr table_rowid
             else Inl (UndefinedTableError (TableName_String tn)))\<rparr>\<rparr>"

text \<open>The text of SHOW CREATE TABLE for the table with the primary key on \<^verbatim>\<open>a\<close>.\<close>

definition text_a :: string where
  "text_a =
     ''CREATE TABLE t ('' @ [newline, tab] @ ''a INT NOT NULL,'' @ [newline, tab] @
     ''b INT NULL DEFAULT 5,'' @ [newline, tab] @ ''CONSTRAINT primary PRIMARY KEY (a)'' @
     [newline] @ '')''"

text \<open>
  The table \<^verbatim>\<open>t\<close> with a unique secondary index on \<^verbatim>\<open>(b, c DESC)\<close> that stores \<^verbatim>\<open>d\<close>, and the
  rows SHOW INDEX has for it.
\<close>

definition index_bc :: IndexDescriptor where
  "index_bc =
     \<lparr>idx_Name = ''t_b_c_key'', idx_Unique = True,
      idx_ColumnNames = [''b'', ''c''], idx_ColumnNames_spare = [],
      idx_ColumnDirections = [ASC, DESC], idx_ColumnIDs = [2, 3],
      idx_StoreColumnNames = [''d''], idx_Ancestors = []\<rparr>"

definition table_idx :: TableDescriptor where
  "table_idx = table_a\<lparr>td_Indexes := [index_bc]\<rparr>"

definition tn_t :: TableName where
  "tn_t = \<lparr>DatabaseName = ''d'', TableName = ''t''\<rparr>"

definition rows_idx :: "DTuple list" where
  "rows_idx =
     [[DString ''t'', DString ''primary'', DBool True, DInt 1, DString ''a'', DString ''ASC'',
       DBool False],
      [DString ''t'', DString ''t_b_c_key'', DBool True, DInt 1, DString ''b'', DString ''ASC'',
       DBool False],
      [DString ''t'', DString ''t_b_c_key'', DBool True, DInt 2, DString ''c'', DString ''DESC'',
       DBool False],
      [DString ''t'', DString ''t_b_c_key'', DBool True, DInt 3, DString ''d'', DString ''N/A'',
       DBool True]]"

text \<open>A planner whose catalog holds the table \<open>table_idx\<close> under the name \<^verbatim>\<open>d.t\<close> only.\<close>

definition planner_table_idx :: planner where
  "planner_table_idx =
     planner0\<lparr>cat := catalog0\<lparr>mustGetTableDesc :=
       (\<lambda>tn. if tn = \<lparr>DatabaseName = ''d'', TableName = ''t''\<rparr> then Inr table_idx
             else Inl (UndefinedTableError (TableName_String tn)))\<rparr>\<rparr>"

text \<open>
  Planners for SHOW COLUMNS: one whose catalog has the database but not the table, one
  whose catalog has both and no privilege for the user, and one for which the table is
  a virtual table.
\<close>

definition planner_db :: planner where
  "planner_db =
     planner0\<lparr>cat := catalog0\<lparr>queryRowsAsRoot :=
       (\<lambda>db sql args. if sql = checkSchema then Inr [[DString ''d'']] else Inr [])\<rparr>\<rparr>"

definition planner_tbl :: planner where
  "planner_tbl =
     planner0\<lparr>cat := catalog0\<lparr>queryRowsAsRoot := (\<lambda>db sql args. Inr [[DString ''d'']])\<rparr>\<rparr>"

definition planner_virt :: planner where
  "planner_virt =
     planner0\<lparr>cat := catalog0\<lparr>queryRowsAsRoot := (\<lambda>db sql args. Inr [[DString ''d'']]),
                              getVirtualTableDesc := (\<lambda>tn. Inr (Some table0))\<rparr>\<rparr>"

text \<open>
  A planner whose catalog has the database and the table, one privilege of the user on
  the table, and one column of the table.
\<close>

definition planner_priv :: planner where
  "planner_priv =
     planner0\<lparr>cat := catalog0\<lparr>queryRowsAsRoot := (\<lambda>db sql args. Inr [[DString ''d'']]),
       QueryRow :=
         (\<lambda>db sql args. if sql = checkTablePrivilege \<and> args = [''d'', ''t'', ''alice'']
                        then Inr [DString ''SELECT''] else Inr []),
       queryRows :=
         (\<lambda>db sql args. if db = ''d'' \<and> sql = getColumns \<and> args = [''d'', ''t'']
                        then Inr [[DString ''a'', DString ''INT'', DBool False, DNull]]
                        else Inr [])\<rparr>\<rparr>"

definition stmt_missingdb :: ShowColumnsStmt where
  "stmt_missingdb = \<lparr>sc_Table = \<lparr>DatabaseName = ''missingdb'', TableName = ''t''\<rparr>\<rparr>"

text \<open>
  SHOW GRANTS with the three grants of the spec's example, in the order the catalog
  returns them. The catalog answers three queries with rows and every other query with
  no row: the table-level query for the one table \<^verbatim>\<open>d.t\<close> and the grantees \<^verbatim>\<open>alice\<close>, \<^verbatim>\<open>bob\<close>;
  the table-level query for the table \<^verbatim>\<open>d.t\<close> and any grantee; and the schema-level query
  for the database \<^verbatim>\<open>zoo\<close> and any grantee. The statements are
  \<^verbatim>\<open>SHOW GRANTS ON t FOR alice, bob\<close>, and one with the database target \<^verbatim>\<open>zoo\<close> and the table
  target \<^verbatim>\<open>t\<close> at once.
\<close>

definition grants_rows :: "DTuple list" where
  "grants_rows =
     [[DString ''t'', DString ''alice'', DString ''SELECT''],
      [DString ''t'', DString ''bob'', DString ''SELECT''],
      [DString ''t'', DString ''alice'', DString ''INSERT'']]"

definition planner_grants :: planner where
  "planner_grants =
     planner0\<lparr>cat := catalog0\<lparr>
       queryRowsAsRoot := (\<lambda>db sql args. Inr [[DString ''d'']]),
       queryRows :=
         (\<lambda>db sql args.
            if sql =
                 ''SELECT TABLE_NAME, GRANTEE, PRIVILEGE_TYPE FROM information_schema.table_privileges'' @
                 [newline] @ replicate 9 tab @
                 ''WHERE (TABLE_SCHEMA, TABLE_NAME) IN (($1,$2)) AND GRANTEE IN($3,$4)'' \<and>
               args = [''d'', ''t'', ''alice'', ''bob'']
            then Inr grants_rows
            else if sql =
                 ''SELECT TABLE_NAME, GRANTEE, PRIVILEGE_TYPE FROM information_schema.table_privileges'' @
                 [newline] @ replicate 9 tab @
                 ''WHERE (TABLE_SCHEMA, TABLE_NAME) IN (($1,$2))'' \<and>
               args = [''d'', ''t'']
            then Inr grants_rows
            else if sql =
                 ''SELECT TABLE_SCHEMA AS '' @ [dquote] @ ''Database'' @ [dquote] @
                 '', GRANTEE AS '' @ [dquote] @ ''User'' @ [dquote] @ '','' @
                 [newline] @ replicate 9 tab @
                 ''PRIVILEGE_TYPE AS '' @ [dquote] @ ''Privileges'' @ [dquote] @
                 '' FROM information_schema.schema_privileges'' @
                 [newline] @ replicate 9 tab @
                 ''WHERE TABLE_SCHEMA IN ($1)'' \<and>
               args = [''zoo'']
            then Inr [[DString ''zoo'', DString ''alice'', DString ''ALL'']]
            else Inr []),
       expandTableGlob := (\<lambda>pat. if pat = ''t'' then Inr [tn_t] else Inr [])\<rparr>\<rparr>"

definition targets_t :: TargetList where
  "targets_t = \<lparr>Databases = None, Tables = Some [''t'']\<rparr>"

definition stmt_grants :: ShowGrantsStmt where
  "stmt_grants = \<lparr>sg_Targets = Some targets_t, sg_Grantees = Some [''alice'', ''bob'']\<rparr>"

definition targets_zoo_t :: TargetList where
  "targets_zoo_t = \<lparr>Databases = Some [''zoo''], Tables = Some [''t'']\<rparr>"

definition stmt_grants_both :: ShowGrantsStmt where
  "stmt_grants_both = \<lparr>sg_Targets = Some targets_zoo_t, sg_Grantees = None\<rparr>"

text \<open>
  A planner whose catalog has the table \<^verbatim>\<open>t\<close> and gives the user no privilege on it; a
  view \<^verbatim>\<open>v\<close> with planners that find it, one whose parser rejects the stored text, one for
  which the stored query no longer plans, and one whose memory monitor refuses every
  row; and a planner for which the constraints of \<^verbatim>\<open>t\<close> cannot be read.
\<close>

definition planner_nopriv :: planner where
  "planner_nopriv =
     planner0\<lparr>cat := catalog0\<lparr>mustGetTableDesc := (\<lambda>tn. Inr table_a),
         anyPrivilege := (\<lambda>user desc. Some (NoPrivilegesOnTable user (td_Name desc)))\<rparr>\<rparr>"

definition view0 :: TableDescriptor where
  "view0 =
     \<lparr>td_Name = ''v'', td_Columns = [column_a], td_PrimaryIndex = index_nokey, td_Indexes = [],
      td_Families = [], td_Checks = [], td_ViewQuery = ''SELECT a FROM t'',
      td_IsPhysicalTable = False\<rparr>"

definition name_v :: NormalizableTableName where
  "name_v = \<lparr>DatabaseName = [], TableName = ''v''\<rparr>"

definition tn_v :: TableName where
  "tn_v = \<lparr>DatabaseName = ''d'', TableName = ''v''\<rparr>"

definition stmt_v :: ShowCreateViewStmt where
  "stmt_v = \<lparr>scv_View = name_v\<rparr>"

definition planner_view :: planner where
  "planner_view = planner0\<lparr>cat := catalog0\<lparr>mustGetViewDesc := (\<lambda>tn. Inr view0)\<rparr>\<rparr>"

definition planner_view_unplannable :: planner where
  "planner_view_unplannable =
     planner_view\<lparr>prs := parserfns0\<lparr>
       ParseOneTraditional := (\<lambda>sql. Inr (SelectStatement sql)),
       planSelect := (\<lambda>skip sel. Inl (UndefinedTableError ''d.t''))\<rparr>\<rparr>"

definition planner_view_full :: planner where
  "planner_view_full =
     planner_view\<lparr>accepts := (\<lambda>rows r. False),
       prs := parserfns0\<lparr>
         ParseOneTraditional := (\<lambda>sql. Inr (SelectStatement sql)),
         planSelect := (\<lambda>skip sel. Inr [\<lparr>rc_Name = ''a'', rc_Typ = TypeInt\<rparr>])\<rparr>\<rparr>"

definition planner_constraints :: planner where
  "planner_constraints =
     planner0\<lparr>cat := catalog0\<lparr>mustGetTableDesc := (\<lambda>tn. Inr table_a),
         GetConstraintInfo := (\<lambda>desc. Inl (CollaboratorError ''descriptor not found''))\<rparr>\<rparr>"

definition planner_constraints_full :: planner where
  "planner_constraints_full =
     planner0\<lparr>accepts := (\<lambda>rows r. False),
       cat := catalog0\<lparr>mustGetTableDesc := (\<lambda>tn. Inr table_a),
         GetConstraintInfo := (\<lambda>desc. Inr [(''primary'',
            \<lparr>cd_Kind = ''PRIMARY KEY'', cd_Columns = Some [''a''], cd_Details = [],
             cd_Unvalidated = False\<rparr>)])\<rparr>\<rparr>"

definition runPlan :: "planner \<Rightarrow> error + delayedNode \<Rightarrow> (planNode result \<times> bool option) option" where
  \<comment> \<open>run the constructor of a plan that was built: its outcome, and whether it closed its
      rows; \<open>None\<close> when no plan was built\<close>
  "runPlan p built =
     (case built of
        Inl err \<Rightarrow> None
      | Inr d \<Rightarrow> Some (outcome (dn_constructor d p), closedAfter (dn_constructor d p)))"

section \<open>Theorems\<close>

subsection \<open>Shared lemmas: Go's int and slices\<close>

lemma sumSharedPrefixLen_eq:
  "sumSharedPrefixLen acc ancs =
     acc + of_nat (sum_list (map (\<lambda>a. unat (anc_SharedPrefixLen a)) ancs))"
  by (induction ancs arbitrary: acc) (simp_all add: algebra_simps)

lemma sint_of_nat_small:
  assumes "n < 2 ^ 63"
  shows "sint (of_nat n :: 64 word) = int n"
proof -
  have "int n < 2 ^ 63"
    using assms by (metis of_nat_less_numeral_power_cancel_iff)
  moreover have "- (2 ^ 63) \<le> int n"
    by (smt (verit) zero_le_power of_nat_0_le_iff)
  ultimately have "signed_take_bit 63 (int n) = int n"
    by (rule signed_take_bit_int_eq_self[rotated])
  then show ?thesis
    by (simp add: signed_of_nat)
qed

lemma sliceTo_of_nat:
  assumes "n < 2 ^ 63"
  shows "sliceTo xs spare (of_nat n :: 64 word) =
           (if n \<le> length xs + length spare then Inr (take n (xs @ spare))
            else Inl SliceBoundsOutOfRange)"
  using assms by (auto simp: sliceTo_def sint_of_nat_small)

lemma sumSharedPrefixLen_total:
  "sumSharedPrefixLen 0 (idx_Ancestors idx) = of_nat (sharedPrefixTotal idx)"
  by (simp add: sumSharedPrefixLen_eq sharedPrefixTotal_def)

lemma showCreateInterleave_cases:
  assumes "sharedPrefixTotal idx < 2 ^ 63"
  shows "showCreateInterleave p idx =
    (if idx_Ancestors idx = [] then Ok []
     else case GetTableDescFromID (cat p) (anc_TableID (last (idx_Ancestors idx))) of
        Inl err \<Rightarrow> Err err
      | Inr parent \<Rightarrow>
          if sharedPrefixTotal idx \<le> length (idx_ColumnNames idx) + length (idx_ColumnNames_spare idx)
          then Ok ('' INTERLEAVE IN PARENT '' @ td_Name parent @ '' ('' @
                    AsString_NameList (prs p)
                      (take (sharedPrefixTotal idx) (idx_ColumnNames idx @ idx_ColumnNames_spare idx)) @
                    '')'')
          else Panic SliceBoundsOutOfRange)"
  unfolding showCreateInterleave_def sumSharedPrefixLen_total sliceTo_of_nat[OF assms]
  by (simp add: quoteNames_def split: sum.splits)

lemma sharedPrefixTotal_index1: "sharedPrefixTotal index1 = 2"
  by (simp add: sharedPrefixTotal_def index1_def)

lemma sharedPrefixTotal_index2: "sharedPrefixTotal index2 = 4"
  by (simp add: sharedPrefixTotal_def index2_def)

lemma sharedPrefixTotal_index2c: "sharedPrefixTotal index2c = 4"
  by (simp add: sharedPrefixTotal_def index2c_def index2_def)

lemma sharedPrefixTotal_index3c: "sharedPrefixTotal index3c = 3"
  by (simp add: sharedPrefixTotal_def index3c_def)

lemmas concrete_defs =
  index0_def index1_def index2_def index2c_def index3c_def table0_def planner0_def planner1_def
  catalog0_def parserfns0_def quoteNames_def

subsection \<open>The interleave clause\<close>

text \<open>
  Claim C4, amended. The INTERLEAVE IN PARENT clause of an index is empty when
  the index has no interleave ancestors. Otherwise, once the parent descriptor is found,
  the clause names the table of the last ancestor in the list and lists the first N
  elements of the backing array of the key-column names, N being the sum of the
  shared-prefix lengths of all ancestors: these are the first N key columns of the index
  whenever N does not exceed their number, and the key columns followed by whatever the
  array holds up to its capacity beyond that. The descriptor lookup may fail instead, and
  N beyond the capacity is a panic. The sum is taken in Go's 64-bit \<^verbatim>\<open>int\<close>, which holds it
  as long as it is below \<open>2 ^ 63\<close>.
\<close>

theorem showCreateInterleave_clause:
  assumes "sharedPrefixTotal idx < 2 ^ 63"
  shows "(idx_Ancestors idx = [] \<longrightarrow> showCreateInterleave p idx = Ok []) \<and>
         (idx_Ancestors idx \<noteq> [] \<longrightarrow>
            (\<forall>s. showCreateInterleave p idx = Ok s \<longrightarrow>
               (\<exists>parent.
                  GetTableDescFromID (cat p) (anc_TableID (last (idx_Ancestors idx))) = Inr parent \<and>
                  sharedPrefixTotal idx \<le>
                    length (idx_ColumnNames idx) + length (idx_ColumnNames_spare idx) \<and>
                  s = '' INTERLEAVE IN PARENT '' @ td_Name parent @ '' ('' @
                      AsString_NameList (prs p)
                        (take (sharedPrefixTotal idx)
                           (idx_ColumnNames idx @ idx_ColumnNames_spare idx)) @ '')'')) \<and>
            (\<forall>parent.
               GetTableDescFromID (cat p) (anc_TableID (last (idx_Ancestors idx))) = Inr parent \<longrightarrow>
               sharedPrefixTotal idx \<le>
                 length (idx_ColumnNames idx) + length (idx_ColumnNames_spare idx) \<longrightarrow>
               showCreateInterleave p idx =
                 Ok ('' INTERLEAVE IN PARENT '' @ td_Name parent @ '' ('' @
                     AsString_NameList (prs p)
                       (take (sharedPrefixTotal idx)
                          (idx_ColumnNames idx @ idx_ColumnNames_spare idx)) @ '')'')) \<and>
            (\<forall>parent.
               GetTableDescFromID (cat p) (anc_TableID (last (idx_Ancestors idx))) = Inr parent \<longrightarrow>
               sharedPrefixTotal idx \<le> length (idx_ColumnNames idx) \<longrightarrow>
               showCreateInterleave p idx =
                 Ok ('' INTERLEAVE IN PARENT '' @ td_Name parent @ '' ('' @
                     AsString_NameList (prs p)
                       (take (sharedPrefixTotal idx) (idx_ColumnNames idx)) @ '')'')))"
  unfolding showCreateInterleave_cases[OF assms]
  by (auto split: sum.splits if_splits)

theorem showCreateInterleave_clause_witness:
  "sharedPrefixTotal index1 < 2 ^ 63 \<and>
   idx_Ancestors index1 \<noteq> [] \<and>
   GetTableDescFromID (cat planner1) (anc_TableID (last (idx_Ancestors index1))) = Inr table0 \<and>
   sharedPrefixTotal index1 \<le> length (idx_ColumnNames index1) \<and>
   sharedPrefixTotal index1 \<le>
     length (idx_ColumnNames index1) + length (idx_ColumnNames_spare index1) \<and>
   showCreateInterleave planner1 index1 = Ok '' INTERLEAVE IN PARENT parent (a, b)'' \<and>
   idx_Ancestors index0 = [] \<and>
   showCreateInterleave planner1 index0 = Ok []"
proof -
  have t0: "sharedPrefixTotal index0 < 2 ^ 63"
    by (simp add: sharedPrefixTotal_def index0_def)
  have a0: "idx_Ancestors index0 = []"
    by (simp add: index0_def)
  have t1: "sharedPrefixTotal index1 < 2 ^ 63"
    by (simp add: sharedPrefixTotal_index1)
  have a1: "idx_Ancestors index1 \<noteq> []"
    by (simp add: index1_def)
  have g1: "GetTableDescFromID (cat planner1) (anc_TableID (last (idx_Ancestors index1))) = Inr table0"
    by (simp add: planner1_def planner0_def)
  have l1: "sharedPrefixTotal index1 \<le> length (idx_ColumnNames index1)"
    by (simp add: sharedPrefixTotal_index1) (simp add: index1_def index0_def)
  have c1: "sharedPrefixTotal index1 \<le>
      length (idx_ColumnNames index1) + length (idx_ColumnNames_spare index1)"
    using l1 by simp
  have text1: "'' INTERLEAVE IN PARENT '' @ td_Name table0 @ '' ('' @
      AsString_NameList (prs planner1)
        (take (sharedPrefixTotal index1) (idx_ColumnNames index1)) @ '')'' =
      '' INTERLEAVE IN PARENT parent (a, b)''"
    unfolding sharedPrefixTotal_index1 by (simp add: concrete_defs numeral_2_eq_2)
  have "showCreateInterleave planner1 index1 =
          Ok ('' INTERLEAVE IN PARENT '' @ td_Name table0 @ '' ('' @
              AsString_NameList (prs planner1)
                (take (sharedPrefixTotal index1) (idx_ColumnNames index1)) @ '')'')"
    using showCreateInterleave_clause[OF t1, of planner1] a1 g1 l1 by blast
  then have r1: "showCreateInterleave planner1 index1 = Ok '' INTERLEAVE IN PARENT parent (a, b)''"
    unfolding text1 .
  have r0: "showCreateInterleave planner1 index0 = Ok []"
    using showCreateInterleave_clause[OF t0, of planner1] a0 by blast
  show ?thesis
    using t1 a1 g1 l1 c1 r1 a0 r0 by simp
qed

text \<open>
  Claim C4, at a concrete input. The two key columns \<^verbatim>\<open>a\<close>, \<^verbatim>\<open>b\<close> of \<open>index3c\<close> lie in an
  array of capacity 3 and its ancestors share 2 and 1: the sum is 3, and the clause
  lists three names, the third of which is no key column of the index.
\<close>

theorem showCreateInterleave_clause_counterexample:
  "showCreateInterleave planner1 index3c = Ok '' INTERLEAVE IN PARENT parent (a, b, )'' \<and>
   idx_ColumnNames index3c = [''a'', ''b''] \<and>
   sharedPrefixTotal index3c = 3"
proof -
  have t: "sharedPrefixTotal index3c < 2 ^ 63"
    by (simp add: sharedPrefixTotal_index3c)
  have "showCreateInterleave planner1 index3c = Ok '' INTERLEAVE IN PARENT parent (a, b, )''"
    unfolding showCreateInterleave_cases[OF t] sharedPrefixTotal_index3c
    by (simp add: concrete_defs numeral_3_eq_3)
  then show ?thesis
    by (simp add: sharedPrefixTotal_index3c) (simp add: index3c_def)
qed

text \<open>
  Claim C10, amended. \<^verbatim>\<open>idx.ColumnNames[:sharedPrefixLen]\<close> is reached, for an
  index with at least one interleave ancestor, once the parent descriptor is found, and
  nothing checks its bound before: the function panics exactly when the sum of the
  shared-prefix lengths exceeds the capacity of the key-column name slice. A sum within
  the number of key columns is therefore enough for the slice to be in range; it implies
  the invariant the spec states for each ancestor alone, and is not implied by it:
  \<open>index2\<close> has three key columns and two ancestors that share two each.
\<close>

theorem showCreateInterleave_slice_in_bounds:
  assumes "idx_Ancestors idx \<noteq> []"
    and "sharedPrefixTotal idx < 2 ^ 63"
    and "GetTableDescFromID (cat p) (anc_TableID (last (idx_Ancestors idx))) = Inr parent"
  shows "((\<exists>pnc. showCreateInterleave p idx = Panic pnc) \<longleftrightarrow>
            length (idx_ColumnNames idx) + length (idx_ColumnNames_spare idx) <
              sharedPrefixTotal idx) \<and>
         (showCreateInterleave p idx = Panic SliceBoundsOutOfRange \<longleftrightarrow>
            length (idx_ColumnNames idx) + length (idx_ColumnNames_spare idx) <
              sharedPrefixTotal idx) \<and>
         (sharedPrefixTotal idx \<le> length (idx_ColumnNames idx) \<longrightarrow>
            (\<exists>s. showCreateInterleave p idx = Ok s)) \<and>
         (sharedPrefixTotal idx \<le> length (idx_ColumnNames idx) \<longrightarrow>
            (\<forall>a \<in> set (idx_Ancestors idx).
               unat (anc_SharedPrefixLen a) \<le> length (idx_ColumnNames idx))) \<and>
         (\<forall>a \<in> set (idx_Ancestors index2).
            unat (anc_SharedPrefixLen a) \<le> length (idx_ColumnNames index2)) \<and>
         \<not> sharedPrefixTotal index2 \<le> length (idx_ColumnNames index2)"
proof -
  have per_ancestor: "unat (anc_SharedPrefixLen a) \<le> sharedPrefixTotal idx"
    if "a \<in> set (idx_Ancestors idx)" for a
    using that unfolding sharedPrefixTotal_def
    by (simp add: member_le_sum_list)
  have "\<forall>a \<in> set (idx_Ancestors idx).
          unat (anc_SharedPrefixLen a) \<le> length (idx_ColumnNames idx)"
    if "sharedPrefixTotal idx \<le> length (idx_ColumnNames idx)"
    using that per_ancestor by (meson order_trans)
  moreover have "\<forall>a \<in> set (idx_Ancestors index2).
      unat (anc_SharedPrefixLen a) \<le> length (idx_ColumnNames index2)"
    by (simp add: index2_def index0_def)
  moreover have "\<not> sharedPrefixTotal index2 \<le> length (idx_ColumnNames index2)"
    by (simp add: sharedPrefixTotal_index2) (simp add: index2_def index0_def)
  ultimately show ?thesis
    unfolding showCreateInterleave_cases[OF assms(2)]
    using assms(1,3) by simp
qed

theorem showCreateInterleave_slice_in_bounds_witness:
  "idx_Ancestors index2 \<noteq> [] \<and>
   sharedPrefixTotal index2 < 2 ^ 63 \<and>
   GetTableDescFromID (cat planner1) (anc_TableID (last (idx_Ancestors index2))) = Inr table0 \<and>
   length (idx_ColumnNames index2) + length (idx_ColumnNames_spare index2) <
     sharedPrefixTotal index2 \<and>
   showCreateInterleave planner1 index2 = Panic SliceBoundsOutOfRange \<and>
   idx_Ancestors index1 \<noteq> [] \<and>
   sharedPrefixTotal index1 \<le> length (idx_ColumnNames index1) \<and>
   (\<exists>s. showCreateInterleave planner1 index1 = Ok s)"
proof -
  have a: "idx_Ancestors index2 \<noteq> []"
    by (simp add: index2_def)
  have t: "sharedPrefixTotal index2 < 2 ^ 63"
    by (simp add: sharedPrefixTotal_index2)
  have g: "GetTableDescFromID (cat planner1) (anc_TableID (last (idx_Ancestors index2))) = Inr table0"
    by (simp add: planner1_def planner0_def)
  have l: "length (idx_ColumnNames index2) + length (idx_ColumnNames_spare index2) <
      sharedPrefixTotal index2"
    by (simp add: sharedPrefixTotal_index2) (simp add: index2_def index0_def)
  have a1: "idx_Ancestors index1 \<noteq> []"
    by (simp add: index1_def)
  have t1: "sharedPrefixTotal index1 < 2 ^ 63"
    by (simp add: sharedPrefixTotal_index1)
  have g1: "GetTableDescFromID (cat planner1) (anc_TableID (last (idx_Ancestors index1))) = Inr table0"
    by (simp add: planner1_def planner0_def)
  have l1: "sharedPrefixTotal index1 \<le> length (idx_ColumnNames index1)"
    by (simp add: sharedPrefixTotal_index1) (simp add: index1_def index0_def)
  have r1: "\<exists>s. showCreateInterleave planner1 index1 = Ok s"
    using showCreateInterleave_slice_in_bounds[OF a1 t1 g1] l1 by blast
  show ?thesis
    using showCreateInterleave_slice_in_bounds[OF a t g] a t g l a1 l1 r1 by simp
qed

text \<open>
  Claim C10, at a concrete input. The three key columns of \<open>index2c\<close> lie in an array of
  capacity 4 and its ancestors share 2 and 2: the sum 4 exceeds the number of key
  columns, and the slice is in range all the same.
\<close>

theorem showCreateInterleave_slice_counterexample:
  "showCreateInterleave planner1 index2c = Ok '' INTERLEAVE IN PARENT parent (a, b, c, )'' \<and>
   length (idx_ColumnNames index2c) = 3 \<and>
   sharedPrefixTotal index2c = 4"
proof -
  have t: "sharedPrefixTotal index2c < 2 ^ 63"
    by (simp add: sharedPrefixTotal_index2c)
  have "showCreateInterleave planner1 index2c = Ok '' INTERLEAVE IN PARENT parent (a, b, c, )''"
    unfolding showCreateInterleave_cases[OF t] sharedPrefixTotal_index2c
    by (simp add: concrete_defs)
  then show ?thesis
    by (simp add: sharedPrefixTotal_index2c) (simp add: index2c_def index2_def index0_def)
qed
subsection \<open>CREATE TABLE: the loop over the visible columns\<close>

lemma showCreateColumns_step:
  "showCreateColumns p desc i (col # rest) buf primary =
     (if IsPhysicalTable desc then
        (case elemAt (idx_ColumnIDs (td_PrimaryIndex desc)) 0 of
           Inl pnc \<Rightarrow> Inl pnc
         | Inr first \<Rightarrow>
             showCreateColumns p desc (Suc i) rest (buf @ columnLine p i col)
               (if first = col_ID col then primaryKeyClause p desc else primary))
      else showCreateColumns p desc (Suc i) rest (buf @ columnLine p i col) primary)"
  by (simp add: columnLine_def quoteNames_def Let_def split: option.splits sum.splits)

lemma elemAt_0: "elemAt xs 0 = (case xs of [] \<Rightarrow> Inl IndexOutOfRange | x # _ \<Rightarrow> Inr x)"
  by (simp add: elemAt_def split: list.splits)

lemma showCreateColumns_not_physical:
  "\<not> IsPhysicalTable desc \<Longrightarrow>
   showCreateColumns p desc i cols buf primary = Inr (buf @ columnLines p i cols, primary)"
proof (induction cols arbitrary: i buf)
  case Nil
  show ?case by simp
next
  case (Cons col rest)
  show ?case
    unfolding showCreateColumns_step using Cons by simp
qed

lemma showCreateColumns_no_key:
  "IsPhysicalTable desc \<Longrightarrow> idx_ColumnIDs (td_PrimaryIndex desc) = [] \<Longrightarrow>
   showCreateColumns p desc i cols buf primary =
     (if cols = [] then Inr (buf, primary) else Inl IndexOutOfRange)"
  by (cases cols) (simp_all add: showCreateColumns_step elemAt_0 del: showCreateColumns.simps(2))

lemma showCreateColumns_key:
  "IsPhysicalTable desc \<Longrightarrow> idx_ColumnIDs (td_PrimaryIndex desc) = first # others \<Longrightarrow>
   showCreateColumns p desc i cols buf primary =
     Inr (buf @ columnLines p i cols,
          if first \<in> col_ID ` set cols then primaryKeyClause p desc else primary)"
proof (induction cols arbitrary: i buf primary)
  case Nil
  show ?case by simp
next
  case (Cons col rest)
  have step: "showCreateColumns p desc i (col # rest) buf primary =
      showCreateColumns p desc (Suc i) rest (buf @ columnLine p i col)
        (if first = col_ID col then primaryKeyClause p desc else primary)"
    unfolding showCreateColumns_step using Cons.prems by (simp add: elemAt_0)
  show ?case
    unfolding step Cons.IH[OF Cons.prems] by auto
qed

lemma showCreateColumns_cases:
  "showCreateColumns p desc i cols buf primary =
     (if IsPhysicalTable desc \<and> cols \<noteq> [] \<and> idx_ColumnIDs (td_PrimaryIndex desc) = []
      then Inl IndexOutOfRange
      else Inr (buf @ columnLines p i cols,
                if IsPhysicalTable desc \<and>
                   (case idx_ColumnIDs (td_PrimaryIndex desc) of
                      [] \<Rightarrow> False
                    | first # _ \<Rightarrow> first \<in> col_ID ` set cols)
                then primaryKeyClause p desc else primary))"
proof (cases "IsPhysicalTable desc")
  case False
  then show ?thesis by (simp add: showCreateColumns_not_physical)
next
  case True
  show ?thesis
  proof (cases "idx_ColumnIDs (td_PrimaryIndex desc)")
    case Nil
    with True show ?thesis by (simp add: showCreateColumns_no_key)
  next
    case (Cons first others)
    with True show ?thesis by (simp add: showCreateColumns_key)
  qed
qed

subsection \<open>CREATE TABLE: the later loops only append to the buffer\<close>

lemma showCreateIndexes_append:
  "showCreateIndexes p idxs buf =
     (case showCreateIndexes p idxs [] of
        Ok t \<Rightarrow> Ok (buf @ t)
      | Err err \<Rightarrow> Err err
      | Panic pnc \<Rightarrow> Panic pnc)"
proof (induction idxs arbitrary: buf)
  case Nil
  show ?case by simp
next
  case (Cons idx rest)
  show ?case
  proof (cases "showCreateInterleave p idx")
    case (Ok interleave)
    define X where "X = '','' @ [newline, tab] @ isUnique (idx_Unique idx) @ ''INDEX '' @
             quoteNames p [idx_Name idx] @ '' ('' @ quoteNames p (idx_ColumnNames idx) @ '')'' @
             (if length (idx_StoreColumnNames idx) > 0
              then '' STORING ('' @ quoteNames p (idx_StoreColumnNames idx) @ '')''
              else []) @ interleave"
    have step: "showCreateIndexes p (idx # rest) b = showCreateIndexes p rest (b @ X)" for b
      using Ok by (simp add: X_def Let_def)
    have "showCreateIndexes p rest (buf @ X) =
            (case showCreateIndexes p rest X of
               Ok t \<Rightarrow> Ok (buf @ t) | Err err \<Rightarrow> Err err | Panic pnc \<Rightarrow> Panic pnc)"
      by (subst Cons.IH[of "buf @ X"], subst Cons.IH[of X]) (simp split: result.splits)
    then show ?thesis
      unfolding step by simp
  qed simp_all
qed

lemma showCreateFamilies_append:
  "showCreateFamilies p desc fams buf =
     (case showCreateFamilies p desc fams [] of
        Inl pnc \<Rightarrow> Inl pnc
      | Inr t \<Rightarrow> Inr (buf @ t))"
proof (induction fams arbitrary: buf)
  case Nil
  show ?case by simp
next
  case (Cons fam rest)
  show ?case
  proof (cases "activeColumnNames desc fam 0 (fam_ColumnIDs fam) []")
    case (Inr names)
    define X where "X = '','' @ [newline, tab] @ ''FAMILY '' @ quoteNames p [fam_Name fam] @
             '' ('' @ quoteNames p names @ '')''"
    have step: "showCreateFamilies p desc (fam # rest) b = showCreateFamilies p desc rest (b @ X)"
      for b
      using Inr by (simp add: X_def)
    have "showCreateFamilies p desc rest (buf @ X) =
            (case showCreateFamilies p desc rest X of
               Inl pnc \<Rightarrow> Inl pnc | Inr t \<Rightarrow> Inr (buf @ t))"
      by (subst Cons.IH[of "buf @ X"], subst Cons.IH[of X]) (simp split: sum.splits)
    then show ?thesis
      unfolding step by simp
  qed simp
qed

lemma showCreateChecks_append:
  "showCreateChecks p chks buf = buf @ showCreateChecks p chks []"
proof (induction chks arbitrary: buf)
  case Nil
  show ?case by simp
next
  case (Cons e rest)
  define X where "X = '','' @ [newline, tab] @
      (if length (chk_Name e) > 0 then ''CONSTRAINT '' @ quoteNames p [chk_Name e] @ '' '' else []) @
      ''CHECK ('' @ chk_Expr e @ '')''"
  have step: "showCreateChecks p (e # rest) b = showCreateChecks p rest (b @ X)" for b
    by (simp add: X_def Let_def)
  show ?case
    unfolding step by (subst Cons.IH[of "buf @ X"], subst Cons.IH[of "[] @ X"]) simp
qed

lemma showCreateTableText_cases:
  "showCreateTableText p n desc =
     (if IsPhysicalTable desc \<and> VisibleColumns desc \<noteq> [] \<and>
         idx_ColumnIDs (td_PrimaryIndex desc) = []
      then Panic IndexOutOfRange
      else
        case showCreateIndexes p (td_Indexes desc) [] of
          Err err \<Rightarrow> Err err
        | Panic pnc \<Rightarrow> Panic pnc
        | Ok idxs \<Rightarrow>
            (case showCreateFamilies p desc (td_Families desc) [] of
               Inl pnc \<Rightarrow> Panic pnc
             | Inr fams \<Rightarrow>
                 (case showCreateInterleave p (td_PrimaryIndex desc) of
                    Err err \<Rightarrow> Err err
                  | Panic pnc \<Rightarrow> Panic pnc
                  | Ok intl \<Rightarrow>
                      Ok (''CREATE TABLE '' @ quoteNames p [TableName_String (sct_Table n)] @
                          '' ('' @ columnLines p 0 (VisibleColumns desc) @
                          (if primaryKeyOnVisibleColumn desc then primaryKeyClause p desc else []) @
                          idxs @ fams @ showCreateChecks p (td_Checks desc) [] @ [newline] @
                          '')'' @ intl))))"
proof (cases "IsPhysicalTable desc \<and> VisibleColumns desc \<noteq> [] \<and>
         idx_ColumnIDs (td_PrimaryIndex desc) = []")
  case True
  then show ?thesis
    by (simp add: showCreateTableText_def showCreateColumns_cases)
next
  case False
  have cols: "showCreateColumns p desc 0 (VisibleColumns desc) b [] =
      Inr (b @ columnLines p 0 (VisibleColumns desc),
           if primaryKeyOnVisibleColumn desc then primaryKeyClause p desc else [])" for b
    using False by (simp add: showCreateColumns_cases primaryKeyOnVisibleColumn_def)
  have chk: "showCreateChecks p (td_Checks desc) b = b @ showCreateChecks p (td_Checks desc) []"
    for b
    by (rule showCreateChecks_append)
  show ?thesis
  proof (cases "showCreateIndexes p (td_Indexes desc) []")
    case (Ok idxs)
    have i: "showCreateIndexes p (td_Indexes desc) b = Ok (b @ idxs)" for b
      using showCreateIndexes_append[of p "td_Indexes desc" b] Ok by simp
    show ?thesis
    proof (cases "showCreateFamilies p desc (td_Families desc) []")
      case (Inl pnc)
      have f: "showCreateFamilies p desc (td_Families desc) b = Inl pnc" for b
        using showCreateFamilies_append[of p desc "td_Families desc" b] Inl by simp
      show ?thesis
        using False by (auto simp add: showCreateTableText_def cols i f Ok Inl)
    next
      case (Inr fams)
      have f: "showCreateFamilies p desc (td_Families desc) b = Inr (b @ fams)" for b
        using showCreateFamilies_append[of p desc "td_Families desc" b] Inr by simp
      show ?thesis
        using False
        by (auto simp add: showCreateTableText_def cols i f chk[of "_ @ _"] Ok Inr split: result.splits)
    qed
  next
    case (Err err)
    have i: "showCreateIndexes p (td_Indexes desc) b = Err err" for b
      using showCreateIndexes_append[of p "td_Indexes desc" b] Err by simp
    show ?thesis
      using False by (auto simp add: showCreateTableText_def cols i Err)
  next
    case (Panic pnc)
    have i: "showCreateIndexes p (td_Indexes desc) b = Panic pnc" for b
      using showCreateIndexes_append[of p "td_Indexes desc" b] Panic by simp
    show ?thesis
      using False by (auto simp add: showCreateTableText_def cols i Panic)
  qed
qed
lemmas table_defs =
  column_a_def column_b_def column_rowid_def index_a_def index_rowid_def index_nokey_def
  table_a_def table_rowid_def table_nokey_def name_t_def stmt_t_def

lemma showCreateTableText_table_a: "showCreateTableText planner0 stmt_t table_a = Ok text_a"
  by (simp add: showCreateTableText_def text_a_def table_defs concrete_defs VisibleColumns_def
      IsPhysicalTable_def elemAt_def showCreateInterleave_def primaryKeyClause_def
      TableName_String_def Let_def)

subsection \<open>The PRIMARY KEY clause\<close>

lemma ShowCreateTable_constructor_Ok:
  assumes "outcome (ShowCreateTable_constructor n desc columns p) = Ok node"
  shows "\<exists>rendered. showCreateTableText p n desc = Ok rendered \<and>
           planRows node = [[DString (TableName_String (sct_Table n)), DString rendered]]"
proof (cases "showCreateTableText p n desc")
  case (Ok rendered)
  with assms show ?thesis
    by (auto simp: ShowCreateTable_constructor_def Let_def AddRow_def newContainerValuesNode_def
        returned_def failed_def split: if_splits)
next
  case (Err err)
  with assms show ?thesis
    by (simp add: ShowCreateTable_constructor_def Let_def failed_def)
next
  case (Panic pnc)
  with assms show ?thesis
    by (simp add: ShowCreateTable_constructor_def Let_def panicked_def)
qed

lemma ShowCreateTable_constructor_succeeds:
  assumes "\<forall>rs r. accepts p rs r" and "showCreateTableText p n desc = Ok rendered"
  shows "\<exists>node. outcome (ShowCreateTable_constructor n desc columns p) = Ok node"
  using assms
  by (simp add: ShowCreateTable_constructor_def Let_def AddRow_def returned_def)

lemma ShowCreateTable_resolved:
  assumes "resolveAndCheck p (mustGetTableDesc (cat p)) (sct_Table n) = Inr (tn, desc)"
  shows "\<exists>d. ShowCreateTable p n = Inr d \<and>
           dn_constructor d = ShowCreateTable_constructor n desc (dn_columns d)"
  using assms
  by (auto simp: resolveAndCheck_def ShowCreateTable_def Let_def
      split: sum.splits option.splits)

text \<open>
  Claim C3. SHOW CREATE TABLE, once it has resolved the name, fetched the descriptor and
  found a privilege, returns a plan. When the constructor of that plan returns rows, they
  are the one row of the table name as written and the text: the header, the lines of the
  visible columns, then the clause \<^verbatim>\<open>CONSTRAINT <name> PRIMARY KEY (<columns>)\<close> on a line of
  its own, with the quoted name and the quoted key columns of the primary index, if and
  only if the table is physical and the first key column id of its primary index is the
  id of a visible column, then the index, family and check clauses, the closing
  parenthesis and the interleave clause. It returns rows when the memory monitor accepts
  the row and the clauses render. A primary key on a single column that is not visible
  (rowid) gives no clause; a physical table with a primary key on a single visible
  column gives the clause.
\<close>

theorem showCreateTable_primary_key_clause:
  assumes "resolveAndCheck p (mustGetTableDesc (cat p)) (sct_Table n) = Inr (tn, desc)"
  shows "(\<exists>d. ShowCreateTable p n = Inr d \<and>
            (\<forall>node. outcome (dn_constructor d p) = Ok node \<longrightarrow>
               (\<exists>idxs fams intl.
                  showCreateIndexes p (td_Indexes desc) [] = Ok idxs \<and>
                  showCreateFamilies p desc (td_Families desc) [] = Inr fams \<and>
                  showCreateInterleave p (td_PrimaryIndex desc) = Ok intl \<and>
                  planRows node =
                    [[DString (TableName_String (sct_Table n)),
                      DString
                        (''CREATE TABLE '' @
                         AsString_NameList (prs p) [TableName_String (sct_Table n)] @ '' ('' @
                         columnLines p 0 (VisibleColumns desc) @
                         (if primaryKeyOnVisibleColumn desc
                          then '','' @ [newline, tab] @ ''CONSTRAINT '' @
                               AsString_NameList (prs p) [idx_Name (td_PrimaryIndex desc)] @
                               '' PRIMARY KEY ('' @
                               AsString_NameList (prs p) (idx_ColumnNames (td_PrimaryIndex desc)) @
                               '')''
                          else []) @
                         idxs @ fams @ showCreateChecks p (td_Checks desc) [] @ [newline] @
                         '')'' @ intl)]])) \<and>
            ((\<forall>rs r. accepts p rs r) \<and>
             (IsPhysicalTable desc \<and> VisibleColumns desc \<noteq> [] \<longrightarrow>
                idx_ColumnIDs (td_PrimaryIndex desc) \<noteq> []) \<and>
             (\<exists>idxs. showCreateIndexes p (td_Indexes desc) [] = Ok idxs) \<and>
             (\<exists>fams. showCreateFamilies p desc (td_Families desc) [] = Inr fams) \<and>
             (\<exists>intl. showCreateInterleave p (td_PrimaryIndex desc) = Ok intl) \<longrightarrow>
             (\<exists>node. outcome (dn_constructor d p) = Ok node))) \<and>
         (\<forall>rid. idx_ColumnIDs (td_PrimaryIndex desc) = [rid] \<and>
                rid \<notin> col_ID ` set (VisibleColumns desc) \<longrightarrow>
                \<not> primaryKeyOnVisibleColumn desc) \<and>
         (\<forall>c. IsPhysicalTable desc \<and> idx_ColumnIDs (td_PrimaryIndex desc) = [c] \<and>
              c \<in> col_ID ` set (VisibleColumns desc) \<longrightarrow>
              primaryKeyOnVisibleColumn desc)"
proof -
  obtain d where d: "ShowCreateTable p n = Inr d"
    and c: "dn_constructor d = ShowCreateTable_constructor n desc (dn_columns d)"
    using ShowCreateTable_resolved[OF assms] by blast
  have rows: "\<exists>idxs fams intl.
      showCreateIndexes p (td_Indexes desc) [] = Ok idxs \<and>
      showCreateFamilies p desc (td_Families desc) [] = Inr fams \<and>
      showCreateInterleave p (td_PrimaryIndex desc) = Ok intl \<and>
      planRows node =
        [[DString (TableName_String (sct_Table n)),
          DString
            (''CREATE TABLE '' @
             AsString_NameList (prs p) [TableName_String (sct_Table n)] @ '' ('' @
             columnLines p 0 (VisibleColumns desc) @
             (if primaryKeyOnVisibleColumn desc
              then '','' @ [newline, tab] @ ''CONSTRAINT '' @
                   AsString_NameList (prs p) [idx_Name (td_PrimaryIndex desc)] @
                   '' PRIMARY KEY ('' @
                   AsString_NameList (prs p) (idx_ColumnNames (td_PrimaryIndex desc)) @
                   '')''
              else []) @
             idxs @ fams @ showCreateChecks p (td_Checks desc) [] @ [newline] @
             '')'' @ intl)]]"
    if "outcome (dn_constructor d p) = Ok node" for node
  proof -
    from that obtain rendered where r: "showCreateTableText p n desc = Ok rendered"
      and pr: "planRows node = [[DString (TableName_String (sct_Table n)), DString rendered]]"
      unfolding c using ShowCreateTable_constructor_Ok by blast
    show ?thesis
      using r unfolding pr showCreateTableText_cases
      by (auto simp: quoteNames_def primaryKeyClause_def split: if_splits result.splits sum.splits)
  qed
  have succeeds: "\<exists>node. outcome (dn_constructor d p) = Ok node"
    if "(\<forall>rs r. accepts p rs r) \<and>
        (IsPhysicalTable desc \<and> VisibleColumns desc \<noteq> [] \<longrightarrow>
           idx_ColumnIDs (td_PrimaryIndex desc) \<noteq> []) \<and>
        (\<exists>idxs. showCreateIndexes p (td_Indexes desc) [] = Ok idxs) \<and>
        (\<exists>fams. showCreateFamilies p desc (td_Families desc) [] = Inr fams) \<and>
        (\<exists>intl. showCreateInterleave p (td_PrimaryIndex desc) = Ok intl)"
  proof -
    from that have a: "\<forall>rs r. accepts p rs r" by blast
    from that have "\<exists>rendered. showCreateTableText p n desc = Ok rendered"
      unfolding showCreateTableText_cases by auto
    then show ?thesis
      unfolding c using ShowCreateTable_constructor_succeeds[OF a] by blast
  qed
  have rowid: "\<not> primaryKeyOnVisibleColumn desc"
    if "idx_ColumnIDs (td_PrimaryIndex desc) = [rid] \<and>
        rid \<notin> col_ID ` set (VisibleColumns desc)" for rid
    using that by (simp add: primaryKeyOnVisibleColumn_def)
  have visible: "primaryKeyOnVisibleColumn desc"
    if "IsPhysicalTable desc \<and> idx_ColumnIDs (td_PrimaryIndex desc) = [c] \<and>
        c \<in> col_ID ` set (VisibleColumns desc)" for c
    using that by (simp add: primaryKeyOnVisibleColumn_def)
  show ?thesis
    apply (intro conjI exI[of _ d])
        apply (rule d)
       apply (intro allI impI)
       apply (erule rows)
      apply (intro impI)
      apply (erule succeeds)
     apply (intro allI impI)
     apply (erule rowid)
    apply (intro allI impI)
    apply (erule visible)
    done
qed

lemma resolveAndCheck_table_a:
  "resolveAndCheck planner_table_a (mustGetTableDesc (cat planner_table_a)) (sct_Table stmt_t) =
     Inr (tn_t, table_a)"
  by (simp add: resolveAndCheck_def planner_table_a_def NormalizeWithDatabaseName_def
      stmt_t_def name_t_def tn_t_def planner0_def catalog0_def)

lemma resolveAndCheck_table_rowid:
  "resolveAndCheck planner_table_rowid (mustGetTableDesc (cat planner_table_rowid))
     (sct_Table stmt_t) = Inr (tn_t, table_rowid)"
  by (simp add: resolveAndCheck_def planner_table_rowid_def NormalizeWithDatabaseName_def
      stmt_t_def name_t_def tn_t_def planner0_def catalog0_def)

lemmas create_defs =
  planner_table_a_def planner_table_rowid_def table_defs concrete_defs VisibleColumns_def
  IsPhysicalTable_def showCreateInterleave_def TableName_String_def columnLine_def

theorem showCreateTable_primary_key_clause_witness:
  "resolveAndCheck planner_table_a (mustGetTableDesc (cat planner_table_a)) (sct_Table stmt_t) =
     Inr (tn_t, table_a) \<and>
   (\<forall>rs r. accepts planner_table_a rs r) \<and>
   IsPhysicalTable table_a \<and>
   idx_ColumnIDs (td_PrimaryIndex table_a) = [1] \<and>
   1 \<in> col_ID ` set (VisibleColumns table_a) \<and>
   primaryKeyOnVisibleColumn table_a \<and>
   (\<exists>d node. ShowCreateTable planner_table_a stmt_t = Inr d \<and>
      outcome (dn_constructor d planner_table_a) = Ok node \<and>
      planRows node =
        [[DString ''t'',
          DString (''CREATE TABLE t ('' @ [newline, tab] @ ''a INT NOT NULL,'' @ [newline, tab] @
                   ''b INT NULL DEFAULT 5,'' @ [newline, tab] @
                   ''CONSTRAINT primary PRIMARY KEY (a)'' @ [newline] @ '')'')]]) \<and>
   resolveAndCheck planner_table_rowid (mustGetTableDesc (cat planner_table_rowid))
     (sct_Table stmt_t) = Inr (tn_t, table_rowid) \<and>
   idx_ColumnIDs (td_PrimaryIndex table_rowid) = [3] \<and>
   3 \<notin> col_ID ` set (VisibleColumns table_rowid) \<and>
   \<not> primaryKeyOnVisibleColumn table_rowid \<and>
   (\<exists>d node. ShowCreateTable planner_table_rowid stmt_t = Inr d \<and>
      outcome (dn_constructor d planner_table_rowid) = Ok node \<and>
      planRows node =
        [[DString ''t'',
          DString (''CREATE TABLE t ('' @ [newline, tab] @ ''a INT NOT NULL,'' @ [newline, tab] @
                   ''b INT NULL DEFAULT 5'' @ [newline] @ '')'')]])"
proof -
  note a = showCreateTable_primary_key_clause[OF resolveAndCheck_table_a]
  note r = showCreateTable_primary_key_clause[OF resolveAndCheck_table_rowid]
  have acc: "\<forall>rs r. accepts planner_table_a rs r" "\<forall>rs r. accepts planner_table_rowid rs r"
    by (simp_all add: planner_table_a_def planner_table_rowid_def planner0_def)
  have pa: "IsPhysicalTable table_a \<and> idx_ColumnIDs (td_PrimaryIndex table_a) = [1] \<and>
            1 \<in> col_ID ` set (VisibleColumns table_a)"
    by (simp add: table_defs IsPhysicalTable_def VisibleColumns_def)
  have pr: "idx_ColumnIDs (td_PrimaryIndex table_rowid) = [3] \<and>
            3 \<notin> col_ID ` set (VisibleColumns table_rowid)"
    by (simp add: table_defs VisibleColumns_def)
  have ca: "primaryKeyOnVisibleColumn table_a"
    using a pa by blast
  have cr: "\<not> primaryKeyOnVisibleColumn table_rowid"
    using r pr by blast
  have ea: "showCreateIndexes planner_table_a (td_Indexes table_a) [] = Ok []"
      "showCreateFamilies planner_table_a table_a (td_Families table_a) [] = Inr []"
      "showCreateInterleave planner_table_a (td_PrimaryIndex table_a) = Ok []"
      "idx_ColumnIDs (td_PrimaryIndex table_a) \<noteq> []"
    by (simp_all add: create_defs)
  have er: "showCreateIndexes planner_table_rowid (td_Indexes table_rowid) [] = Ok []"
      "showCreateFamilies planner_table_rowid table_rowid (td_Families table_rowid) [] = Inr []"
      "showCreateInterleave planner_table_rowid (td_PrimaryIndex table_rowid) = Ok []"
      "idx_ColumnIDs (td_PrimaryIndex table_rowid) \<noteq> []"
    by (simp_all add: create_defs)
  from a obtain da where da: "ShowCreateTable planner_table_a stmt_t = Inr da"
    and rows_a: "\<forall>node. outcome (dn_constructor da planner_table_a) = Ok node \<longrightarrow>
               (\<exists>idxs fams intl.
                  showCreateIndexes planner_table_a (td_Indexes table_a) [] = Ok idxs \<and>
                  showCreateFamilies planner_table_a table_a (td_Families table_a) [] = Inr fams \<and>
                  showCreateInterleave planner_table_a (td_PrimaryIndex table_a) = Ok intl \<and>
                  planRows node =
                    [[DString (TableName_String (sct_Table stmt_t)),
                      DString
                        (''CREATE TABLE '' @
                         AsString_NameList (prs planner_table_a)
                           [TableName_String (sct_Table stmt_t)] @ '' ('' @
                         columnLines planner_table_a 0 (VisibleColumns table_a) @
                         (if primaryKeyOnVisibleColumn table_a
                          then '','' @ [newline, tab] @ ''CONSTRAINT '' @
                               AsString_NameList (prs planner_table_a)
                                 [idx_Name (td_PrimaryIndex table_a)] @
                               '' PRIMARY KEY ('' @
                               AsString_NameList (prs planner_table_a)
                                 (idx_ColumnNames (td_PrimaryIndex table_a)) @
                               '')''
                          else []) @
                         idxs @ fams @ showCreateChecks planner_table_a (td_Checks table_a) [] @
                         [newline] @ '')'' @ intl)]])"
    and succ_a: "(\<forall>rs r. accepts planner_table_a rs r) \<and>
             (IsPhysicalTable table_a \<and> VisibleColumns table_a \<noteq> [] \<longrightarrow>
                idx_ColumnIDs (td_PrimaryIndex table_a) \<noteq> []) \<and>
             (\<exists>idxs. showCreateIndexes planner_table_a (td_Indexes table_a) [] = Ok idxs) \<and>
             (\<exists>fams. showCreateFamilies planner_table_a table_a (td_Families table_a) [] =
                Inr fams) \<and>
             (\<exists>intl. showCreateInterleave planner_table_a (td_PrimaryIndex table_a) = Ok intl) \<longrightarrow>
             (\<exists>node. outcome (dn_constructor da planner_table_a) = Ok node)"
    by blast
  from succ_a acc(1) ea obtain na where na: "outcome (dn_constructor da planner_table_a) = Ok na"
    by blast
  from rows_a na ea ca have ra: "planRows na =
        [[DString ''t'',
          DString (''CREATE TABLE t ('' @ [newline, tab] @ ''a INT NOT NULL,'' @ [newline, tab] @
                   ''b INT NULL DEFAULT 5,'' @ [newline, tab] @
                   ''CONSTRAINT primary PRIMARY KEY (a)'' @ [newline] @ '')'')]]"
    by (auto simp: create_defs)
  from r obtain dr where dr: "ShowCreateTable planner_table_rowid stmt_t = Inr dr"
    and rows_r: "\<forall>node. outcome (dn_constructor dr planner_table_rowid) = Ok node \<longrightarrow>
               (\<exists>idxs fams intl.
                  showCreateIndexes planner_table_rowid (td_Indexes table_rowid) [] = Ok idxs \<and>
                  showCreateFamilies planner_table_rowid table_rowid (td_Families table_rowid) [] =
                    Inr fams \<and>
                  showCreateInterleave planner_table_rowid (td_PrimaryIndex table_rowid) =
                    Ok intl \<and>
                  planRows node =
                    [[DString (TableName_String (sct_Table stmt_t)),
                      DString
                        (''CREATE TABLE '' @
                         AsString_NameList (prs planner_table_rowid)
                           [TableName_String (sct_Table stmt_t)] @ '' ('' @
                         columnLines planner_table_rowid 0 (VisibleColumns table_rowid) @
                         (if primaryKeyOnVisibleColumn table_rowid
                          then '','' @ [newline, tab] @ ''CONSTRAINT '' @
                               AsString_NameList (prs planner_table_rowid)
                                 [idx_Name (td_PrimaryIndex table_rowid)] @
                               '' PRIMARY KEY ('' @
                               AsString_NameList (prs planner_table_rowid)
                                 (idx_ColumnNames (td_PrimaryIndex table_rowid)) @
                               '')''
                          else []) @
                         idxs @ fams @
                         showCreateChecks planner_table_rowid (td_Checks table_rowid) [] @
                         [newline] @ '')'' @ intl)]])"
    and succ_r: "(\<forall>rs r. accepts planner_table_rowid rs r) \<and>
             (IsPhysicalTable table_rowid \<and> VisibleColumns table_rowid \<noteq> [] \<longrightarrow>
                idx_ColumnIDs (td_PrimaryIndex table_rowid) \<noteq> []) \<and>
             (\<exists>idxs. showCreateIndexes planner_table_rowid (td_Indexes table_rowid) [] =
                Ok idxs) \<and>
             (\<exists>fams. showCreateFamilies planner_table_rowid table_rowid (td_Families table_rowid)
                [] = Inr fams) \<and>
             (\<exists>intl. showCreateInterleave planner_table_rowid (td_PrimaryIndex table_rowid) =
                Ok intl) \<longrightarrow>
             (\<exists>node. outcome (dn_constructor dr planner_table_rowid) = Ok node)"
    by blast
  from succ_r acc(2) er obtain nr where nr: "outcome (dn_constructor dr planner_table_rowid) = Ok nr"
    by blast
  from rows_r nr er cr have rr: "planRows nr =
        [[DString ''t'',
          DString (''CREATE TABLE t ('' @ [newline, tab] @ ''a INT NOT NULL,'' @ [newline, tab] @
                   ''b INT NULL DEFAULT 5'' @ [newline] @ '')'')]]"
    by (auto simp: create_defs)
  have xa: "\<exists>d node. ShowCreateTable planner_table_a stmt_t = Inr d \<and>
      outcome (dn_constructor d planner_table_a) = Ok node \<and>
      planRows node =
        [[DString ''t'',
          DString (''CREATE TABLE t ('' @ [newline, tab] @ ''a INT NOT NULL,'' @ [newline, tab] @
                   ''b INT NULL DEFAULT 5,'' @ [newline, tab] @
                   ''CONSTRAINT primary PRIMARY KEY (a)'' @ [newline] @ '')'')]]"
    using da na ra by (intro exI[of _ da] exI[of _ na] conjI)
  have xr: "\<exists>d node. ShowCreateTable planner_table_rowid stmt_t = Inr d \<and>
      outcome (dn_constructor d planner_table_rowid) = Ok node \<and>
      planRows node =
        [[DString ''t'',
          DString (''CREATE TABLE t ('' @ [newline, tab] @ ''a INT NOT NULL,'' @ [newline, tab] @
                   ''b INT NULL DEFAULT 5'' @ [newline] @ '')'')]]"
    using dr nr rr by (intro exI[of _ dr] exI[of _ nr] conjI)
  show ?thesis
    using resolveAndCheck_table_a acc(1) pa ca xa resolveAndCheck_table_rowid pr cr xr
    by (intro conjI) (simp_all only: simp_thms)
qed

text \<open>
  Claim C9. For a physical table with at least one visible column the loop reads
  \<^verbatim>\<open>desc.PrimaryIndex.ColumnIDs[0]\<close>, and nothing checks the length before: the loop
  panics with an index out of range exactly when the primary index has no key column,
  whatever the buffer; then the rendering and the constructor panic too, and a text is
  rendered only when the primary index has a key column.
\<close>

theorem showCreateTable_first_key_column_read:
  assumes "IsPhysicalTable desc" and "VisibleColumns desc \<noteq> []"
  shows "(showCreateColumns p desc 0 (VisibleColumns desc) buf [] = Inl IndexOutOfRange \<longleftrightarrow>
            idx_ColumnIDs (td_PrimaryIndex desc) = []) \<and>
         ((\<exists>r. showCreateColumns p desc 0 (VisibleColumns desc) buf [] = Inr r) \<longleftrightarrow>
            idx_ColumnIDs (td_PrimaryIndex desc) \<noteq> []) \<and>
         (idx_ColumnIDs (td_PrimaryIndex desc) = [] \<longrightarrow>
            showCreateTableText p n desc = Panic IndexOutOfRange \<and>
            outcome (ShowCreateTable_constructor n desc columns p) = Panic IndexOutOfRange) \<and>
         (\<forall>text. showCreateTableText p n desc = Ok text \<longrightarrow>
            idx_ColumnIDs (td_PrimaryIndex desc) \<noteq> [])"
proof -
  have loop: "showCreateColumns p desc 0 (VisibleColumns desc) buf [] = Inl IndexOutOfRange \<longleftrightarrow>
            idx_ColumnIDs (td_PrimaryIndex desc) = []"
    using assms by (simp add: showCreateColumns_cases)
  have ok: "(\<exists>r. showCreateColumns p desc 0 (VisibleColumns desc) buf [] = Inr r) \<longleftrightarrow>
            idx_ColumnIDs (td_PrimaryIndex desc) \<noteq> []"
    using assms by (simp add: showCreateColumns_cases)
  have rendering: "showCreateTableText p n desc = Panic IndexOutOfRange"
    if "idx_ColumnIDs (td_PrimaryIndex desc) = []"
    using assms that by (simp add: showCreateTableText_cases)
  have con: "outcome (ShowCreateTable_constructor n desc columns p) = Panic IndexOutOfRange"
    if "idx_ColumnIDs (td_PrimaryIndex desc) = []"
    using rendering[OF that] by (simp add: ShowCreateTable_constructor_def panicked_def)
  have "idx_ColumnIDs (td_PrimaryIndex desc) \<noteq> []"
    if "showCreateTableText p n desc = Ok rendered" for rendered
    using rendering that by auto
  with loop ok rendering con show ?thesis
    by blast
qed

theorem showCreateTable_first_key_column_read_witness:
  "IsPhysicalTable table_nokey \<and> VisibleColumns table_nokey \<noteq> [] \<and>
   idx_ColumnIDs (td_PrimaryIndex table_nokey) = [] \<and>
   showCreateColumns planner0 table_nokey 0 (VisibleColumns table_nokey) [] [] =
     Inl IndexOutOfRange \<and>
   showCreateTableText planner0 stmt_t table_nokey = Panic IndexOutOfRange \<and>
   outcome (ShowCreateTable_constructor stmt_t table_nokey [] planner0) = Panic IndexOutOfRange \<and>
   IsPhysicalTable table_a \<and> VisibleColumns table_a \<noteq> [] \<and>
   showCreateTableText planner0 stmt_t table_a = Ok text_a \<and>
   idx_ColumnIDs (td_PrimaryIndex table_a) \<noteq> []"
proof -
  have n1: "IsPhysicalTable table_nokey"
    by (simp add: table_defs IsPhysicalTable_def)
  have n2: "VisibleColumns table_nokey \<noteq> []"
    by (simp add: table_defs VisibleColumns_def)
  have n3: "idx_ColumnIDs (td_PrimaryIndex table_nokey) = []"
    by (simp add: table_defs)
  have a1: "IsPhysicalTable table_a"
    by (simp add: table_defs IsPhysicalTable_def)
  have a2: "VisibleColumns table_a \<noteq> []"
    by (simp add: table_defs VisibleColumns_def)
  note n = showCreateTable_first_key_column_read[OF n1 n2, of planner0 "[]" stmt_t "[]"]
  note a = showCreateTable_first_key_column_read[OF a1 a2, of planner0 "[]" stmt_t "[]"]
  have a3: "idx_ColumnIDs (td_PrimaryIndex table_a) \<noteq> []"
    using a showCreateTableText_table_a by blast
  show ?thesis
    using n n1 n2 n3 a1 a2 a3 showCreateTableText_table_a by blast
qed
subsection \<open>SHOW INDEX: the loops\<close>

lemma appendRow_Inr:
  "appendRow p tn v index col sequence dir stored = Inr v' \<Longrightarrow>
   rows_of (vn_rows v') =
     rows_of (vn_rows v) @
       [[DString (TableName tn), DString (idx_Name index), DBool (idx_Unique index),
         DInt sequence, DString col, DString dir, DBool stored]] \<and>
   closed (vn_rows v') = closed (vn_rows v) \<and> vn_columns v' = vn_columns v"
  by (auto simp: appendRow_def AddRow_def Let_def split: if_splits)

lemma appendRow_accepts:
  "\<forall>rs r. accepts p rs r \<Longrightarrow> \<exists>v'. appendRow p tn v index col sequence dir stored = Inr v'"
  by (simp add: appendRow_def AddRow_def Let_def)

lemma showIndexKeyColumns_Ok:
  "showIndexKeyColumns p tn index i cols (of_nat k) v = (Ok s, v') \<Longrightarrow>
   length cols \<le> length (idx_ColumnDirections index) - i \<and>
   s = of_nat (k + length cols) \<and>
   rows_of (vn_rows v') =
     rows_of (vn_rows v) @
       map (\<lambda>(k, col, dir). indexRow tn index k col (IndexDirection_String dir) False)
         (enumerate k (zip cols (drop i (idx_ColumnDirections index)))) \<and>
   closed (vn_rows v') = closed (vn_rows v) \<and> vn_columns v' = vn_columns v"
proof (induction cols arbitrary: i k v)
  case Nil
  then show ?case by auto
next
  case (Cons col rest)
  from Cons.prems obtain dir where dir: "elemAt (idx_ColumnDirections index) i = Inr dir"
    by (cases "elemAt (idx_ColumnDirections index) i") auto
  then have i: "i < length (idx_ColumnDirections index)" and d: "dir = idx_ColumnDirections index ! i"
    by (auto simp: elemAt_def split: if_splits)
  from Cons.prems dir obtain v1 where
    v1: "appendRow p tn v index col (of_nat k) (IndexDirection_String dir) False = Inr v1"
    by (cases "appendRow p tn v index col (of_nat k) (IndexDirection_String dir) False") auto
  from Cons.prems dir v1
  have rec: "showIndexKeyColumns p tn index (Suc i) rest (of_nat (Suc k)) v1 = (Ok s, v')"
    by (simp add: add.commute)
  note ih = Cons.IH[OF rec]
  note a = appendRow_Inr[OF v1]
  have dr: "drop i (idx_ColumnDirections index) = dir # drop (Suc i) (idx_ColumnDirections index)"
    using i d by (simp add: Cons_nth_drop_Suc)
  show ?case
    using ih a i by (auto simp add: dr indexRow_def)
qed

lemma showIndexStoreColumns_Ok:
  "showIndexStoreColumns p tn index cols (of_nat k) v = (Ok s, v') \<Longrightarrow>
   s = of_nat (k + length cols) \<and>
   rows_of (vn_rows v') =
     rows_of (vn_rows v) @
       map (\<lambda>(k, col). indexRow tn index k col ''N/A'' True) (enumerate k cols) \<and>
   closed (vn_rows v') = closed (vn_rows v) \<and> vn_columns v' = vn_columns v"
proof (induction cols arbitrary: k v)
  case Nil
  then show ?case by auto
next
  case (Cons col rest)
  from Cons.prems obtain v1 where
    v1: "appendRow p tn v index col (of_nat k) ''N/A'' True = Inr v1"
    by (cases "appendRow p tn v index col (of_nat k) ''N/A'' True") auto
  from Cons.prems v1
  have rec: "showIndexStoreColumns p tn index rest (of_nat (Suc k)) v1 = (Ok s, v')"
    by (simp add: add.commute)
  note ih = Cons.IH[OF rec]
  note a = appendRow_Inr[OF v1]
  show ?case
    using ih a by (auto simp add: indexRow_def)
qed

lemma showIndexLoop_Ok:
  "showIndexLoop p tn indexes v = (Ok r, v') \<Longrightarrow>
   r = v' \<and>
   (\<forall>index \<in> set indexes. length (idx_ColumnNames index) \<le> length (idx_ColumnDirections index)) \<and>
   rows_of (vn_rows v') =
     rows_of (vn_rows v) @
       concat (map (\<lambda>index. keyColumnRows tn index @ storeColumnRows tn index) indexes) \<and>
   closed (vn_rows v') = closed (vn_rows v) \<and> vn_columns v' = vn_columns v"
proof (induction indexes arbitrary: v)
  case Nil
  then show ?case by auto
next
  case (Cons index rest)
  from Cons.prems obtain s1 v1 where
    k: "showIndexKeyColumns p tn index 0 (idx_ColumnNames index) (of_nat 1) v = (Ok s1, v1)"
    by (cases "showIndexKeyColumns p tn index 0 (idx_ColumnNames index) 1 v")
       (auto split: result.splits)
  note kk = showIndexKeyColumns_Ok[OF k]
  have s1: "s1 = of_nat (Suc (length (idx_ColumnNames index)))"
    using kk by simp
  from Cons.prems k obtain s2 v2 where
    s: "showIndexStoreColumns p tn index (idx_StoreColumnNames index)
          (of_nat (Suc (length (idx_ColumnNames index)))) v1 = (Ok s2, v2)"
    unfolding s1[symmetric]
    by (cases "showIndexStoreColumns p tn index (idx_StoreColumnNames index) s1 v1")
       (auto split: result.splits)
  note ss = showIndexStoreColumns_Ok[OF s]
  from Cons.prems k s have rec: "showIndexLoop p tn rest v2 = (Ok r, v')"
    by (simp add: s1)
  note ih = Cons.IH[OF rec]
  show ?case
    using ih kk ss by (auto simp add: keyColumnRows_def storeColumnRows_def)
qed

lemma elemAt_Inr: "i < length xs \<Longrightarrow> elemAt xs i = Inr (xs ! i)"
  by (simp add: elemAt_def)

lemma showIndexKeyColumns_succeeds:
  assumes "\<forall>rs r. accepts p rs r"
  shows "length cols \<le> length (idx_ColumnDirections index) - i \<Longrightarrow>
         \<exists>s v'. showIndexKeyColumns p tn index i cols sq v = (Ok s, v')"
proof (induction cols arbitrary: i sq v)
  case Nil
  show ?case by simp
next
  case (Cons col rest)
  from Cons.prems have i: "i < length (idx_ColumnDirections index)"
    and r: "length rest \<le> length (idx_ColumnDirections index) - Suc i"
    by simp_all
  obtain v1 where v1: "appendRow p tn v index col sq
      (IndexDirection_String (idx_ColumnDirections index ! i)) False = Inr v1"
    using appendRow_accepts[OF assms] by blast
  show ?case
    using Cons.IH[OF r, of "sq + 1" v1] by (simp add: elemAt_Inr[OF i] v1)
qed

lemma showIndexStoreColumns_succeeds:
  assumes "\<forall>rs r. accepts p rs r"
  shows "\<exists>s v'. showIndexStoreColumns p tn index cols sq v = (Ok s, v')"
proof (induction cols arbitrary: sq v)
  case Nil
  show ?case by simp
next
  case (Cons col rest)
  obtain v1 where v1: "appendRow p tn v index col sq ''N/A'' True = Inr v1"
    using appendRow_accepts[OF assms] by blast
  show ?case
    using Cons.IH[of "sq + 1" v1] by (simp add: v1)
qed

lemma showIndexLoop_succeeds:
  assumes "\<forall>rs r. accepts p rs r"
  shows "\<forall>index \<in> set indexes.
           length (idx_ColumnNames index) \<le> length (idx_ColumnDirections index) \<Longrightarrow>
         \<exists>r v'. showIndexLoop p tn indexes v = (Ok r, v')"
proof (induction indexes arbitrary: v)
  case Nil
  show ?case by simp
next
  case (Cons index rest)
  from Cons.prems have l: "length (idx_ColumnNames index) \<le> length (idx_ColumnDirections index) - 0"
    by simp
  obtain s1 v1 where
    k: "showIndexKeyColumns p tn index 0 (idx_ColumnNames index) 1 v = (Ok s1, v1)"
    using showIndexKeyColumns_succeeds[OF assms l] by blast
  obtain s2 v2 where
    s: "showIndexStoreColumns p tn index (idx_StoreColumnNames index) s1 v1 = (Ok s2, v2)"
    using showIndexStoreColumns_succeeds[OF assms] by blast
  from Cons.prems have "\<forall>index \<in> set rest.
      length (idx_ColumnNames index) \<le> length (idx_ColumnDirections index)"
    by simp
  from Cons.IH[OF this, of v2] show ?case
    by (simp add: k s)
qed

subsection \<open>SHOW INDEX: the rows in the words of the spec\<close>

lemma sequenceOf_indexRow:
  "k < 2 ^ 63 \<Longrightarrow> sequenceOf (indexRow tn index k col dir stored) = int k"
  by (simp add: sequenceOf_def indexRow_def column_def sint_of_nat_small)

lemma directionOf_indexRow: "directionOf (indexRow tn index k col dir stored) = dir"
  by (simp add: directionOf_def indexRow_def column_def)

lemma enumerate_bound: "(k, x) \<in> set (enumerate n xs) \<Longrightarrow> n \<le> k \<and> k < n + length xs"
  by (auto simp: in_set_enumerate_eq)

lemma sequenceOf_keyColumnRows:
  assumes "length (idx_ColumnNames index) < 2 ^ 63"
    and "length (idx_ColumnNames index) \<le> length (idx_ColumnDirections index)"
  shows "map sequenceOf (keyColumnRows tn index) =
           map int [1..<Suc (length (idx_ColumnNames index))]"
proof -
  let ?zs = "zip (idx_ColumnNames index) (idx_ColumnDirections index)"
  have len: "length ?zs = length (idx_ColumnNames index)"
    using assms(2) by simp
  have "map sequenceOf (keyColumnRows tn index) = map (\<lambda>kx. int (fst kx)) (enumerate 1 ?zs)"
    unfolding keyColumnRows_def map_map
  proof (rule map_cong[OF refl])
    fix kx assume "kx \<in> set (enumerate 1 ?zs)"
    then have "fst kx < 1 + length ?zs"
      using enumerate_bound[of "fst kx" "snd kx" 1 ?zs] by simp
    then have "fst kx < 2 ^ 63"
      using assms(1) len by simp
    then show "(sequenceOf \<circ> (\<lambda>(k, col, dir).
                  indexRow tn index k col (IndexDirection_String dir) False)) kx = int (fst kx)"
      by (cases kx) (auto simp: sequenceOf_indexRow)
  qed
  also have "\<dots> = map int (map fst (enumerate 1 ?zs))"
    by (simp only: map_map o_def)
  also have "map fst (enumerate 1 ?zs) = [1..<Suc (length (idx_ColumnNames index))]"
    using assms(2) by (simp add: min_def del: upt_Suc)
  finally show ?thesis .
qed

lemma sequenceOf_storeColumnRows:
  assumes "length (idx_ColumnNames index) + length (idx_StoreColumnNames index) < 2 ^ 63"
  shows "map sequenceOf (storeColumnRows tn index) =
           map int [Suc (length (idx_ColumnNames index))..<
                    Suc (length (idx_ColumnNames index) + length (idx_StoreColumnNames index))]"
proof -
  let ?n = "Suc (length (idx_ColumnNames index))"
  let ?xs = "idx_StoreColumnNames index"
  have "map sequenceOf (storeColumnRows tn index) = map (\<lambda>kx. int (fst kx)) (enumerate ?n ?xs)"
    unfolding storeColumnRows_def map_map
  proof (rule map_cong[OF refl])
    fix kx assume "kx \<in> set (enumerate ?n ?xs)"
    then have "fst kx < ?n + length ?xs"
      using enumerate_bound[of "fst kx" "snd kx" ?n ?xs] by simp
    then have "fst kx < 2 ^ 63"
      using assms by simp
    then show "(sequenceOf \<circ> (\<lambda>(k, col). indexRow tn index k col ''N/A'' True)) kx = int (fst kx)"
      by (cases kx) (auto simp: sequenceOf_indexRow)
  qed
  also have "\<dots> = map int (map fst (enumerate ?n ?xs))"
    by (simp only: map_map o_def)
  also have "map fst (enumerate ?n ?xs) = [?n..<Suc (length (idx_ColumnNames index) + length ?xs)]"
    by (simp del: upt_Suc)
  finally show ?thesis .
qed

lemma directionOf_keyColumnRows:
  "map directionOf (keyColumnRows tn index) =
     map IndexDirection_String
       (take (length (idx_ColumnNames index)) (idx_ColumnDirections index))"
proof -
  let ?zs = "zip (idx_ColumnNames index) (idx_ColumnDirections index)"
  have "map directionOf (keyColumnRows tn index) =
          map (\<lambda>kx. IndexDirection_String (snd (snd kx))) (enumerate 1 ?zs)"
    unfolding keyColumnRows_def map_map
    by (rule map_cong[OF refl]) (auto simp: directionOf_indexRow)
  also have "\<dots> = map IndexDirection_String (map snd (map snd (enumerate 1 ?zs)))"
    by (simp only: map_map o_def)
  also have "map snd (enumerate 1 ?zs) = ?zs"
    by (rule map_snd_enumerate)
  also have "map snd ?zs = take (length (idx_ColumnNames index)) (idx_ColumnDirections index)"
    by (simp add: map_snd_zip_take min_def)
  finally show ?thesis .
qed

lemma directionOf_storeColumnRows:
  "map directionOf (storeColumnRows tn index) =
     replicate (length (idx_StoreColumnNames index)) ''N/A''"
proof -
  have "map directionOf (storeColumnRows tn index) =
          map (\<lambda>kx. ''N/A'')
            (enumerate (Suc (length (idx_ColumnNames index))) (idx_StoreColumnNames index))"
    unfolding storeColumnRows_def map_map
    by (rule map_cong[OF refl]) (auto simp: directionOf_indexRow)
  then show ?thesis
    by (simp add: map_replicate_const)
qed
lemma columnNameOf_indexRow: "columnNameOf (indexRow tn index k col dir stored) = col"
  by (simp add: columnNameOf_def indexRow_def column_def)

lemma columnNameOf_keyColumnRows:
  "map columnNameOf (keyColumnRows tn index) =
     take (length (idx_ColumnDirections index)) (idx_ColumnNames index)"
proof -
  let ?zs = "zip (idx_ColumnNames index) (idx_ColumnDirections index)"
  have "map columnNameOf (keyColumnRows tn index) = map (\<lambda>kx. fst (snd kx)) (enumerate 1 ?zs)"
    unfolding keyColumnRows_def map_map
    by (rule map_cong[OF refl]) (auto simp: columnNameOf_indexRow)
  also have "\<dots> = map fst (map snd (enumerate 1 ?zs))"
    by (simp only: map_map o_def)
  also have "map snd (enumerate 1 ?zs) = ?zs"
    by (rule map_snd_enumerate)
  also have "map fst ?zs = take (length (idx_ColumnDirections index)) (idx_ColumnNames index)"
    by (simp add: map_fst_zip_take min_def)
  finally show ?thesis .
qed

lemma columnNameOf_storeColumnRows:
  "map columnNameOf (storeColumnRows tn index) = idx_StoreColumnNames index"
proof -
  let ?e = "enumerate (Suc (length (idx_ColumnNames index))) (idx_StoreColumnNames index)"
  have "map columnNameOf (storeColumnRows tn index) = map (\<lambda>kx. snd kx) ?e"
    unfolding storeColumnRows_def map_map
    by (rule map_cong[OF refl]) (auto simp: columnNameOf_indexRow)
  then show ?thesis
    by (simp only: map_snd_enumerate)
qed

lemma sequenceOf_index_rows:
  assumes "length (idx_ColumnNames index) \<le> length (idx_ColumnDirections index)"
    and "length (idx_ColumnNames index) + length (idx_StoreColumnNames index) < 2 ^ 63"
  shows "map sequenceOf (keyColumnRows tn index @ storeColumnRows tn index) =
           map int [1..<Suc (length (idx_ColumnNames index) + length (idx_StoreColumnNames index))]"
proof -
  let ?n = "length (idx_ColumnNames index)" and ?m = "length (idx_StoreColumnNames index)"
  have k: "?n < 2 ^ 63" using assms(2) by simp
  have "[1..<Suc (?n + ?m)] = [1..<Suc ?n] @ [Suc ?n..<Suc (?n + ?m)]"
    by (metis Suc_eq_plus1_left add_Suc le_add1 upt_add_eq_append)
  then show ?thesis
    by (simp only: map_append sequenceOf_keyColumnRows[OF k assms(1)]
          sequenceOf_storeColumnRows[OF assms(2)])
qed

lemmas index_defs = index_bc_def table_idx_def tn_t_def rows_idx_def

lemma ShowIndex_constructor_table_idx:
  "outcome (ShowIndex_constructor tn_t table_idx [] planner0) =
     Ok (ValuesNode \<lparr>vn_columns = [], vn_rows = \<lparr>rows_of = rows_idx, closed = False\<rparr>\<rparr>)"
  by (simp add: ShowIndex_constructor_def newContainerValuesNode_def appendRow_def AddRow_def
      elemAt_def returned_def index_defs table_defs planner0_def Let_def)

subsection \<open>The rows of SHOW INDEX\<close>

lemma ShowIndex_resolved:
  assumes "resolveAndCheck p (mustGetTableDesc (cat p)) (si_Table n) = Inr (tn, desc)"
  shows "\<exists>d. ShowIndex p n = Inr d \<and>
           dn_constructor d = ShowIndex_constructor tn desc (dn_columns d)"
  using assms
  by (auto simp: resolveAndCheck_def ShowIndex_def Let_def split: sum.splits option.splits)

text \<open>
  Claim C5. SHOW INDEX, once it has resolved the name, fetched the descriptor and found a
  privilege, returns a plan that runs the constructor on that name and descriptor.
  Whenever the constructor of SHOW INDEX returns a plan, its rows are, for the
  primary index first and then each secondary index in descriptor order, one row per key
  column in defined order with the column's direction, then one row per storing column
  with the direction "N/A"; it returns a plan when the memory monitor accepts every row
  and every index has a direction for each key column. Read as signed 64-bit integers,
  the sequence numbers of the rows of one index are 1, 2, ... over both passes, as long as
  the index has fewer than \<open>2 ^ 63\<close> columns. An index with two key columns that stores
  one column has three rows, numbered 1, 2, 3, the last with the direction "N/A".
\<close>

theorem ShowIndex_rows:
  "(resolveAndCheck p (mustGetTableDesc (cat p)) (si_Table n) = Inr (tn, desc) \<longrightarrow>
      (\<exists>d. ShowIndex p n = Inr d \<and>
           dn_constructor d = ShowIndex_constructor tn desc (dn_columns d) \<and>
           (\<forall>node. outcome (dn_constructor d p) = Ok node \<longrightarrow>
              planRows node = showIndexRows tn desc) \<and>
           ((\<forall>rs r. accepts p rs r) \<and>
            (\<forall>index \<in> set (td_PrimaryIndex desc # td_Indexes desc).
               length (idx_ColumnNames index) \<le> length (idx_ColumnDirections index)) \<longrightarrow>
            (\<exists>node. outcome (dn_constructor d p) = Ok node)))) \<and>
   (\<forall>node. outcome (ShowIndex_constructor tn desc columns p) = Ok node \<longrightarrow>
      planRows node = showIndexRows tn desc) \<and>
   ((\<forall>rs r. accepts p rs r) \<and>
    (\<forall>index \<in> set (td_PrimaryIndex desc # td_Indexes desc).
       length (idx_ColumnNames index) \<le> length (idx_ColumnDirections index)) \<longrightarrow>
    (\<exists>node. outcome (ShowIndex_constructor tn desc columns p) = Ok node)) \<and>
   (length (idx_ColumnNames index) \<le> length (idx_ColumnDirections index) \<longrightarrow>
      map columnNameOf (keyColumnRows tn index) = idx_ColumnNames index \<and>
      map directionOf (keyColumnRows tn index) =
        map IndexDirection_String
          (take (length (idx_ColumnNames index)) (idx_ColumnDirections index))) \<and>
   map columnNameOf (storeColumnRows tn index) = idx_StoreColumnNames index \<and>
   map directionOf (storeColumnRows tn index) =
     replicate (length (idx_StoreColumnNames index)) ''N/A'' \<and>
   (length (idx_ColumnNames index) \<le> length (idx_ColumnDirections index) \<longrightarrow>
    length (idx_ColumnNames index) + length (idx_StoreColumnNames index) < 2 ^ 63 \<longrightarrow>
      map sequenceOf (keyColumnRows tn index @ storeColumnRows tn index) =
        map int [1..<Suc (length (idx_ColumnNames index) + length (idx_StoreColumnNames index))]) \<and>
   (length (idx_ColumnNames index) = 2 \<and> length (idx_ColumnDirections index) = 2 \<and>
    length (idx_StoreColumnNames index) = 1 \<longrightarrow>
      map sequenceOf (keyColumnRows tn index @ storeColumnRows tn index) = [1, 2, 3] \<and>
      map directionOf (storeColumnRows tn index) = [''N/A''])"
proof -
  have rows: "planRows node = showIndexRows tn desc"
    if "outcome (ShowIndex_constructor tn desc columns p) = Ok node" for node columns
  proof -
    let ?v = "newContainerValuesNode columns"
    obtain r v' where l: "showIndexLoop p tn (td_PrimaryIndex desc # td_Indexes desc) ?v = (r, v')"
      by (cases "showIndexLoop p tn (td_PrimaryIndex desc # td_Indexes desc) ?v")
    with that obtain w where w: "r = Ok w" and node: "node = ValuesNode w"
      by (cases r) (auto simp: ShowIndex_constructor_def Let_def returned_def failed_def panicked_def)
    from showIndexLoop_Ok[OF l[unfolded w]]
    have "w = v'" and "rows_of (vn_rows v') = rows_of (vn_rows ?v) @ showIndexRows tn desc"
      by (simp_all add: showIndexRows_def)
    then show ?thesis
      by (simp add: node newContainerValuesNode_def)
  qed
  have succeeds: "\<exists>node. outcome (ShowIndex_constructor tn desc columns p) = Ok node"
    if "(\<forall>rs r. accepts p rs r) \<and>
        (\<forall>index \<in> set (td_PrimaryIndex desc # td_Indexes desc).
           length (idx_ColumnNames index) \<le> length (idx_ColumnDirections index))"
    for columns
  proof -
    from that have a: "\<forall>rs r. accepts p rs r"
      and d: "\<forall>index \<in> set (td_PrimaryIndex desc # td_Indexes desc).
           length (idx_ColumnNames index) \<le> length (idx_ColumnDirections index)"
      by blast+
    obtain r v' where "showIndexLoop p tn (td_PrimaryIndex desc # td_Indexes desc)
        (newContainerValuesNode columns) = (Ok r, v')"
      using showIndexLoop_succeeds[OF a d] by blast
    then show ?thesis
      by (simp add: ShowIndex_constructor_def Let_def returned_def)
  qed
  have three: "map sequenceOf (keyColumnRows tn index @ storeColumnRows tn index) = [1, 2, 3] \<and>
      map directionOf (storeColumnRows tn index) = [''N/A'']"
    if "length (idx_ColumnNames index) = 2 \<and> length (idx_ColumnDirections index) = 2 \<and>
        length (idx_StoreColumnNames index) = 1"
  proof -
    from that have l: "length (idx_ColumnNames index) \<le> length (idx_ColumnDirections index)"
      and b: "length (idx_ColumnNames index) + length (idx_StoreColumnNames index) < 2 ^ 63"
      by simp_all
    have "[1..<Suc (length (idx_ColumnNames index) + length (idx_StoreColumnNames index))] =
          [1, 2, 3]"
      using that by (simp add: upt_rec)
    with sequenceOf_index_rows[OF l b, of tn] that show ?thesis
      by (simp add: directionOf_storeColumnRows)
  qed
  have key: "map columnNameOf (keyColumnRows tn index) = idx_ColumnNames index \<and>
      map directionOf (keyColumnRows tn index) =
        map IndexDirection_String
          (take (length (idx_ColumnNames index)) (idx_ColumnDirections index))"
    if "length (idx_ColumnNames index) \<le> length (idx_ColumnDirections index)"
    using that by (simp add: columnNameOf_keyColumnRows directionOf_keyColumnRows)
  have store: "map columnNameOf (storeColumnRows tn index) = idx_StoreColumnNames index \<and>
      map directionOf (storeColumnRows tn index) =
        replicate (length (idx_StoreColumnNames index)) ''N/A''"
    by (simp add: columnNameOf_storeColumnRows directionOf_storeColumnRows)
  have seq: "map sequenceOf (keyColumnRows tn index @ storeColumnRows tn index) =
        map int [1..<Suc (length (idx_ColumnNames index) + length (idx_StoreColumnNames index))]"
    if "length (idx_ColumnNames index) \<le> length (idx_ColumnDirections index)"
      and "length (idx_ColumnNames index) + length (idx_StoreColumnNames index) < 2 ^ 63"
    using that by (rule sequenceOf_index_rows)
  have built: "\<exists>d. ShowIndex p n = Inr d \<and>
           dn_constructor d = ShowIndex_constructor tn desc (dn_columns d) \<and>
           (\<forall>node. outcome (dn_constructor d p) = Ok node \<longrightarrow>
              planRows node = showIndexRows tn desc) \<and>
           ((\<forall>rs r. accepts p rs r) \<and>
            (\<forall>index \<in> set (td_PrimaryIndex desc # td_Indexes desc).
               length (idx_ColumnNames index) \<le> length (idx_ColumnDirections index)) \<longrightarrow>
            (\<exists>node. outcome (dn_constructor d p) = Ok node))"
    if h: "resolveAndCheck p (mustGetTableDesc (cat p)) (si_Table n) = Inr (tn, desc)"
  proof -
    obtain d where d: "ShowIndex p n = Inr d"
      and c: "dn_constructor d = ShowIndex_constructor tn desc (dn_columns d)"
      using ShowIndex_resolved[OF h] by blast
    show ?thesis
      apply (intro exI[of _ d] conjI)
         apply (rule d)
        apply (rule c)
       apply (unfold c)
       apply (intro allI impI)
       apply (erule rows)
      apply (intro impI)
      apply (erule succeeds)
      done
  qed
  show ?thesis
    apply (intro conjI)
           apply (intro impI)
           apply (erule built)
          apply (intro allI impI)
          apply (erule rows)
         apply (intro impI)
         apply (erule succeeds)
        apply (intro impI)
        apply (erule key)
       apply (rule store[THEN conjunct1])
      apply (rule store[THEN conjunct2])
     apply (intro impI)
     apply (erule seq, assumption)
    apply (intro impI)
    apply (erule three)
    done
qed

lemma resolveAndCheck_table_idx:
  "resolveAndCheck planner_table_idx (mustGetTableDesc (cat planner_table_idx))
     (si_Table \<lparr>si_Table = name_t\<rparr>) = Inr (tn_t, table_idx)"
  by (simp add: resolveAndCheck_def planner_table_idx_def NormalizeWithDatabaseName_def
      name_t_def tn_t_def planner0_def catalog0_def)

theorem ShowIndex_rows_witness:
  "resolveAndCheck planner_table_idx (mustGetTableDesc (cat planner_table_idx))
     (si_Table \<lparr>si_Table = name_t\<rparr>) = Inr (tn_t, table_idx) \<and>
   (\<exists>d node. ShowIndex planner_table_idx \<lparr>si_Table = name_t\<rparr> = Inr d \<and>
      outcome (dn_constructor d planner_table_idx) = Ok node \<and>
      planRows node = rows_idx) \<and>
   outcome (ShowIndex_constructor tn_t table_idx [] planner0) =
     Ok (ValuesNode \<lparr>vn_columns = [], vn_rows = \<lparr>rows_of = rows_idx, closed = False\<rparr>\<rparr>) \<and>
   showIndexRows tn_t table_idx = rows_idx \<and>
   (\<forall>rs r. accepts planner0 rs r) \<and>
   (\<forall>rs r. accepts planner_table_idx rs r) \<and>
   length (idx_ColumnNames index_bc) = 2 \<and> length (idx_ColumnDirections index_bc) = 2 \<and>
   length (idx_StoreColumnNames index_bc) = 1 \<and>
   map sequenceOf (keyColumnRows tn_t index_bc @ storeColumnRows tn_t index_bc) = [1, 2, 3] \<and>
   map directionOf (storeColumnRows tn_t index_bc) = [''N/A''] \<and>
   map directionOf (keyColumnRows tn_t index_bc) = [''ASC'', ''DESC'']"
proof -
  note t = ShowIndex_rows[where tn = tn_t and desc = table_idx and columns = "[]" and p = planner0
      and index = index_bc]
  note u = ShowIndex_rows[where tn = tn_t and desc = table_idx and p = planner_table_idx
      and n = "\<lparr>si_Table = name_t\<rparr>", THEN conjunct1, THEN mp, OF resolveAndCheck_table_idx]
  have c: "outcome (ShowIndex_constructor tn_t table_idx [] planner0) =
     Ok (ValuesNode \<lparr>vn_columns = [], vn_rows = \<lparr>rows_of = rows_idx, closed = False\<rparr>\<rparr>)"
    by (rule ShowIndex_constructor_table_idx)
  have r: "showIndexRows tn_t table_idx = rows_idx"
    using t c by auto
  have a: "\<forall>rs r. accepts planner0 rs r"
    by (simp add: planner0_def)
  have a': "\<forall>rs r. accepts planner_table_idx rs r"
    by (simp add: planner_table_idx_def planner0_def)
  have dirs: "\<forall>index \<in> set (td_PrimaryIndex table_idx # td_Indexes table_idx).
      length (idx_ColumnNames index) \<le> length (idx_ColumnDirections index)"
    by (simp add: index_defs table_defs)
  from u obtain d where d: "ShowIndex planner_table_idx \<lparr>si_Table = name_t\<rparr> = Inr d"
    and rows: "\<forall>node. outcome (dn_constructor d planner_table_idx) = Ok node \<longrightarrow>
              planRows node = showIndexRows tn_t table_idx"
    and succ: "(\<forall>rs r. accepts planner_table_idx rs r) \<and>
            (\<forall>index \<in> set (td_PrimaryIndex table_idx # td_Indexes table_idx).
               length (idx_ColumnNames index) \<le> length (idx_ColumnDirections index)) \<longrightarrow>
            (\<exists>node. outcome (dn_constructor d planner_table_idx) = Ok node)"
    by blast
  from succ a' dirs obtain node where node: "outcome (dn_constructor d planner_table_idx) = Ok node"
    by blast
  have x: "\<exists>d node. ShowIndex planner_table_idx \<lparr>si_Table = name_t\<rparr> = Inr d \<and>
      outcome (dn_constructor d planner_table_idx) = Ok node \<and>
      planRows node = rows_idx"
    using d node rows r by (intro exI[of _ d] exI[of _ node] conjI) simp_all
  have l: "length (idx_ColumnNames index_bc) = 2 \<and> length (idx_ColumnDirections index_bc) = 2 \<and>
           length (idx_StoreColumnNames index_bc) = 1"
    by (simp add: index_bc_def)
  have s: "map sequenceOf (keyColumnRows tn_t index_bc @ storeColumnRows tn_t index_bc) = [1, 2, 3]
      \<and> map directionOf (storeColumnRows tn_t index_bc) = [''N/A'']"
    using t l by blast
  have d': "map directionOf (keyColumnRows tn_t index_bc) = [''ASC'', ''DESC'']"
    using t l by (simp add: index_bc_def)
  show ?thesis
    using resolveAndCheck_table_idx x c r a a' l s d' by (intro conjI) (simp_all only: simp_thms)
qed
subsection \<open>SHOW COLUMNS: the checks and their order\<close>

lemma ShowColumns_rows_QueryRow:
  "outcome (ShowColumns_rows tn columns (p\<lparr>cat := (cat p)\<lparr>QueryRow := q\<rparr>\<rparr>)) =
     outcome (ShowColumns_rows tn columns p) \<and>
   container (ShowColumns_rows tn columns (p\<lparr>cat := (cat p)\<lparr>QueryRow := q\<rparr>\<rparr>)) =
     container (ShowColumns_rows tn columns p)"
proof -
  let ?p' = "p\<lparr>cat := (cat p)\<lparr>QueryRow := q\<rparr>\<rparr>"
  have add: "addRowsOrClose (?p'\<lparr>evalCtx_Database := d\<rparr>) v rows =
             addRowsOrClose (p\<lparr>evalCtx_Database := d\<rparr>) v rows" for d v rows
    by (induction rows arbitrary: v) (simp_all split: sum.splits)
  show ?thesis
    by (simp add: ShowColumns_rows_def Let_def add failed_def returned_def
        split: sum.splits prod.splits)
qed

lemma addRowsOrClose_accepts:
  "\<forall>rs r. accepts p rs r \<Longrightarrow>
   addRowsOrClose p v rows =
     Inr (v\<lparr>vn_rows := (vn_rows v)\<lparr>rows_of := rows_of (vn_rows v) @ rows\<rparr>\<rparr>)"
  by (induction rows arbitrary: v) (simp_all add: AddRow_def)

lemma ShowColumns_rows_succeeds:
  assumes "queryRows (cat p) (DatabaseName tn) getColumns [DatabaseName tn, TableName tn] =
             Inr rows"
    and "\<forall>rs r. accepts p rs r"
  shows "\<exists>node. outcome (ShowColumns_rows tn columns p) = Ok node \<and> planRows node = rows"
proof -
  have a: "\<forall>rs r. accepts (p\<lparr>evalCtx_Database := DatabaseName tn\<rparr>) rs r"
    using assms(2) by simp
  show ?thesis
    using assms(1)
    by (simp add: ShowColumns_rows_def Let_def addRowsOrClose_accepts[OF a] returned_def
        newContainerValuesNode_def)
qed

text \<open>
  Claim C7. The constructor of SHOW COLUMNS for the name \<open>tn\<close> first probes the database
  with \<^verbatim>\<open>queryRowsAsRoot\<close>: no row is the undefined-database error naming the database,
  whatever the rest of the catalog says. Then it probes the table with
  \<^verbatim>\<open>queryRowsAsRoot\<close>: no row is the undefined-table error naming the qualified name,
  whatever the privileges are. Then, for a table that is not virtual, no row of the
  privilege query for the user is the no-privileges error, and a row of it lets the
  constructor go on to the columns: it returns the rows of the columns query, run with
  the target database as the current one, when the memory monitor accepts them. For a
  virtual table the privilege query has no influence on the result. The plan that
  \<^verbatim>\<open>ShowColumns\<close> builds runs this constructor for the normalized name.
\<close>

theorem ShowColumns_existence_and_privilege_checks:
  "(queryRowsAsRoot (cat p) (evalCtx_Database p) checkSchema [DatabaseName tn] = Inr [] \<longrightarrow>
      outcome (ShowColumns_constructor tn columns p) =
        Err (UndefinedDatabaseError (DatabaseName tn))) \<and>
   (queryRowsAsRoot (cat p) (evalCtx_Database p) checkSchema [DatabaseName tn] = Inr (r1 # rs1) \<and>
    queryRowsAsRoot (cat p) (evalCtx_Database p) checkTable [DatabaseName tn, TableName tn] = Inr []
      \<longrightarrow>
      outcome (ShowColumns_constructor tn columns p) =
        Err (UndefinedTableError (TableName_String tn))) \<and>
   (queryRowsAsRoot (cat p) (evalCtx_Database p) checkSchema [DatabaseName tn] = Inr (r1 # rs1) \<and>
    queryRowsAsRoot (cat p) (evalCtx_Database p) checkTable [DatabaseName tn, TableName tn] =
      Inr (r2 # rs2) \<and>
    getVirtualTableDesc (cat p) tn = Inr None \<and>
    QueryRow (cat p) (evalCtx_Database p) checkTablePrivilege
      [DatabaseName tn, TableName tn, User (session p)] = Inr []
      \<longrightarrow>
      outcome (ShowColumns_constructor tn columns p) =
        Err (NoPrivilegesOnTable (User (session p)) (TableName_String tn))) \<and>
   (queryRowsAsRoot (cat p) (evalCtx_Database p) checkSchema [DatabaseName tn] = Inr (r1 # rs1) \<and>
    queryRowsAsRoot (cat p) (evalCtx_Database p) checkTable [DatabaseName tn, TableName tn] =
      Inr (r2 # rs2) \<and>
    getVirtualTableDesc (cat p) tn = Inr None \<and>
    QueryRow (cat p) (evalCtx_Database p) checkTablePrivilege
      [DatabaseName tn, TableName tn, User (session p)] = Inr (x # xs)
      \<longrightarrow>
      ShowColumns_constructor tn columns p = ShowColumns_rows tn columns p \<and>
      (queryRows (cat p) (DatabaseName tn) getColumns [DatabaseName tn, TableName tn] =
         Inr rows \<and> (\<forall>rs r. accepts p rs r) \<longrightarrow>
       (\<exists>node. outcome (ShowColumns_constructor tn columns p) = Ok node \<and>
               planRows node = rows))) \<and>
   (queryRowsAsRoot (cat p) (evalCtx_Database p) checkSchema [DatabaseName tn] = Inr (r1 # rs1) \<and>
    queryRowsAsRoot (cat p) (evalCtx_Database p) checkTable [DatabaseName tn, TableName tn] =
      Inr (r2 # rs2) \<and>
    getVirtualTableDesc (cat p) tn = Inr (Some vd)
      \<longrightarrow>
      ShowColumns_constructor tn columns p = ShowColumns_rows tn columns p \<and>
      (\<forall>q. outcome (ShowColumns_constructor tn columns (p\<lparr>cat := (cat p)\<lparr>QueryRow := q\<rparr>\<rparr>)) =
            outcome (ShowColumns_constructor tn columns p))) \<and>
   (NormalizeWithDatabaseName (sc_Table n) (Database (session p)) = Inr tn \<longrightarrow>
      (\<exists>d. ShowColumns p n = Inr d \<and>
           dn_constructor d = ShowColumns_constructor tn (dn_columns d)))"
proof -
  have db: "outcome (ShowColumns_constructor tn columns p) =
        Err (UndefinedDatabaseError (DatabaseName tn))"
    if "queryRowsAsRoot (cat p) (evalCtx_Database p) checkSchema [DatabaseName tn] = Inr []"
    using that by (simp add: ShowColumns_constructor_def failed_def)
  have tbl: "outcome (ShowColumns_constructor tn columns p) =
        Err (UndefinedTableError (TableName_String tn))"
    if "queryRowsAsRoot (cat p) (evalCtx_Database p) checkSchema [DatabaseName tn] = Inr (r1 # rs1) \<and>
        queryRowsAsRoot (cat p) (evalCtx_Database p) checkTable [DatabaseName tn, TableName tn] =
          Inr []"
    using that by (simp add: ShowColumns_constructor_def failed_def)
  have priv: "outcome (ShowColumns_constructor tn columns p) =
        Err (NoPrivilegesOnTable (User (session p)) (TableName_String tn))"
    if "queryRowsAsRoot (cat p) (evalCtx_Database p) checkSchema [DatabaseName tn] = Inr (r1 # rs1) \<and>
        queryRowsAsRoot (cat p) (evalCtx_Database p) checkTable [DatabaseName tn, TableName tn] =
          Inr (r2 # rs2) \<and>
        getVirtualTableDesc (cat p) tn = Inr None \<and>
        QueryRow (cat p) (evalCtx_Database p) checkTablePrivilege
          [DatabaseName tn, TableName tn, User (session p)] = Inr []"
    using that
    by (simp add: ShowColumns_constructor_def ShowColumns_checkGranted_def failed_def)
  have granted: "ShowColumns_constructor tn columns p = ShowColumns_rows tn columns p \<and>
      (queryRows (cat p) (DatabaseName tn) getColumns [DatabaseName tn, TableName tn] =
         Inr rows \<and> (\<forall>rs r. accepts p rs r) \<longrightarrow>
       (\<exists>node. outcome (ShowColumns_constructor tn columns p) = Ok node \<and>
               planRows node = rows))"
    if h: "queryRowsAsRoot (cat p) (evalCtx_Database p) checkSchema [DatabaseName tn] =
          Inr (r1 # rs1) \<and>
        queryRowsAsRoot (cat p) (evalCtx_Database p) checkTable [DatabaseName tn, TableName tn] =
          Inr (r2 # rs2) \<and>
        getVirtualTableDesc (cat p) tn = Inr None \<and>
        QueryRow (cat p) (evalCtx_Database p) checkTablePrivilege
          [DatabaseName tn, TableName tn, User (session p)] = Inr (x # xs)"
  proof -
    have c: "ShowColumns_constructor tn columns p = ShowColumns_rows tn columns p"
      using h by (simp add: ShowColumns_constructor_def ShowColumns_checkGranted_def)
    show ?thesis
      unfolding c using ShowColumns_rows_succeeds by blast
  qed
  have virt: "ShowColumns_constructor tn columns p = ShowColumns_rows tn columns p \<and>
      (\<forall>q. outcome (ShowColumns_constructor tn columns (p\<lparr>cat := (cat p)\<lparr>QueryRow := q\<rparr>\<rparr>)) =
            outcome (ShowColumns_constructor tn columns p))"
    if h: "queryRowsAsRoot (cat p) (evalCtx_Database p) checkSchema [DatabaseName tn] =
          Inr (r1 # rs1) \<and>
        queryRowsAsRoot (cat p) (evalCtx_Database p) checkTable [DatabaseName tn, TableName tn] =
          Inr (r2 # rs2) \<and>
        getVirtualTableDesc (cat p) tn = Inr (Some vd)"
  proof -
    have c: "ShowColumns_constructor tn columns p = ShowColumns_rows tn columns p"
      using h by (simp add: ShowColumns_constructor_def ShowColumns_checkGranted_def)
    have "ShowColumns_constructor tn columns (p\<lparr>cat := (cat p)\<lparr>QueryRow := q\<rparr>\<rparr>) =
          ShowColumns_rows tn columns (p\<lparr>cat := (cat p)\<lparr>QueryRow := q\<rparr>\<rparr>)" for q
      using h by (simp add: ShowColumns_constructor_def ShowColumns_checkGranted_def)
    with c show ?thesis
      by (simp add: ShowColumns_rows_QueryRow)
  qed
  have build: "\<exists>d. ShowColumns p n = Inr d \<and>
           dn_constructor d = ShowColumns_constructor tn (dn_columns d)"
    if "NormalizeWithDatabaseName (sc_Table n) (Database (session p)) = Inr tn"
    using that by (simp add: ShowColumns_def Let_def)
  show ?thesis
    apply (intro conjI)
         apply (rule impI, erule db)
        apply (rule impI, erule tbl)
       apply (rule impI, erule priv)
      apply (rule impI, erule granted)
     apply (rule impI, erule virt)
    apply (rule impI, erule build)
    done
qed

lemmas columns_defs =
  planner_db_def planner_tbl_def planner_virt_def planner_priv_def stmt_missingdb_def

theorem ShowColumns_existence_and_privilege_checks_witness:
  "queryRowsAsRoot (cat planner0) (evalCtx_Database planner0) checkSchema [''missingdb''] = Inr [] \<and>
   NormalizeWithDatabaseName (sc_Table stmt_missingdb) (Database (session planner0)) =
     Inr \<lparr>DatabaseName = ''missingdb'', TableName = ''t''\<rparr> \<and>
   (\<exists>d. ShowColumns planner0 stmt_missingdb = Inr d \<and>
        outcome (dn_constructor d planner0) = Err (UndefinedDatabaseError ''missingdb'')) \<and>
   queryRowsAsRoot (cat planner_db) (evalCtx_Database planner_db) checkSchema [''d''] =
     Inr [[DString ''d'']] \<and>
   queryRowsAsRoot (cat planner_db) (evalCtx_Database planner_db) checkTable [''d'', ''t''] = Inr [] \<and>
   outcome (ShowColumns_constructor tn_t [] planner_db) = Err (UndefinedTableError ''d.t'') \<and>
   getVirtualTableDesc (cat planner_tbl) tn_t = Inr None \<and>
   QueryRow (cat planner_tbl) (evalCtx_Database planner_tbl) checkTablePrivilege
     [''d'', ''t'', ''alice''] = Inr [] \<and>
   outcome (ShowColumns_constructor tn_t [] planner_tbl) =
     Err (NoPrivilegesOnTable ''alice'' ''d.t'') \<and>
   getVirtualTableDesc (cat planner_priv) tn_t = Inr None \<and>
   QueryRow (cat planner_priv) (evalCtx_Database planner_priv) checkTablePrivilege
     [''d'', ''t'', ''alice''] = Inr [DString ''SELECT''] \<and>
   queryRows (cat planner_priv) ''d'' getColumns [''d'', ''t''] =
     Inr [[DString ''a'', DString ''INT'', DBool False, DNull]] \<and>
   (\<forall>rs r. accepts planner_priv rs r) \<and>
   (\<exists>node. outcome (ShowColumns_constructor tn_t [] planner_priv) = Ok node \<and>
      planRows node = [[DString ''a'', DString ''INT'', DBool False, DNull]]) \<and>
   getVirtualTableDesc (cat planner_virt) tn_t = Inr (Some table0) \<and>
   outcome (ShowColumns_constructor tn_t []
      (planner_virt\<lparr>cat := (cat planner_virt)\<lparr>QueryRow :=
          (\<lambda>db sql args. Inl (CollaboratorError ''unreachable''))\<rparr>\<rparr>)) =
     outcome (ShowColumns_constructor tn_t [] planner_virt)"
proof -
  let ?tn = "\<lparr>DatabaseName = ''missingdb'', TableName = ''t''\<rparr>"
  have m1: "queryRowsAsRoot (cat planner0) (evalCtx_Database planner0) checkSchema
              [DatabaseName ?tn] = Inr []"
    by (simp add: planner0_def catalog0_def)
  have m2: "NormalizeWithDatabaseName (sc_Table stmt_missingdb) (Database (session planner0)) =
              Inr ?tn"
    by (simp add: NormalizeWithDatabaseName_def stmt_missingdb_def)
  note m = ShowColumns_existence_and_privilege_checks[where p = planner0 and tn = ?tn
      and n = stmt_missingdb]
  have m3: "\<exists>d. ShowColumns planner0 stmt_missingdb = Inr d \<and>
        outcome (dn_constructor d planner0) = Err (UndefinedDatabaseError ''missingdb'')"
  proof -
    from m m2 obtain d where d: "ShowColumns planner0 stmt_missingdb = Inr d"
      and c: "dn_constructor d = ShowColumns_constructor ?tn (dn_columns d)"
      by blast
    have "outcome (ShowColumns_constructor ?tn (dn_columns d) planner0) =
            Err (UndefinedDatabaseError (DatabaseName ?tn))"
      using ShowColumns_existence_and_privilege_checks[of planner0 ?tn "dn_columns d"] m1
      by blast
    with d c show ?thesis by simp
  qed
  have d1: "queryRowsAsRoot (cat planner_db) (evalCtx_Database planner_db) checkSchema
              [DatabaseName tn_t] = Inr ([DString ''d''] # [])"
    by (simp add: columns_defs planner0_def catalog0_def tn_t_def)
  have d2: "queryRowsAsRoot (cat planner_db) (evalCtx_Database planner_db) checkTable
              [DatabaseName tn_t, TableName tn_t] = Inr []"
    by (simp add: columns_defs planner0_def catalog0_def tn_t_def checkTable_def checkSchema_def)
  have d3: "outcome (ShowColumns_constructor tn_t [] planner_db) =
              Err (UndefinedTableError (TableName_String tn_t))"
    using ShowColumns_existence_and_privilege_checks[of planner_db tn_t "[]" "[DString ''d'']" "[]"]
      d1 d2 by blast
  have t1: "queryRowsAsRoot (cat planner_tbl) (evalCtx_Database planner_tbl) checkSchema
              [DatabaseName tn_t] = Inr ([DString ''d''] # [])"
    and t2: "queryRowsAsRoot (cat planner_tbl) (evalCtx_Database planner_tbl) checkTable
              [DatabaseName tn_t, TableName tn_t] = Inr ([DString ''d''] # [])"
    and t3: "getVirtualTableDesc (cat planner_tbl) tn_t = Inr None"
    and t4: "QueryRow (cat planner_tbl) (evalCtx_Database planner_tbl) checkTablePrivilege
               [DatabaseName tn_t, TableName tn_t, User (session planner_tbl)] = Inr []"
    by (simp_all add: columns_defs planner0_def catalog0_def)
  have t5: "outcome (ShowColumns_constructor tn_t [] planner_tbl) =
              Err (NoPrivilegesOnTable (User (session planner_tbl)) (TableName_String tn_t))"
    using ShowColumns_existence_and_privilege_checks[of planner_tbl tn_t "[]" "[DString ''d'']" "[]"
        "[DString ''d'']" "[]"] t1 t2 t3 t4 by blast
  have v1: "queryRowsAsRoot (cat planner_virt) (evalCtx_Database planner_virt) checkSchema
              [DatabaseName tn_t] = Inr ([DString ''d''] # [])"
    and v2: "queryRowsAsRoot (cat planner_virt) (evalCtx_Database planner_virt) checkTable
              [DatabaseName tn_t, TableName tn_t] = Inr ([DString ''d''] # [])"
    and v3: "getVirtualTableDesc (cat planner_virt) tn_t = Inr (Some table0)"
    by (simp_all add: columns_defs planner0_def catalog0_def)
  have v4: "outcome (ShowColumns_constructor tn_t []
      (planner_virt\<lparr>cat := (cat planner_virt)\<lparr>QueryRow :=
          (\<lambda>db sql args. Inl (CollaboratorError ''unreachable''))\<rparr>\<rparr>)) =
     outcome (ShowColumns_constructor tn_t [] planner_virt)"
    using ShowColumns_existence_and_privilege_checks[where p = planner_virt and tn = tn_t
        and columns = "[]" and ?r1.0 = "[DString ''d'']" and ?rs1.0 = "[]"
        and ?r2.0 = "[DString ''d'']" and ?rs2.0 = "[]" and vd = table0] v1 v2 v3 by blast
  have g1: "queryRowsAsRoot (cat planner_priv) (evalCtx_Database planner_priv) checkSchema
              [DatabaseName tn_t] = Inr ([DString ''d''] # [])"
    and g2: "queryRowsAsRoot (cat planner_priv) (evalCtx_Database planner_priv) checkTable
              [DatabaseName tn_t, TableName tn_t] = Inr ([DString ''d''] # [])"
    and g3: "getVirtualTableDesc (cat planner_priv) tn_t = Inr None"
    and g4: "QueryRow (cat planner_priv) (evalCtx_Database planner_priv) checkTablePrivilege
               [DatabaseName tn_t, TableName tn_t, User (session planner_priv)] =
             Inr (DString ''SELECT'' # [])"
    and g5: "queryRows (cat planner_priv) (DatabaseName tn_t) getColumns
               [DatabaseName tn_t, TableName tn_t] =
             Inr [[DString ''a'', DString ''INT'', DBool False, DNull]]"
    and g6: "\<forall>rs r. accepts planner_priv rs r"
    by (simp_all add: columns_defs planner0_def catalog0_def tn_t_def)
  have g7: "\<exists>node. outcome (ShowColumns_constructor tn_t [] planner_priv) = Ok node \<and>
      planRows node = [[DString ''a'', DString ''INT'', DBool False, DNull]]"
    using ShowColumns_existence_and_privilege_checks[where p = planner_priv and tn = tn_t
        and columns = "[]" and ?r1.0 = "[DString ''d'']" and ?rs1.0 = "[]"
        and ?r2.0 = "[DString ''d'']" and ?rs2.0 = "[]" and x = "DString ''SELECT''" and xs = "[]"
        and rows = "[[DString ''a'', DString ''INT'', DBool False, DNull]]"]
      g1 g2 g3 g4 g5 g6 by blast
  have names: "TableName_String tn_t = ''d.t''" "User (session planner_tbl) = ''alice''"
    "User (session planner_priv) = ''alice''"
    "DatabaseName tn_t = ''d''" "TableName tn_t = ''t''" "DatabaseName ?tn = ''missingdb''"
    by (simp_all add: TableName_String_def tn_t_def columns_defs planner0_def)
  show ?thesis
    using m1 m2 m3 d1 d2 d3 t3 t4 t5 g3 g4 g5 g6 g7 v3 v4 unfolding names
    by (intro conjI) (simp_all only: simp_thms)
qed
subsection \<open>SHOW ALL and SHOW variable\<close>

lemma varNames_any_order:
  assumes "mset ks = mset (map fst varGen)"
  shows "sort ks = varNames"
proof -
  have "mset (sort ks) = mset (map fst varGen)"
    using assms by simp
  then have "sort (map fst varGen) = sort ks"
    by (rule properties_for_sort) simp
  then show ?thesis
    by (simp add: varNames_def)
qed

lemma varNames_value:
  "varNames =
     [''DATABASE'', ''DEFAULT_TRANSACTION_ISOLATION'', ''MAX_INDEX_KEYS'', ''SEARCH_PATH'',
      ''SYNTAX'', ''TIME ZONE'', ''TRANSACTION ISOLATION LEVEL'', ''TRANSACTION PRIORITY'']"
  by (simp add: varNames_def varGen_def)

lemma set_varNames: "set varNames = fst ` set varGen"
  by (simp add: varNames_def)

lemma sorted_varNames: "sorted varNames"
  by (simp add: varNames_def)

lemma distinct_varNames: "distinct varNames"
  by (simp add: varNames_value)

lemma ALL_not_registered: "''ALL'' \<notin> set varNames"
  by (simp add: varNames_value)

lemma map_of_varGen_registered:
  "name \<in> set varNames \<Longrightarrow> \<exists>gen. map_of varGen name = Some gen"
  unfolding set_varNames by (metis domD dom_map_of_conv_image_fst)

lemma showAllLoop_Ok:
  "showAllLoop p v names = (Ok v', w) \<Longrightarrow>
   rows_of (vn_rows v') =
     rows_of (vn_rows v) @ map (\<lambda>name. [DString name, DString (varValue p name)]) names \<and>
   closed (vn_rows v') = closed (vn_rows v) \<and> vn_columns v' = vn_columns v"
proof (induction names arbitrary: v)
  case Nil
  then show ?case by auto
next
  case (Cons vName rest)
  from Cons.prems obtain gen where g: "map_of varGen vName = Some gen"
    by (cases "map_of varGen vName") auto
  from Cons.prems g obtain rows' where
    a: "AddRow (accepts p) (vn_rows v) [DString vName, DString (gen p)] = Inr rows'"
    by (cases "AddRow (accepts p) (vn_rows v) [DString vName, DString (gen p)]")
       (auto simp: Let_def)
  from Cons.prems g a have "showAllLoop p (v\<lparr>vn_rows := rows'\<rparr>) rest = (Ok v', w)"
    by (simp add: Let_def)
  from Cons.IH[OF this] a g show ?case
    by (auto simp: AddRow_def varValue_def split: if_splits)
qed

lemma showAllLoop_succeeds:
  assumes "\<forall>rs r. accepts p rs r"
  shows "set names \<subseteq> set varNames \<Longrightarrow> \<exists>v' w. showAllLoop p v names = (Ok v', w)"
proof (induction names arbitrary: v)
  case Nil
  show ?case by simp
next
  case (Cons vName rest)
  then obtain gen where g: "map_of varGen vName = Some gen"
    using map_of_varGen_registered[of vName] by auto
  from Cons.prems have "set rest \<subseteq> set varNames" by simp
  from Cons.IH[OF this] show ?case
    using assms by (simp add: g AddRow_def Let_def)
qed

lemma Show_constructor_ALL_Ok:
  assumes "outcome (Show_constructor ''ALL'' columns p) = Ok node"
  shows "planRows node = showAllRows p"
proof -
  let ?v = "newContainerValuesNode columns"
  obtain r w where l: "showAllLoop p ?v varNames = (r, w)"
    by (cases "showAllLoop p ?v varNames")
  with assms obtain v' where r: "r = Ok v'" and node: "node = ValuesNode v'"
    by (cases r) (auto simp: Show_constructor_def Let_def returned_def failed_def panicked_def)
  from showAllLoop_Ok[OF l[unfolded r]] show ?thesis
    by (simp add: node showAllRows_def newContainerValuesNode_def)
qed

lemma Show_constructor_ALL_succeeds:
  assumes "\<forall>rs r. accepts p rs r"
  shows "\<exists>node. outcome (Show_constructor ''ALL'' columns p) = Ok node"
proof -
  obtain v' w where "showAllLoop p (newContainerValuesNode columns) varNames = (Ok v', w)"
    using showAllLoop_succeeds[OF assms subset_refl] by blast
  then show ?thesis
    by (simp add: Show_constructor_def Let_def returned_def)
qed

lemma Show_constructor_variable_Ok:
  assumes "name \<in> set varNames"
    and "outcome (Show_constructor name columns p) = Ok node"
  shows "planRows node = [[DString (varValue p name)]]"
proof -
  from assms(1) have n: "name \<noteq> ''ALL''"
    using ALL_not_registered by auto
  from assms(1) obtain gen where g: "map_of varGen name = Some gen"
    using map_of_varGen_registered by blast
  show ?thesis
    using assms(2) n g
    by (auto simp: Show_constructor_def Let_def returned_def failed_def AddRow_def
        newContainerValuesNode_def varValue_def split: if_splits)
qed

lemma Show_constructor_variable_succeeds:
  assumes "name \<in> set varNames" and "\<forall>rs r. accepts p rs r"
  shows "\<exists>node. outcome (Show_constructor name columns p) = Ok node"
proof -
  from assms(1) have n: "name \<noteq> ''ALL''"
    using ALL_not_registered by auto
  from assms(1) obtain gen where g: "map_of varGen name = Some gen"
    using map_of_varGen_registered by blast
  show ?thesis
    using assms(2) n g
    by (simp add: Show_constructor_def Let_def returned_def AddRow_def)
qed

text \<open>
  Claim C8. The registered variable names are sorted ascending, without repetition, and
  are exactly the keys of \<^verbatim>\<open>varGen\<close>. SHOW ALL (in any letter case) builds a plan with the
  two columns "Variable" and "Value"; when its constructor returns a plan, the rows are
  one row (name, value) per registered variable in that order, and it returns a plan
  when the memory monitor accepts every row. SHOW of a registered variable builds a plan
  with one column named after the variable (in upper case) whose constructor, when it
  returns a plan, gives exactly one row, holding the value that the variable's row of
  SHOW ALL holds.
\<close>

theorem Show_all_and_Show_variable:
  "sorted varNames \<and> distinct varNames \<and> set varNames = fst ` set varGen \<and>
   map (\<lambda>r. column r 0) (showAllRows p) = map DString varNames \<and>
   (ToUpper (show_Name n) = ''ALL'' \<longrightarrow>
      (\<exists>d. Show p n = Inr d \<and>
           dn_columns d = [\<lparr>rc_Name = ''Variable'', rc_Typ = TypeString\<rparr>,
                           \<lparr>rc_Name = ''Value'', rc_Typ = TypeString\<rparr>] \<and>
           (\<forall>node. outcome (dn_constructor d p) = Ok node \<longrightarrow> planRows node = showAllRows p) \<and>
           ((\<forall>rs r. accepts p rs r) \<longrightarrow> (\<exists>node. outcome (dn_constructor d p) = Ok node)))) \<and>
   (ToUpper (show_Name n) \<in> set varNames \<longrightarrow>
      (\<exists>d. Show p n = Inr d \<and>
           dn_columns d = [\<lparr>rc_Name = ToUpper (show_Name n), rc_Typ = TypeString\<rparr>] \<and>
           (\<forall>node. outcome (dn_constructor d p) = Ok node \<longrightarrow>
              planRows node = [[DString (varValue p (ToUpper (show_Name n)))]]) \<and>
           ((\<forall>rs r. accepts p rs r) \<longrightarrow> (\<exists>node. outcome (dn_constructor d p) = Ok node)) \<and>
           [DString (ToUpper (show_Name n)), DString (varValue p (ToUpper (show_Name n)))]
             \<in> set (showAllRows p)))"
proof -
  have names: "map (\<lambda>r. column r 0) (showAllRows p) = map DString varNames"
    by (simp add: showAllRows_def column_def o_def)
  have all: "\<exists>d. Show p n = Inr d \<and>
           dn_columns d = [\<lparr>rc_Name = ''Variable'', rc_Typ = TypeString\<rparr>,
                           \<lparr>rc_Name = ''Value'', rc_Typ = TypeString\<rparr>] \<and>
           (\<forall>node. outcome (dn_constructor d p) = Ok node \<longrightarrow> planRows node = showAllRows p) \<and>
           ((\<forall>rs r. accepts p rs r) \<longrightarrow> (\<exists>node. outcome (dn_constructor d p) = Ok node))"
    if "ToUpper (show_Name n) = ''ALL''"
    using that Show_constructor_ALL_Ok Show_constructor_ALL_succeeds
    by (simp add: Show_def Let_def)
  have one: "\<exists>d. Show p n = Inr d \<and>
           dn_columns d = [\<lparr>rc_Name = ToUpper (show_Name n), rc_Typ = TypeString\<rparr>] \<and>
           (\<forall>node. outcome (dn_constructor d p) = Ok node \<longrightarrow>
              planRows node = [[DString (varValue p (ToUpper (show_Name n)))]]) \<and>
           ((\<forall>rs r. accepts p rs r) \<longrightarrow> (\<exists>node. outcome (dn_constructor d p) = Ok node)) \<and>
           [DString (ToUpper (show_Name n)), DString (varValue p (ToUpper (show_Name n)))]
             \<in> set (showAllRows p)"
    if r: "ToUpper (show_Name n) \<in> set varNames"
  proof -
    from r have n: "ToUpper (show_Name n) \<noteq> ''ALL''"
      using ALL_not_registered by auto
    from r obtain gen where g: "map_of varGen (ToUpper (show_Name n)) = Some gen"
      using map_of_varGen_registered by blast
    have row: "[DString (ToUpper (show_Name n)), DString (varValue p (ToUpper (show_Name n)))]
             \<in> set (showAllRows p)"
      using r by (simp add: showAllRows_def)
    show ?thesis
      using n g row Show_constructor_variable_Ok[OF r] Show_constructor_variable_succeeds[OF r]
      by (simp add: Show_def Let_def)
  qed
  show ?thesis
    using sorted_varNames distinct_varNames set_varNames names all one by blast
qed

lemma ToUpper_all: "ToUpper ''all'' = ''ALL''"
  by code_simp

lemma ToUpper_database: "ToUpper ''database'' = ''DATABASE''"
  by code_simp

lemma showAllRows_planner0:
  "showAllRows planner0 =
     [[DString ''DATABASE'', DString ''d''],
      [DString ''DEFAULT_TRANSACTION_ISOLATION'', DString ''SERIALIZABLE''],
      [DString ''MAX_INDEX_KEYS'', DString ''32''],
      [DString ''SEARCH_PATH'', DString ''pg_catalog''],
      [DString ''SYNTAX'', DString ''Traditional''],
      [DString ''TIME ZONE'', DString ''UTC''],
      [DString ''TRANSACTION ISOLATION LEVEL'', DString ''SERIALIZABLE''],
      [DString ''TRANSACTION PRIORITY'', DString ''NORMAL'']]"
  by (simp add: showAllRows_def varNames_value varValue_def varGen_def planner0_def
      parserfns0_def)

theorem Show_all_and_Show_variable_witness:
  "ToUpper (show_Name \<lparr>show_Name = ''all''\<rparr>) = ''ALL'' \<and>
   (\<forall>rs r. accepts planner0 rs r) \<and>
   (\<exists>d node. Show planner0 \<lparr>show_Name = ''all''\<rparr> = Inr d \<and>
      map rc_Name (dn_columns d) = [''Variable'', ''Value''] \<and>
      outcome (dn_constructor d planner0) = Ok node \<and>
      planRows node =
        [[DString ''DATABASE'', DString ''d''],
         [DString ''DEFAULT_TRANSACTION_ISOLATION'', DString ''SERIALIZABLE''],
         [DString ''MAX_INDEX_KEYS'', DString ''32''],
         [DString ''SEARCH_PATH'', DString ''pg_catalog''],
         [DString ''SYNTAX'', DString ''Traditional''],
         [DString ''TIME ZONE'', DString ''UTC''],
         [DString ''TRANSACTION ISOLATION LEVEL'', DString ''SERIALIZABLE''],
         [DString ''TRANSACTION PRIORITY'', DString ''NORMAL'']]) \<and>
   ToUpper (show_Name \<lparr>show_Name = ''database''\<rparr>) \<in> set varNames \<and>
   (\<exists>d node. Show planner0 \<lparr>show_Name = ''database''\<rparr> = Inr d \<and>
      map rc_Name (dn_columns d) = [''DATABASE''] \<and>
      outcome (dn_constructor d planner0) = Ok node \<and>
      planRows node = [[DString ''d'']])"
proof -
  let ?all = "\<lparr>show_Name = ''all''\<rparr>" and ?db = "\<lparr>show_Name = ''database''\<rparr>"
  have u1: "ToUpper (show_Name ?all) = ''ALL''"
    by (simp add: ToUpper_all)
  have u2: "ToUpper (show_Name ?db) \<in> set varNames"
    by (simp add: ToUpper_database varNames_value)
  have acc: "\<forall>rs r. accepts planner0 rs r"
    by (simp add: planner0_def)
  have v: "varValue planner0 (ToUpper (show_Name ?db)) = ''d''"
    by (simp add: ToUpper_database varValue_def varGen_def planner0_def)
  from Show_all_and_Show_variable[of planner0 ?all] u1 acc
  obtain d node where a1: "Show planner0 ?all = Inr d"
    and a2: "dn_columns d = [\<lparr>rc_Name = ''Variable'', rc_Typ = TypeString\<rparr>,
                             \<lparr>rc_Name = ''Value'', rc_Typ = TypeString\<rparr>]"
    and a3: "outcome (dn_constructor d planner0) = Ok node"
    and a4: "planRows node = showAllRows planner0"
    by blast
  from Show_all_and_Show_variable[of planner0 ?db] u2 acc
  obtain d' node' where b1: "Show planner0 ?db = Inr d'"
    and b2: "dn_columns d' = [\<lparr>rc_Name = ToUpper (show_Name ?db), rc_Typ = TypeString\<rparr>]"
    and b3: "outcome (dn_constructor d' planner0) = Ok node'"
    and b4: "planRows node' = [[DString (varValue planner0 (ToUpper (show_Name ?db)))]]"
    by blast
  have a: "\<exists>d node. Show planner0 ?all = Inr d \<and>
      map rc_Name (dn_columns d) = [''Variable'', ''Value''] \<and>
      outcome (dn_constructor d planner0) = Ok node \<and>
      planRows node = showAllRows planner0"
    using a1 a2 a3 a4 by simp
  have b: "\<exists>d node. Show planner0 ?db = Inr d \<and>
      map rc_Name (dn_columns d) = [''DATABASE''] \<and>
      outcome (dn_constructor d planner0) = Ok node \<and>
      planRows node = [[DString ''d'']]"
    using b1 b2 b3 b4 v by (simp add: ToUpper_database)
  show ?thesis
    using u1 acc a u2 b unfolding showAllRows_planner0 by blast
qed
subsection \<open>SHOW GRANTS: the two sources and the sort stage\<close>

lemma addRowsNoClose_None:
  "addRowsNoClose p v rows = (None, v1) \<Longrightarrow>
   rows_of (vn_rows v1) = rows_of (vn_rows v) @ rows \<and>
   closed (vn_rows v1) = closed (vn_rows v) \<and> vn_columns v1 = vn_columns v"
proof (induction rows arbitrary: v)
  case Nil
  then show ?case by auto
next
  case (Cons r rest)
  from Cons.prems obtain rows' where a: "AddRow (accepts p) (vn_rows v) r = Inr rows'"
    by (cases "AddRow (accepts p) (vn_rows v) r") auto
  from Cons.prems a have "addRowsNoClose p (v\<lparr>vn_rows := rows'\<rparr>) rest = (None, v1)"
    by simp
  from Cons.IH[OF this] a show ?case
    by (auto simp: AddRow_def split: if_splits)
qed

lemma addRowsNoClose_accepts:
  "\<forall>rs r. accepts p rs r \<Longrightarrow> \<exists>v1. addRowsNoClose p v rows = (None, v1)"
  by (induction rows arbitrary: v) (simp_all add: AddRow_def)

lemma queryFn_None:
  "queryFn p v sql args = (None, v1) \<Longrightarrow>
   \<exists>rows. queryRows (cat p) (evalCtx_Database p) sql args = Inr rows \<and>
          rows_of (vn_rows v1) = rows_of (vn_rows v) @ rows \<and>
          closed (vn_rows v1) = closed (vn_rows v) \<and> vn_columns v1 = vn_columns v"
  by (cases "queryRows (cat p) (evalCtx_Database p) sql args")
     (auto simp: queryFn_def dest: addRowsNoClose_None)

text \<open>The placeholders: \<^verbatim>\<open>%d\<close> of a parameter number below \<open>2 ^ 63\<close> is its decimal numeral.\<close>

lemma decimal_digits: "decimal n = digits n"
proof (induction n rule: digits.induct)
  case (1 n)
  show ?case
    by (subst decimal.simps, subst digits.simps) (simp add: 1)
qed

lemma itoa_of_nat:
  assumes "n < 2 ^ 63"
  shows "itoa (of_nat n) = decimal n"
  unfolding itoa_def sint_of_nat_small[OF assms] decimal_digits by simp

lemma placeholders_itoa:
  assumes "k + m \<le> 2 ^ 63"
  shows "map (\<lambda>j. ''$'' @ itoa (of_nat j)) [k..<k + m] = placeholders k m"
  unfolding placeholders_def placeholder_def
proof (rule map_cong[OF refl])
  fix j assume "j \<in> set [k..<k + m]"
  then have "j < 2 ^ 63"
    using assms by simp
  then show "''$'' @ itoa (of_nat j) = ''$'' @ decimal j"
    by (simp only: itoa_of_nat)
qed

lemma pairPlaceholders_itoa:
  assumes "2 * m < 2 ^ 63"
  shows "map (\<lambda>i. ''($'' @ itoa (of_nat (1 + 2 * i)) @ '',$'' @ itoa (of_nat (1 + 2 * i) + 1) @ '')'')
           [0..<m] = pairPlaceholders m"
  unfolding pairPlaceholders_def placeholder_def
proof (rule map_cong[OF refl])
  fix i assume "i \<in> set [0..<m]"
  then have a: "1 + 2 * i < 2 ^ 63" and b: "Suc (1 + 2 * i) < 2 ^ 63"
    using assms by simp_all
  have "(of_nat (1 + 2 * i) :: 64 word) + 1 = of_nat (Suc (1 + 2 * i))"
    by simp
  then show "''($'' @ itoa (of_nat (1 + 2 * i)) @ '',$'' @ itoa (of_nat (1 + 2 * i) + 1) @ '')'' =
        ''('' @ (''$'' @ decimal (2 * i + 1)) @ '','' @ (''$'' @ decimal (2 * i + 2)) @ '')''"
    by (simp only: itoa_of_nat[OF a] itoa_of_nat[OF b]) (simp add: add.commute)
qed

lemma map_upt_add:
  "map f [0..<a + b] = map f [0..<a] @ map (\<lambda>i. f (a + i)) [0..<b]"
  by (induction b) simp_all

text \<open>What the loops over the targets and the grantees collect.\<close>

lemma grantsDatabases_Inr:
  assumes "grantsDatabases p dbs params holders (of_nat k) = Inr (params', holders', sq')"
  shows "params' = params @ dbs \<and>
         holders' = holders @ map (\<lambda>j. ''$'' @ itoa (of_nat j)) [k..<k + length dbs] \<and>
         sq' = of_nat (k + length dbs) \<and>
         (\<forall>db \<in> set dbs. \<exists>r rs.
            queryRowsAsRoot (cat p) (evalCtx_Database p) checkSchema [db] = Inr (r # rs))"
  using assms
proof (induction dbs arbitrary: params holders k)
  case Nil
  then show ?case by simp
next
  case (Cons db rest)
  from Cons.prems obtain vals where
    q: "queryRowsAsRoot (cat p) (evalCtx_Database p) checkSchema [db] = Inr vals"
    by (cases "queryRowsAsRoot (cat p) (evalCtx_Database p) checkSchema [db]")
       (auto simp: checkFn_def)
  from Cons.prems q obtain r rs where v: "vals = r # rs"
    by (cases vals) (auto simp: checkFn_def)
  have s: "(of_nat k :: 64 word) + 1 = of_nat (Suc k)"
    by simp
  from Cons.prems q v
  have "grantsDatabases p rest (params @ [db]) (holders @ [''$'' @ itoa (of_nat k)])
          (of_nat (Suc k)) = Inr (params', holders', sq')"
    by (simp add: checkFn_def s del: of_nat_Suc)
  from Cons.IH[OF this] q v show ?case
    by (simp add: upt_conv_Cons del: upt_Suc of_nat_Suc)
qed

lemma grantsGrantees_eq:
  "grantsGrantees gs params holders (of_nat k) =
     (params @ gs, holders @ map (\<lambda>j. ''$'' @ itoa (of_nat j)) [k..<k + length gs],
      of_nat (k + length gs))"
proof (induction gs arbitrary: params holders k)
  case Nil
  show ?case by simp
next
  case (Cons g rest)
  have s: "(of_nat k :: 64 word) + 1 = of_nat (Suc k)"
    by simp
  show ?case
    by (simp add: s Cons.IH upt_conv_Cons del: upt_Suc of_nat_Suc)
qed

lemma grantsTables_Inr:
  assumes "grantsTables p ts params holders (of_nat k) = Inr (params', holders', sq')"
  shows "params' = params @ tableArgs ts \<and>
         holders' = holders @
           map (\<lambda>i. ''($'' @ itoa (of_nat (k + 2 * i)) @ '',$'' @ itoa (of_nat (k + 2 * i) + 1) @ '')'')
             [0..<length ts] \<and>
         sq' = of_nat (k + 2 * length ts) \<and>
         (\<forall>t \<in> set ts. \<exists>r rs.
            queryRowsAsRoot (cat p) (evalCtx_Database p) checkTable [DatabaseName t, TableName t] =
              Inr (r # rs))"
  using assms
proof (induction ts arbitrary: params holders k)
  case Nil
  then show ?case by (simp add: tableArgs_def)
next
  case (Cons t rest)
  let ?pair = "\<lambda>j. ''($'' @ itoa (of_nat j) @ '',$'' @ itoa ((of_nat j :: 64 word) + 1) @ '')''"
  from Cons.prems obtain vals where
    q: "queryRowsAsRoot (cat p) (evalCtx_Database p) checkTable [DatabaseName t, TableName t] =
          Inr vals"
    by (cases "queryRowsAsRoot (cat p) (evalCtx_Database p) checkTable
                 [DatabaseName t, TableName t]")
       (auto simp: checkFn_def)
  from Cons.prems q obtain r rs where v: "vals = r # rs"
    by (cases vals) (auto simp: checkFn_def)
  have s: "(of_nat k :: 64 word) + 2 = of_nat (Suc (Suc k))"
    by simp
  from Cons.prems q v
  have "grantsTables p rest (params @ [DatabaseName t, TableName t]) (holders @ [?pair k])
          (of_nat (Suc (Suc k))) = Inr (params', holders', sq')"
    by (simp add: checkFn_def s del: of_nat_Suc)
  from Cons.IH[OF this]
  have ih: "params' = (params @ [DatabaseName t, TableName t]) @ tableArgs rest"
    "holders' = (holders @ [?pair k]) @ map (\<lambda>i. ?pair (Suc (Suc k) + 2 * i)) [0..<length rest]"
    "sq' = of_nat (Suc (Suc k) + 2 * length rest)"
    "\<forall>t \<in> set rest. \<exists>r rs.
       queryRowsAsRoot (cat p) (evalCtx_Database p) checkTable [DatabaseName t, TableName t] =
         Inr (r # rs)"
    by blast+
  have m: "map (\<lambda>i. ?pair (k + 2 * i)) [0..<length (t # rest)] =
           [?pair k] @ map (\<lambda>i. ?pair (Suc (Suc k) + 2 * i)) [0..<length rest]"
  proof -
    have "[0..<length (t # rest)] = 0 # map Suc [0..<length rest]"
      by (simp add: upt_conv_Cons map_Suc_upt del: upt_Suc)
    then show ?thesis
      by (simp add: o_def del: upt_Suc of_nat_Suc of_nat_add)
  qed
  show ?case
    unfolding m using ih q v by (simp add: tableArgs_def del: upt_Suc of_nat_Suc of_nat_add)
qed

lemma grantsTableTargets_Inr:
  assumes "grantsTableTargets p tts params holders (of_nat k) = Inr (params', holders', sq')"
  shows "\<exists>ts. expandTargets p tts = Inr ts \<and>
           params' = params @ tableArgs ts \<and>
           holders' = holders @
             map (\<lambda>i. ''($'' @ itoa (of_nat (k + 2 * i)) @ '',$'' @ itoa (of_nat (k + 2 * i) + 1) @ '')'')
               [0..<length ts] \<and>
           sq' = of_nat (k + 2 * length ts) \<and>
           (\<forall>t \<in> set ts. \<exists>r rs.
              queryRowsAsRoot (cat p) (evalCtx_Database p) checkTable
                [DatabaseName t, TableName t] = Inr (r # rs))"
  using assms
proof (induction tts arbitrary: params holders k)
  case Nil
  then show ?case by (simp add: tableArgs_def)
next
  case (Cons tableTarget rest)
  let ?pair = "\<lambda>j. ''($'' @ itoa (of_nat j) @ '',$'' @ itoa ((of_nat j :: 64 word) + 1) @ '')''"
  from Cons.prems obtain g where g: "NormalizeTablePattern (prs p) tableTarget = Inr g"
    by (cases "NormalizeTablePattern (prs p) tableTarget") auto
  from Cons.prems g obtain ts1 where e: "expandTableGlob (cat p) g = Inr ts1"
    by (cases "expandTableGlob (cat p) g") auto
  from Cons.prems g e obtain res where t: "grantsTables p ts1 params holders (of_nat k) = Inr res"
    by (cases "grantsTables p ts1 params holders (of_nat k)") auto
  obtain params1 holders1 sq1 where res: "res = (params1, holders1, sq1)"
    by (cases res)
  note t1 = grantsTables_Inr[OF t[unfolded res]]
  have sq1: "sq1 = of_nat (k + 2 * length ts1)"
    using t1 by blast
  from Cons.prems g e t res
  have "grantsTableTargets p rest params1 holders1 (of_nat (k + 2 * length ts1)) =
          Inr (params', holders', sq')"
    by (simp add: sq1 del: of_nat_add)
  from Cons.IH[OF this] obtain ts2 where
    ih: "expandTargets p rest = Inr ts2"
      "params' = params1 @ tableArgs ts2"
      "holders' = holders1 @ map (\<lambda>i. ?pair (k + 2 * length ts1 + 2 * i)) [0..<length ts2]"
      "sq' = of_nat (k + 2 * length ts1 + 2 * length ts2)"
      "\<forall>t \<in> set ts2. \<exists>r rs.
         queryRowsAsRoot (cat p) (evalCtx_Database p) checkTable [DatabaseName t, TableName t] =
           Inr (r # rs)"
    by blast
  have m: "map (\<lambda>i. ?pair (k + 2 * i)) [0..<length (ts1 @ ts2)] =
           map (\<lambda>i. ?pair (k + 2 * i)) [0..<length ts1] @
           map (\<lambda>i. ?pair (k + 2 * length ts1 + 2 * i)) [0..<length ts2]"
    using map_upt_add[of "\<lambda>i. ?pair (k + 2 * i)" "length ts1" "length ts2"]
    by (simp add: algebra_simps del: of_nat_add)
  have x: "expandTargets p (tableTarget # rest) = Inr (ts1 @ ts2)"
    by (simp add: g e ih(1))
  have "params' = params @ tableArgs (ts1 @ ts2)"
    using t1 ih(2) by (simp add: tableArgs_def)
  moreover have "holders' = holders @ map (\<lambda>i. ?pair (k + 2 * i)) [0..<length (ts1 @ ts2)]"
    unfolding m using t1 ih(3) by simp
  moreover have "sq' = of_nat (k + 2 * length (ts1 @ ts2))"
    using ih(4) by (simp add: algebra_simps)
  moreover have "\<forall>t \<in> set (ts1 @ ts2). \<exists>r rs.
         queryRowsAsRoot (cat p) (evalCtx_Database p) checkTable [DatabaseName t, TableName t] =
           Inr (r # rs)"
    using t1 ih(5) by auto
  ultimately show ?case
    using x by (intro exI[of _ "ts1 @ ts2"] conjI)
qed
lemma schemaGrantsText_query:
  assumes "length dbs + length (granteeArgs grantees) < 2 ^ 63"
  shows "(case grantees of
            None \<Rightarrow> schemaGrantsText (map (\<lambda>j. ''$'' @ itoa (of_nat j)) [1..<1 + length dbs])
          | Some gs \<Rightarrow>
              withGrantees
                (schemaGrantsText (map (\<lambda>j. ''$'' @ itoa (of_nat j)) [1..<1 + length dbs]))
                (map (\<lambda>j. ''$'' @ itoa (of_nat j))
                   [1 + length dbs..<1 + length dbs + length gs])) =
         schemaPrivilegesQuery (length dbs) grantees"
proof -
  have d: "1 + length dbs \<le> 2 ^ 63"
    using assms by simp
  show ?thesis
  proof (cases grantees)
    case None
    show ?thesis
      unfolding None option.case placeholders_itoa[OF d]
      by (simp add: schemaGrantsText_def schemaPrivilegesQuery_def granteeFilter_def)
  next
    case (Some gs)
    have g: "1 + length dbs + length gs \<le> 2 ^ 63"
      using assms by (simp add: Some granteeArgs_def)
    show ?thesis
      unfolding Some option.case placeholders_itoa[OF d] placeholders_itoa[OF g]
      by (simp add: schemaGrantsText_def schemaPrivilegesQuery_def granteeFilter_def
          withGrantees_def)
  qed
qed

lemma tableGrantsText_query:
  assumes "2 * length ts + length (granteeArgs grantees) < 2 ^ 63"
  shows "(case grantees of
            None \<Rightarrow>
              tableGrantsText
                (map (\<lambda>i. ''($'' @ itoa (of_nat (1 + 2 * i)) @ '',$'' @
                           itoa (of_nat (1 + 2 * i) + 1) @ '')'') [0..<length ts])
          | Some gs \<Rightarrow>
              withGrantees
                (tableGrantsText
                   (map (\<lambda>i. ''($'' @ itoa (of_nat (1 + 2 * i)) @ '',$'' @
                              itoa (of_nat (1 + 2 * i) + 1) @ '')'') [0..<length ts]))
                (map (\<lambda>j. ''$'' @ itoa (of_nat j))
                   [1 + 2 * length ts..<1 + 2 * length ts + length gs])) =
         tablePrivilegesQuery (length ts) grantees"
proof -
  have d: "2 * length ts < 2 ^ 63"
    using assms by simp
  show ?thesis
  proof (cases grantees)
    case None
    show ?thesis
      unfolding None option.case pairPlaceholders_itoa[OF d]
      by (simp add: tableGrantsText_def tablePrivilegesQuery_def granteeFilter_def)
  next
    case (Some gs)
    have g: "1 + 2 * length ts + length gs \<le> 2 ^ 63"
      using assms by (simp add: Some granteeArgs_def)
    show ?thesis
      unfolding Some option.case pairPlaceholders_itoa[OF d] placeholders_itoa[OF g]
      by (simp add: tableGrantsText_def tablePrivilegesQuery_def granteeFilter_def
          withGrantees_def)
  qed
qed

lemma grantees_block:
  assumes "(case grantees of
              None \<Rightarrow> queryFn p v base params
            | Some gs \<Rightarrow>
                (case grantsGrantees gs params [] (of_nat k) of
                   (params', holders', _) \<Rightarrow> queryFn p v (withGrantees base holders') params')) =
           (None, v1)"
  shows "queryFn p v
           (case grantees of
              None \<Rightarrow> base
            | Some gs \<Rightarrow>
                withGrantees base (map (\<lambda>j. ''$'' @ itoa (of_nat j)) [k..<k + length gs]))
           (params @ granteeArgs grantees) = (None, v1)"
  using assms by (cases grantees) (simp_all add: grantsGrantees_eq granteeArgs_def)

lemma ShowGrants_databases_None:
  assumes "ShowGrants_databases p n targets v = (None, v1)"
  shows "\<exists>dbRows.
           rows_of (vn_rows v1) = rows_of (vn_rows v) @ dbRows \<and>
           closed (vn_rows v1) = closed (vn_rows v) \<and> vn_columns v1 = vn_columns v \<and>
           (Databases targets = None \<longrightarrow> dbRows = []) \<and>
           (\<forall>dbs. Databases targets = Some dbs \<longrightarrow>
              (\<forall>db \<in> set dbs. \<exists>r rs.
                 queryRowsAsRoot (cat p) (evalCtx_Database p) checkSchema [db] = Inr (r # rs)) \<and>
              (length dbs + length (granteeArgs (sg_Grantees n)) < 2 ^ 63 \<longrightarrow>
                 queryRows (cat p) (evalCtx_Database p)
                   (schemaPrivilegesQuery (length dbs) (sg_Grantees n))
                   (dbs @ granteeArgs (sg_Grantees n)) = Inr dbRows))"
proof (cases "Databases targets")
  case None
  with assms have "v1 = v"
    by (simp add: ShowGrants_databases_def)
  with None show ?thesis
    by simp
next
  case (Some dbs)
  show ?thesis
  proof (cases "grantsDatabases p dbs [] [] 1")
    case (Inl err)
    with assms Some show ?thesis
      by (simp add: ShowGrants_databases_def)
  next
    case (Inr res)
    obtain params holders sq where res: "res = (params, holders, sq)"
      by (cases res)
    have "grantsDatabases p dbs [] [] (of_nat 1) = Inr (params, holders, sq)"
      using Inr res by simp
    note g = grantsDatabases_Inr[OF this]
    have params: "params = dbs"
      and holders: "holders = map (\<lambda>j. ''$'' @ itoa (of_nat j)) [1..<1 + length dbs]"
      and sq: "sq = of_nat (1 + length dbs)"
      and probes: "\<forall>db \<in> set dbs. \<exists>r rs.
            queryRowsAsRoot (cat p) (evalCtx_Database p) checkSchema [db] = Inr (r # rs)"
      using g by simp_all
    define sql where
      "sql = (case sg_Grantees n of
                None \<Rightarrow> schemaGrantsText holders
              | Some gs \<Rightarrow>
                  withGrantees (schemaGrantsText holders)
                    (map (\<lambda>j. ''$'' @ itoa (of_nat j))
                       [1 + length dbs..<1 + length dbs + length gs]))"
    have blk: "(case sg_Grantees n of
              None \<Rightarrow> queryFn p v (schemaGrantsText holders) params
            | Some gs \<Rightarrow>
                (case grantsGrantees gs params [] sq of
                   (params', holders', _) \<Rightarrow>
                     queryFn p v (withGrantees (schemaGrantsText holders) holders') params')) =
           (None, v1)"
      using assms Some Inr res by (simp add: ShowGrants_databases_def Let_def)
    have q: "queryFn p v sql (dbs @ granteeArgs (sg_Grantees n)) = (None, v1)"
      using grantees_block[OF blk[unfolded sq]] unfolding sql_def params .
    from queryFn_None[OF q] obtain rows where
      r: "queryRows (cat p) (evalCtx_Database p) sql (dbs @ granteeArgs (sg_Grantees n)) =
            Inr rows"
      and a: "rows_of (vn_rows v1) = rows_of (vn_rows v) @ rows"
      and c: "closed (vn_rows v1) = closed (vn_rows v)" "vn_columns v1 = vn_columns v"
      by blast
    have s: "sql = schemaPrivilegesQuery (length dbs) (sg_Grantees n)"
      if "length dbs + length (granteeArgs (sg_Grantees n)) < 2 ^ 63"
      unfolding sql_def holders by (rule schemaGrantsText_query[OF that])
    have "\<forall>dbs'. Databases targets = Some dbs' \<longrightarrow>
              (\<forall>db \<in> set dbs'. \<exists>r rs.
                 queryRowsAsRoot (cat p) (evalCtx_Database p) checkSchema [db] = Inr (r # rs)) \<and>
              (length dbs' + length (granteeArgs (sg_Grantees n)) < 2 ^ 63 \<longrightarrow>
                 queryRows (cat p) (evalCtx_Database p)
                   (schemaPrivilegesQuery (length dbs') (sg_Grantees n))
                   (dbs' @ granteeArgs (sg_Grantees n)) = Inr rows)"
      using Some probes r s by auto
    then show ?thesis
      using a c Some by (intro exI[of _ rows]) simp
  qed
qed

lemma ShowGrants_tables_None:
  assumes "ShowGrants_tables p n targets v = (None, v1)"
  shows "\<exists>tableRows.
           rows_of (vn_rows v1) = rows_of (vn_rows v) @ tableRows \<and>
           closed (vn_rows v1) = closed (vn_rows v) \<and> vn_columns v1 = vn_columns v \<and>
           (Tables targets = None \<longrightarrow> tableRows = []) \<and>
           (\<forall>tts. Tables targets = Some tts \<longrightarrow>
              (\<exists>ts. expandTargets p tts = Inr ts \<and>
                 (\<forall>t \<in> set ts. \<exists>r rs.
                    queryRowsAsRoot (cat p) (evalCtx_Database p) checkTable
                      [DatabaseName t, TableName t] = Inr (r # rs)) \<and>
                 (2 * length ts + length (granteeArgs (sg_Grantees n)) < 2 ^ 63 \<longrightarrow>
                    queryRows (cat p) (evalCtx_Database p)
                      (tablePrivilegesQuery (length ts) (sg_Grantees n))
                      (tableArgs ts @ granteeArgs (sg_Grantees n)) = Inr tableRows)))"
proof (cases "Tables targets")
  case None
  with assms have "v1 = v"
    by (simp add: ShowGrants_tables_def)
  with None show ?thesis
    by simp
next
  case (Some tts)
  show ?thesis
  proof (cases "grantsTableTargets p tts [] [] 1")
    case (Inl err)
    with assms Some show ?thesis
      by (simp add: ShowGrants_tables_def)
  next
    case (Inr res)
    obtain params holders sq where res: "res = (params, holders, sq)"
      by (cases res)
    have "grantsTableTargets p tts [] [] (of_nat 1) = Inr (params, holders, sq)"
      using Inr res by simp
    from grantsTableTargets_Inr[OF this] obtain ts where
      x: "expandTargets p tts = Inr ts"
      and params: "params = tableArgs ts"
      and holders: "holders =
        map (\<lambda>i. ''($'' @ itoa (of_nat (1 + 2 * i)) @ '',$'' @ itoa (of_nat (1 + 2 * i) + 1) @ '')'')
          [0..<length ts]"
      and sq: "sq = of_nat (1 + 2 * length ts)"
      and probes: "\<forall>t \<in> set ts. \<exists>r rs.
            queryRowsAsRoot (cat p) (evalCtx_Database p) checkTable
              [DatabaseName t, TableName t] = Inr (r # rs)"
      by auto
    define sql where
      "sql = (case sg_Grantees n of
                None \<Rightarrow> tableGrantsText holders
              | Some gs \<Rightarrow>
                  withGrantees (tableGrantsText holders)
                    (map (\<lambda>j. ''$'' @ itoa (of_nat j))
                       [1 + 2 * length ts..<1 + 2 * length ts + length gs]))"
    have blk: "(case sg_Grantees n of
              None \<Rightarrow> queryFn p v (tableGrantsText holders) params
            | Some gs \<Rightarrow>
                (case grantsGrantees gs params [] sq of
                   (params', holders', _) \<Rightarrow>
                     queryFn p v (withGrantees (tableGrantsText holders) holders') params')) =
           (None, v1)"
      using assms Some Inr res by (simp add: ShowGrants_tables_def Let_def)
    have q: "queryFn p v sql (tableArgs ts @ granteeArgs (sg_Grantees n)) = (None, v1)"
      using grantees_block[OF blk[unfolded sq]] unfolding sql_def params .
    from queryFn_None[OF q] obtain rows where
      r: "queryRows (cat p) (evalCtx_Database p) sql (tableArgs ts @ granteeArgs (sg_Grantees n)) =
            Inr rows"
      and a: "rows_of (vn_rows v1) = rows_of (vn_rows v) @ rows"
      and c: "closed (vn_rows v1) = closed (vn_rows v)" "vn_columns v1 = vn_columns v"
      by blast
    have s: "sql = tablePrivilegesQuery (length ts) (sg_Grantees n)"
      if "2 * length ts + length (granteeArgs (sg_Grantees n)) < 2 ^ 63"
      unfolding sql_def holders by (rule tableGrantsText_query[OF that])
    have "\<exists>ts. expandTargets p tts = Inr ts \<and>
                 (\<forall>t \<in> set ts. \<exists>r rs.
                    queryRowsAsRoot (cat p) (evalCtx_Database p) checkTable
                      [DatabaseName t, TableName t] = Inr (r # rs)) \<and>
                 (2 * length ts + length (granteeArgs (sg_Grantees n)) < 2 ^ 63 \<longrightarrow>
                    queryRows (cat p) (evalCtx_Database p)
                      (tablePrivilegesQuery (length ts) (sg_Grantees n))
                      (tableArgs ts @ granteeArgs (sg_Grantees n)) = Inr rows)"
      using x probes r s by (intro exI[of _ ts]) auto
    then have "\<forall>tts'. Tables targets = Some tts' \<longrightarrow>
              (\<exists>ts. expandTargets p tts' = Inr ts \<and>
                 (\<forall>t \<in> set ts. \<exists>r rs.
                    queryRowsAsRoot (cat p) (evalCtx_Database p) checkTable
                      [DatabaseName t, TableName t] = Inr (r # rs)) \<and>
                 (2 * length ts + length (granteeArgs (sg_Grantees n)) < 2 ^ 63 \<longrightarrow>
                    queryRows (cat p) (evalCtx_Database p)
                      (tablePrivilegesQuery (length ts) (sg_Grantees n))
                      (tableArgs ts @ granteeArgs (sg_Grantees n)) = Inr rows))"
      using Some by simp
    then show ?thesis
      using a c Some by (intro exI[of _ rows]) simp
  qed
qed

text \<open>The sort stage under the ordering of SHOW GRANTS.\<close>

lemma rowLe_grantsOrdering:
  "rowLe grantsOrdering r s \<longleftrightarrow> grantKey r \<le> grantKey s"
  by (auto simp: grantsOrdering_def grantKey_def)

lemma grantKey_strings:
  "grantKey [DString a, DString b, DString c] \<le> grantKey [DString a', DString b', DString c']
     \<longleftrightarrow> (a, b, c) \<le> (a', b', c')"
  by (auto simp: grantKey_def column_def)

lemma set_insertRow: "set (insertRow ord r rs) = insert r (set rs)"
  by (induction rs) auto

lemma mset_insertRow: "mset (insertRow ord r rs) = add_mset r (mset rs)"
  by (induction rs) simp_all

lemma sortStage_Cons: "sortStage ord (r # rs) = insertRow ord r (sortStage ord rs)"
  by (simp add: sortStage_def)

lemma mset_sortStage: "mset (sortStage ord rs) = mset rs"
  by (induction rs) (simp_all add: sortStage_Cons mset_insertRow, simp add: sortStage_def)

lemma sorted_insertRow:
  assumes "sorted_wrt (\<lambda>r s. grantKey r \<le> grantKey s) rs"
  shows "sorted_wrt (\<lambda>r s. grantKey r \<le> grantKey s) (insertRow grantsOrdering r rs)"
  using assms
proof (induction rs)
  case Nil
  show ?case by simp
next
  case (Cons s rest)
  show ?case
  proof (cases "grantKey r \<le> grantKey s")
    case True
    then have "\<forall>x \<in> set rest. grantKey r \<le> grantKey x"
      using Cons.prems by (auto intro: order_trans)
    with True Cons.prems show ?thesis
      by (simp add: rowLe_grantsOrdering)
  next
    case False
    then have "grantKey s \<le> grantKey r"
      by simp
    with False Cons show ?thesis
      by (auto simp: rowLe_grantsOrdering set_insertRow)
  qed
qed

lemma sorted_sortStage:
  "sorted_wrt (\<lambda>r s. grantKey r \<le> grantKey s) (sortStage grantsOrdering rows)"
proof (induction rows)
  case Nil
  show ?case by (simp add: sortStage_def)
next
  case (Cons r rest)
  show ?case
    unfolding sortStage_Cons by (rule sorted_insertRow[OF Cons])
qed

lemma checkFn_found:
  "queryRowsAsRoot (cat p) (evalCtx_Database p) sql args = Inr (r # rs) \<Longrightarrow>
   checkFn p sql args = Inr True"
  by (simp add: checkFn_def)

lemma grantsDatabases_succeeds:
  assumes "\<forall>sql args. \<exists>r rs. queryRowsAsRoot (cat p) (evalCtx_Database p) sql args = Inr (r # rs)"
  shows "\<exists>res. grantsDatabases p dbs params holders sq = Inr res"
proof (induction dbs arbitrary: params holders sq)
  case Nil
  show ?case by simp
next
  case (Cons db rest)
  from assms obtain r rs where
    "queryRowsAsRoot (cat p) (evalCtx_Database p) checkSchema [db] = Inr (r # rs)"
    by blast
  then have "checkFn p checkSchema [db] = Inr True"
    by (rule checkFn_found)
  with Cons.IH show ?case
    by simp
qed

lemma grantsTables_succeeds:
  assumes "\<forall>sql args. \<exists>r rs. queryRowsAsRoot (cat p) (evalCtx_Database p) sql args = Inr (r # rs)"
  shows "\<exists>res. grantsTables p ts params holders sq = Inr res"
proof (induction ts arbitrary: params holders sq)
  case Nil
  show ?case by simp
next
  case (Cons t rest)
  from assms obtain r rs where
    "queryRowsAsRoot (cat p) (evalCtx_Database p) checkTable [DatabaseName t, TableName t] =
       Inr (r # rs)"
    by blast
  then have "checkFn p checkTable [DatabaseName t, TableName t] = Inr True"
    by (rule checkFn_found)
  with Cons.IH show ?case
    by simp
qed

lemma grantsTableTargets_succeeds:
  assumes "\<forall>sql args. \<exists>r rs. queryRowsAsRoot (cat p) (evalCtx_Database p) sql args = Inr (r # rs)"
    and "\<forall>t. \<exists>g. NormalizeTablePattern (prs p) t = Inr g"
    and "\<forall>g. \<exists>ts. expandTableGlob (cat p) g = Inr ts"
  shows "\<exists>res. grantsTableTargets p targets params holders sq = Inr res"
proof (induction targets arbitrary: params holders sq)
  case Nil
  show ?case by simp
next
  case (Cons tableTarget rest)
  from assms(2) obtain g where g: "NormalizeTablePattern (prs p) tableTarget = Inr g"
    by blast
  from assms(3) obtain ts where ts: "expandTableGlob (cat p) g = Inr ts"
    by blast
  obtain res where res: "grantsTables p ts params holders sq = Inr res"
    using grantsTables_succeeds[OF assms(1), of ts params holders sq] by blast
  obtain params' holders' sq' where "res = (params', holders', sq')"
    by (cases res)
  with res have t: "grantsTables p ts params holders sq = Inr (params', holders', sq')"
    by simp
  from Cons.IH[of params' holders' sq'] show ?case
    by (simp add: g ts t)
qed

lemma queryFn_succeeds:
  assumes "\<forall>sql args. \<exists>rows. queryRows (cat p) (evalCtx_Database p) sql args = Inr rows"
    and "\<forall>rs r. accepts p rs r"
  shows "\<exists>v1. queryFn p v sql args = (None, v1)"
proof -
  from assms(1) obtain rows where "queryRows (cat p) (evalCtx_Database p) sql args = Inr rows"
    by blast
  then show ?thesis
    using addRowsNoClose_accepts[OF assms(2)] by (simp add: queryFn_def)
qed

lemma ShowGrants_databases_succeeds:
  assumes "\<forall>sql args. \<exists>r rs. queryRowsAsRoot (cat p) (evalCtx_Database p) sql args = Inr (r # rs)"
    and "\<forall>sql args. \<exists>rows. queryRows (cat p) (evalCtx_Database p) sql args = Inr rows"
    and "\<forall>rs r. accepts p rs r"
  shows "\<exists>v1. ShowGrants_databases p n targets v = (None, v1)"
proof (cases "Databases targets")
  case None
  then show ?thesis
    by (simp add: ShowGrants_databases_def)
next
  case (Some dbs)
  obtain res where res: "grantsDatabases p dbs [] [] 1 = Inr res"
    using grantsDatabases_succeeds[OF assms(1), of dbs "[]" "[]" 1] by blast
  obtain params holders sq where "res = (params, holders, sq)"
    by (cases res)
  with res have g: "grantsDatabases p dbs [] [] 1 = Inr (params, holders, sq)"
    by simp
  show ?thesis
  proof (cases "sg_Grantees n")
    case None
    obtain v1 where "queryFn p v (schemaGrantsText holders) params = (None, v1)"
      using queryFn_succeeds[OF assms(2,3)] by blast
    then show ?thesis
      by (simp add: ShowGrants_databases_def \<open>Databases targets = Some dbs\<close> g None)
  next
    case (Some grantees)
    obtain params' holders' sq' where
      gg: "grantsGrantees grantees params [] sq = (params', holders', sq')"
      by (cases "grantsGrantees grantees params [] sq")
    obtain v1 where
      "queryFn p v (withGrantees (schemaGrantsText holders) holders') params' = (None, v1)"
      using queryFn_succeeds[OF assms(2,3)] by blast
    then show ?thesis
      by (simp add: ShowGrants_databases_def \<open>Databases targets = Some dbs\<close> g Some gg)
  qed
qed

lemma ShowGrants_tables_succeeds:
  assumes "\<forall>sql args. \<exists>r rs. queryRowsAsRoot (cat p) (evalCtx_Database p) sql args = Inr (r # rs)"
    and "\<forall>sql args. \<exists>rows. queryRows (cat p) (evalCtx_Database p) sql args = Inr rows"
    and "\<forall>t. \<exists>g. NormalizeTablePattern (prs p) t = Inr g"
    and "\<forall>g. \<exists>ts. expandTableGlob (cat p) g = Inr ts"
    and "\<forall>rs r. accepts p rs r"
  shows "\<exists>v1. ShowGrants_tables p n targets v = (None, v1)"
proof (cases "Tables targets")
  case None
  then show ?thesis
    by (simp add: ShowGrants_tables_def)
next
  case (Some tableTargets)
  obtain res where res: "grantsTableTargets p tableTargets [] [] 1 = Inr res"
    using grantsTableTargets_succeeds[OF assms(1,3,4), of tableTargets "[]" "[]" 1] by blast
  obtain params holders sq where "res = (params, holders, sq)"
    by (cases res)
  with res have g: "grantsTableTargets p tableTargets [] [] 1 = Inr (params, holders, sq)"
    by simp
  show ?thesis
  proof (cases "sg_Grantees n")
    case None
    obtain v1 where "queryFn p v (tableGrantsText holders) params = (None, v1)"
      using queryFn_succeeds[OF assms(2,5)] by blast
    then show ?thesis
      by (simp add: ShowGrants_tables_def \<open>Tables targets = Some tableTargets\<close> g None)
  next
    case (Some grantees)
    obtain params' holders' sq' where
      gg: "grantsGrantees grantees params [] sq = (params', holders', sq')"
      by (cases "grantsGrantees grantees params [] sq")
    obtain v1 where
      "queryFn p v (withGrantees (tableGrantsText holders) holders') params' = (None, v1)"
      using queryFn_succeeds[OF assms(2,5)] by blast
    then show ?thesis
      by (simp add: ShowGrants_tables_def \<open>Tables targets = Some tableTargets\<close> g Some gg)
  qed
qed

lemma ShowGrants_constructor_outcome:
  assumes "ShowGrants_databases p n targets (newContainerValuesNode columns) = (e1, v1)"
    and "ShowGrants_tables p n targets v1 = (e2, v2)"
  shows "outcome (ShowGrants_constructor n targets columns p) =
           (case e1 of
              Some err \<Rightarrow> Err err
            | None \<Rightarrow>
                (case e2 of
                   Some err \<Rightarrow> Err err
                 | None \<Rightarrow>
                     Ok (SelectTopNode v2
                           \<lparr>ordering = grantsOrdering, sn_columns = vn_columns v2\<rparr>)))"
  using assms
  by (simp add: ShowGrants_constructor_def Let_def failed_def returned_def grantsOrdering_def
      ascending_def split: option.splits)

lemma ShowGrants_constructor_Ok:
  assumes "outcome (ShowGrants_constructor n targets columns p) = Ok node"
  shows "\<exists>v dbRows tableRows.
         node = SelectTopNode v
             \<lparr>ordering =
                 [\<lparr>ColIdx = 0, Dir = Ascending\<rparr>, \<lparr>ColIdx = 1, Dir = Ascending\<rparr>,
                  \<lparr>ColIdx = 2, Dir = Ascending\<rparr>],
               sn_columns = columns\<rparr> \<and>
         rows_of (vn_rows v) = dbRows @ tableRows \<and>
         (Databases targets = None \<longrightarrow> dbRows = []) \<and>
         (\<forall>dbs. Databases targets = Some dbs \<longrightarrow>
            (\<forall>db \<in> set dbs. \<exists>r rs.
               queryRowsAsRoot (cat p) (evalCtx_Database p) checkSchema [db] = Inr (r # rs)) \<and>
            (length dbs + length (granteeArgs (sg_Grantees n)) < 2 ^ 63 \<longrightarrow>
               queryRows (cat p) (evalCtx_Database p)
                 (schemaPrivilegesQuery (length dbs) (sg_Grantees n))
                 (dbs @ granteeArgs (sg_Grantees n)) = Inr dbRows)) \<and>
         (Tables targets = None \<longrightarrow> tableRows = []) \<and>
         (\<forall>tts. Tables targets = Some tts \<longrightarrow>
            (\<exists>ts. expandTargets p tts = Inr ts \<and>
               (\<forall>t \<in> set ts. \<exists>r rs.
                  queryRowsAsRoot (cat p) (evalCtx_Database p) checkTable
                    [DatabaseName t, TableName t] = Inr (r # rs)) \<and>
               (2 * length ts + length (granteeArgs (sg_Grantees n)) < 2 ^ 63 \<longrightarrow>
                  queryRows (cat p) (evalCtx_Database p)
                    (tablePrivilegesQuery (length ts) (sg_Grantees n))
                    (tableArgs ts @ granteeArgs (sg_Grantees n)) = Inr tableRows)))"
proof -
  let ?v = "newContainerValuesNode columns"
  obtain e1 v1 where d: "ShowGrants_databases p n targets ?v = (e1, v1)"
    by (cases "ShowGrants_databases p n targets ?v")
  obtain e2 v2 where t: "ShowGrants_tables p n targets v1 = (e2, v2)"
    by (cases "ShowGrants_tables p n targets v1")
  note out = ShowGrants_constructor_outcome[OF d t]
  from assms out have e1: "e1 = None"
    by (cases e1) simp_all
  from assms out e1 have e2: "e2 = None"
    by (cases e2) simp_all
  from assms out e1 e2
  have node: "node = SelectTopNode v2 \<lparr>ordering = grantsOrdering, sn_columns = vn_columns v2\<rparr>"
    by simp
  from ShowGrants_databases_None[OF d[unfolded e1]] obtain dbRows where
    db: "rows_of (vn_rows v1) = rows_of (vn_rows ?v) @ dbRows \<and>
         closed (vn_rows v1) = closed (vn_rows ?v) \<and> vn_columns v1 = vn_columns ?v \<and>
         (Databases targets = None \<longrightarrow> dbRows = []) \<and>
         (\<forall>dbs. Databases targets = Some dbs \<longrightarrow>
            (\<forall>db \<in> set dbs. \<exists>r rs.
               queryRowsAsRoot (cat p) (evalCtx_Database p) checkSchema [db] = Inr (r # rs)) \<and>
            (length dbs + length (granteeArgs (sg_Grantees n)) < 2 ^ 63 \<longrightarrow>
               queryRows (cat p) (evalCtx_Database p)
                 (schemaPrivilegesQuery (length dbs) (sg_Grantees n))
                 (dbs @ granteeArgs (sg_Grantees n)) = Inr dbRows))"
    by (erule exE)
  from ShowGrants_tables_None[OF t[unfolded e2]] obtain tableRows where
    tb: "rows_of (vn_rows v2) = rows_of (vn_rows v1) @ tableRows \<and>
         closed (vn_rows v2) = closed (vn_rows v1) \<and> vn_columns v2 = vn_columns v1 \<and>
         (Tables targets = None \<longrightarrow> tableRows = []) \<and>
         (\<forall>tts. Tables targets = Some tts \<longrightarrow>
            (\<exists>ts. expandTargets p tts = Inr ts \<and>
               (\<forall>t \<in> set ts. \<exists>r rs.
                  queryRowsAsRoot (cat p) (evalCtx_Database p) checkTable
                    [DatabaseName t, TableName t] = Inr (r # rs)) \<and>
               (2 * length ts + length (granteeArgs (sg_Grantees n)) < 2 ^ 63 \<longrightarrow>
                  queryRows (cat p) (evalCtx_Database p)
                    (tablePrivilegesQuery (length ts) (sg_Grantees n))
                    (tableArgs ts @ granteeArgs (sg_Grantees n)) = Inr tableRows)))"
    by (erule exE)
  have r: "rows_of (vn_rows v2) = dbRows @ tableRows"
    using db[THEN conjunct1] tb[THEN conjunct1] by (simp add: newContainerValuesNode_def)
  have c: "vn_columns v2 = columns"
    using db[THEN conjunct2, THEN conjunct2, THEN conjunct1]
      tb[THEN conjunct2, THEN conjunct2, THEN conjunct1]
    by (simp add: newContainerValuesNode_def)
  note d34 = db[THEN conjunct2, THEN conjunct2, THEN conjunct2]
  note t34 = tb[THEN conjunct2, THEN conjunct2, THEN conjunct2]
  show ?thesis
    apply (rule exI[of _ v2], rule exI[of _ dbRows], rule exI[of _ tableRows])
    apply (intro conjI)
         apply (simp add: node c grantsOrdering_def)
        apply (rule r)
       apply (rule d34[THEN conjunct1])
      apply (rule d34[THEN conjunct2])
     apply (rule t34[THEN conjunct1])
    apply (rule t34[THEN conjunct2])
    done
qed


lemma ShowGrants_constructor_succeeds:
  assumes "\<forall>sql args. \<exists>r rs. queryRowsAsRoot (cat p) (evalCtx_Database p) sql args = Inr (r # rs)"
    and "\<forall>sql args. \<exists>rows. queryRows (cat p) (evalCtx_Database p) sql args = Inr rows"
    and "\<forall>t. \<exists>g. NormalizeTablePattern (prs p) t = Inr g"
    and "\<forall>g. \<exists>ts. expandTableGlob (cat p) g = Inr ts"
    and "\<forall>rs r. accepts p rs r"
  shows "\<exists>node. outcome (ShowGrants_constructor n targets columns p) = Ok node"
proof -
  obtain v1 where d: "ShowGrants_databases p n targets (newContainerValuesNode columns) = (None, v1)"
    using ShowGrants_databases_succeeds[OF assms(1,2,5)] by blast
  obtain v2 where t: "ShowGrants_tables p n targets v1 = (None, v2)"
    using ShowGrants_tables_succeeds[OF assms] by blast
  show ?thesis
    using ShowGrants_constructor_outcome[OF d t] by simp
qed

lemma sortStage_grants_rows:
  "sortStage grantsOrdering grants_rows =
     [[DString ''t'', DString ''alice'', DString ''INSERT''],
      [DString ''t'', DString ''alice'', DString ''SELECT''],
      [DString ''t'', DString ''bob'', DString ''SELECT'']]"
  by (simp add: sortStage_def grantsOrdering_def grants_rows_def column_def)

lemma sortStage_zoo_grants_rows:
  "sortStage grantsOrdering ([[DString ''zoo'', DString ''alice'', DString ''ALL'']] @ grants_rows) =
     [[DString ''t'', DString ''alice'', DString ''INSERT''],
      [DString ''t'', DString ''alice'', DString ''SELECT''],
      [DString ''t'', DString ''bob'', DString ''SELECT''],
      [DString ''zoo'', DString ''alice'', DString ''ALL'']]"
  by (simp add: sortStage_def grantsOrdering_def grants_rows_def column_def)

subsection \<open>The rows of SHOW GRANTS\<close>

text \<open>
  Claim C6. Whenever the constructor of SHOW GRANTS returns a plan, the plan is a sort
  stage, ascending by the columns 0, 1 and 2, over a values node whose rows are the rows
  of the database-level source (none without database targets) followed by the rows of
  the table-level source (none without table targets). The database-level source is the
  query on \<^verbatim>\<open>information_schema.schema_privileges\<close> for the database targets, each of which
  exists, and the grantees; the table-level source is the query on
  \<^verbatim>\<open>information_schema.table_privileges\<close> for the tables that the table targets expand to,
  each of which exists, and the grantees; the parameter numbers are printed as they are
  as long as they stay below \<open>2 ^ 63\<close>. By the sort stage of the spec the rows the plan
  yields are those rows, each as often as it occurs, in ascending order of (object name,
  grantee, privilege kind); on string columns this is the order of the triples of
  strings. The constructor returns a plan when every existence probe finds a row and no
  collaborator fails. The plan that \<^verbatim>\<open>ShowGrants\<close> builds for a statement with targets
  runs this constructor.
\<close>

theorem ShowGrants_rows_sorted:
  "(\<forall>node. outcome (ShowGrants_constructor n targets columns p) = Ok node \<longrightarrow>
      (\<exists>v dbRows tableRows.
         node = SelectTopNode v
             \<lparr>ordering =
                 [\<lparr>ColIdx = 0, Dir = Ascending\<rparr>, \<lparr>ColIdx = 1, Dir = Ascending\<rparr>,
                  \<lparr>ColIdx = 2, Dir = Ascending\<rparr>],
               sn_columns = columns\<rparr> \<and>
         rows_of (vn_rows v) = dbRows @ tableRows \<and>
         (Databases targets = None \<longrightarrow> dbRows = []) \<and>
         (\<forall>dbs. Databases targets = Some dbs \<longrightarrow>
            (\<forall>db \<in> set dbs. \<exists>r rs.
               queryRowsAsRoot (cat p) (evalCtx_Database p) checkSchema [db] = Inr (r # rs)) \<and>
            (length dbs + length (granteeArgs (sg_Grantees n)) < 2 ^ 63 \<longrightarrow>
               queryRows (cat p) (evalCtx_Database p)
                 (schemaPrivilegesQuery (length dbs) (sg_Grantees n))
                 (dbs @ granteeArgs (sg_Grantees n)) = Inr dbRows)) \<and>
         (Tables targets = None \<longrightarrow> tableRows = []) \<and>
         (\<forall>tts. Tables targets = Some tts \<longrightarrow>
            (\<exists>ts. expandTargets p tts = Inr ts \<and>
               (\<forall>t \<in> set ts. \<exists>r rs.
                  queryRowsAsRoot (cat p) (evalCtx_Database p) checkTable
                    [DatabaseName t, TableName t] = Inr (r # rs)) \<and>
               (2 * length ts + length (granteeArgs (sg_Grantees n)) < 2 ^ 63 \<longrightarrow>
                  queryRows (cat p) (evalCtx_Database p)
                    (tablePrivilegesQuery (length ts) (sg_Grantees n))
                    (tableArgs ts @ granteeArgs (sg_Grantees n)) = Inr tableRows))) \<and>
         planRows node = sortStage grantsOrdering (dbRows @ tableRows) \<and>
         mset (planRows node) = mset (dbRows @ tableRows) \<and>
         sorted_wrt (\<lambda>r s. grantKey r \<le> grantKey s) (planRows node))) \<and>
   ((\<forall>sql args. \<exists>r rs. queryRowsAsRoot (cat p) (evalCtx_Database p) sql args = Inr (r # rs)) \<and>
    (\<forall>sql args. \<exists>rows. queryRows (cat p) (evalCtx_Database p) sql args = Inr rows) \<and>
    (\<forall>t. \<exists>g. NormalizeTablePattern (prs p) t = Inr g) \<and>
    (\<forall>g. \<exists>ts. expandTableGlob (cat p) g = Inr ts) \<and>
    (\<forall>rs r. accepts p rs r) \<longrightarrow>
      (\<exists>node. outcome (ShowGrants_constructor n targets columns p) = Ok node)) \<and>
   (grantKey [DString a, DString b, DString c] \<le> grantKey [DString a', DString b', DString c']
      \<longleftrightarrow> (a, b, c) \<le> (a', b', c')) \<and>
   (sg_Targets n = Some targets \<longrightarrow>
      (\<exists>d. ShowGrants p n = Inr d \<and>
           dn_constructor d = ShowGrants_constructor n targets (dn_columns d)))"
proof -
  have rows: "\<exists>v dbRows tableRows.
         node = SelectTopNode v
             \<lparr>ordering =
                 [\<lparr>ColIdx = 0, Dir = Ascending\<rparr>, \<lparr>ColIdx = 1, Dir = Ascending\<rparr>,
                  \<lparr>ColIdx = 2, Dir = Ascending\<rparr>],
               sn_columns = columns\<rparr> \<and>
         rows_of (vn_rows v) = dbRows @ tableRows \<and>
         (Databases targets = None \<longrightarrow> dbRows = []) \<and>
         (\<forall>dbs. Databases targets = Some dbs \<longrightarrow>
            (\<forall>db \<in> set dbs. \<exists>r rs.
               queryRowsAsRoot (cat p) (evalCtx_Database p) checkSchema [db] = Inr (r # rs)) \<and>
            (length dbs + length (granteeArgs (sg_Grantees n)) < 2 ^ 63 \<longrightarrow>
               queryRows (cat p) (evalCtx_Database p)
                 (schemaPrivilegesQuery (length dbs) (sg_Grantees n))
                 (dbs @ granteeArgs (sg_Grantees n)) = Inr dbRows)) \<and>
         (Tables targets = None \<longrightarrow> tableRows = []) \<and>
         (\<forall>tts. Tables targets = Some tts \<longrightarrow>
            (\<exists>ts. expandTargets p tts = Inr ts \<and>
               (\<forall>t \<in> set ts. \<exists>r rs.
                  queryRowsAsRoot (cat p) (evalCtx_Database p) checkTable
                    [DatabaseName t, TableName t] = Inr (r # rs)) \<and>
               (2 * length ts + length (granteeArgs (sg_Grantees n)) < 2 ^ 63 \<longrightarrow>
                  queryRows (cat p) (evalCtx_Database p)
                    (tablePrivilegesQuery (length ts) (sg_Grantees n))
                    (tableArgs ts @ granteeArgs (sg_Grantees n)) = Inr tableRows))) \<and>
         planRows node = sortStage grantsOrdering (dbRows @ tableRows) \<and>
         mset (planRows node) = mset (dbRows @ tableRows) \<and>
         sorted_wrt (\<lambda>r s. grantKey r \<le> grantKey s) (planRows node)"
    if h: "outcome (ShowGrants_constructor n targets columns p) = Ok node" for node
  proof -
    from ShowGrants_constructor_Ok[OF h] obtain v dbRows tableRows where
      c: "node = SelectTopNode v
             \<lparr>ordering =
                 [\<lparr>ColIdx = 0, Dir = Ascending\<rparr>, \<lparr>ColIdx = 1, Dir = Ascending\<rparr>,
                  \<lparr>ColIdx = 2, Dir = Ascending\<rparr>],
               sn_columns = columns\<rparr> \<and>
         rows_of (vn_rows v) = dbRows @ tableRows \<and>
         (Databases targets = None \<longrightarrow> dbRows = []) \<and>
         (\<forall>dbs. Databases targets = Some dbs \<longrightarrow>
            (\<forall>db \<in> set dbs. \<exists>r rs.
               queryRowsAsRoot (cat p) (evalCtx_Database p) checkSchema [db] = Inr (r # rs)) \<and>
            (length dbs + length (granteeArgs (sg_Grantees n)) < 2 ^ 63 \<longrightarrow>
               queryRows (cat p) (evalCtx_Database p)
                 (schemaPrivilegesQuery (length dbs) (sg_Grantees n))
                 (dbs @ granteeArgs (sg_Grantees n)) = Inr dbRows)) \<and>
         (Tables targets = None \<longrightarrow> tableRows = []) \<and>
         (\<forall>tts. Tables targets = Some tts \<longrightarrow>
            (\<exists>ts. expandTargets p tts = Inr ts \<and>
               (\<forall>t \<in> set ts. \<exists>r rs.
                  queryRowsAsRoot (cat p) (evalCtx_Database p) checkTable
                    [DatabaseName t, TableName t] = Inr (r # rs)) \<and>
               (2 * length ts + length (granteeArgs (sg_Grantees n)) < 2 ^ 63 \<longrightarrow>
                  queryRows (cat p) (evalCtx_Database p)
                    (tablePrivilegesQuery (length ts) (sg_Grantees n))
                    (tableArgs ts @ granteeArgs (sg_Grantees n)) = Inr tableRows)))"
      by (elim exE)
    have pr: "planRows node = sortStage grantsOrdering (dbRows @ tableRows)"
      using c[THEN conjunct1] c[THEN conjunct2, THEN conjunct1]
      by (simp add: grantsOrdering_def)
    have ms: "mset (planRows node) = mset (dbRows @ tableRows)"
      unfolding pr by (rule mset_sortStage)
    have so: "sorted_wrt (\<lambda>r s. grantKey r \<le> grantKey s) (planRows node)"
      unfolding pr by (rule sorted_sortStage)
    have "node = SelectTopNode v
             \<lparr>ordering =
                 [\<lparr>ColIdx = 0, Dir = Ascending\<rparr>, \<lparr>ColIdx = 1, Dir = Ascending\<rparr>,
                  \<lparr>ColIdx = 2, Dir = Ascending\<rparr>],
               sn_columns = columns\<rparr> \<and>
         rows_of (vn_rows v) = dbRows @ tableRows \<and>
         (Databases targets = None \<longrightarrow> dbRows = []) \<and>
         (\<forall>dbs. Databases targets = Some dbs \<longrightarrow>
            (\<forall>db \<in> set dbs. \<exists>r rs.
               queryRowsAsRoot (cat p) (evalCtx_Database p) checkSchema [db] = Inr (r # rs)) \<and>
            (length dbs + length (granteeArgs (sg_Grantees n)) < 2 ^ 63 \<longrightarrow>
               queryRows (cat p) (evalCtx_Database p)
                 (schemaPrivilegesQuery (length dbs) (sg_Grantees n))
                 (dbs @ granteeArgs (sg_Grantees n)) = Inr dbRows)) \<and>
         (Tables targets = None \<longrightarrow> tableRows = []) \<and>
         (\<forall>tts. Tables targets = Some tts \<longrightarrow>
            (\<exists>ts. expandTargets p tts = Inr ts \<and>
               (\<forall>t \<in> set ts. \<exists>r rs.
                  queryRowsAsRoot (cat p) (evalCtx_Database p) checkTable
                    [DatabaseName t, TableName t] = Inr (r # rs)) \<and>
               (2 * length ts + length (granteeArgs (sg_Grantees n)) < 2 ^ 63 \<longrightarrow>
                  queryRows (cat p) (evalCtx_Database p)
                    (tablePrivilegesQuery (length ts) (sg_Grantees n))
                    (tableArgs ts @ granteeArgs (sg_Grantees n)) = Inr tableRows))) \<and>
         planRows node = sortStage grantsOrdering (dbRows @ tableRows) \<and>
         mset (planRows node) = mset (dbRows @ tableRows) \<and>
         sorted_wrt (\<lambda>r s. grantKey r \<le> grantKey s) (planRows node)"
      apply (intro conjI)
              apply (rule c[THEN conjunct1])
             apply (rule c[THEN conjunct2, THEN conjunct1])
            apply (rule c[THEN conjunct2, THEN conjunct2, THEN conjunct1])
           apply (rule c[THEN conjunct2, THEN conjunct2, THEN conjunct2, THEN conjunct1])
          apply (rule c[THEN conjunct2, THEN conjunct2, THEN conjunct2, THEN conjunct2,
                        THEN conjunct1])
         apply (rule c[THEN conjunct2, THEN conjunct2, THEN conjunct2, THEN conjunct2,
                       THEN conjunct2])
        apply (rule pr)
       apply (rule ms)
      apply (rule so)
      done
    then show ?thesis
      by (intro exI)
  qed
  have succeeds: "\<exists>node. outcome (ShowGrants_constructor n targets columns p) = Ok node"
    if "(\<forall>sql args. \<exists>r rs. queryRowsAsRoot (cat p) (evalCtx_Database p) sql args = Inr (r # rs)) \<and>
        (\<forall>sql args. \<exists>rows. queryRows (cat p) (evalCtx_Database p) sql args = Inr rows) \<and>
        (\<forall>t. \<exists>g. NormalizeTablePattern (prs p) t = Inr g) \<and>
        (\<forall>g. \<exists>ts. expandTableGlob (cat p) g = Inr ts) \<and>
        (\<forall>rs r. accepts p rs r)"
    using ShowGrants_constructor_succeeds[OF that[THEN conjunct1]
        that[THEN conjunct2, THEN conjunct1]
        that[THEN conjunct2, THEN conjunct2, THEN conjunct1]
        that[THEN conjunct2, THEN conjunct2, THEN conjunct2, THEN conjunct1]
        that[THEN conjunct2, THEN conjunct2, THEN conjunct2, THEN conjunct2]] .
  have build: "\<exists>d. ShowGrants p n = Inr d \<and>
           dn_constructor d = ShowGrants_constructor n targets (dn_columns d)"
    if "sg_Targets n = Some targets"
    using that by (simp add: ShowGrants_def Let_def)
  show ?thesis
    apply (intro conjI)
       apply (intro allI impI)
       apply (erule rows)
      apply (intro impI)
      apply (erule succeeds)
     apply (rule grantKey_strings)
    apply (intro impI)
    apply (erule build)
    done
qed

lemma decimal_values:
  "decimal 1 = ''1''" "decimal 2 = ''2''" "decimal 3 = ''3''" "decimal 4 = ''4''"
  "decimal (Suc 0) = ''1''" "decimal (Suc (Suc 0)) = ''2''" "decimal (Suc (Suc (Suc 0))) = ''3''"
  "decimal (Suc (Suc (Suc (Suc 0)))) = ''4''" "decimal 12 = ''12''"
  by code_simp+

lemmas grants_defs =
  planner_grants_def targets_t_def stmt_grants_def targets_zoo_t_def stmt_grants_both_def

lemmas query_defs =
  schemaPrivilegesQuery_def tablePrivilegesQuery_def pairPlaceholders_def placeholders_def
  placeholder_def granteeFilter_def granteeArgs_def tableArgs_def tn_t_def decimal_values

lemma expandTargets_t: "expandTargets planner_grants [''t''] = Inr [tn_t]"
  by (simp add: planner_grants_def planner0_def parserfns0_def catalog0_def)

theorem ShowGrants_rows_sorted_witness:
  "sg_Targets stmt_grants = Some targets_t \<and>
   Databases targets_t = None \<and> Tables targets_t = Some [''t''] \<and>
   sg_Grantees stmt_grants = Some [''alice'', ''bob''] \<and>
   expandTargets planner_grants [''t''] = Inr [tn_t] \<and>
   tablePrivilegesQuery 1 (Some [''alice'', ''bob'']) =
     ''SELECT TABLE_NAME, GRANTEE, PRIVILEGE_TYPE FROM information_schema.table_privileges'' @
     [newline] @ replicate 9 tab @
     ''WHERE (TABLE_SCHEMA, TABLE_NAME) IN (($1,$2)) AND GRANTEE IN($3,$4)'' \<and>
   (\<forall>rs r. accepts planner_grants rs r) \<and>
   (\<exists>d node. ShowGrants planner_grants stmt_grants = Inr d \<and>
      outcome (dn_constructor d planner_grants) = Ok node \<and>
      planRows node =
        [[DString ''t'', DString ''alice'', DString ''INSERT''],
         [DString ''t'', DString ''alice'', DString ''SELECT''],
         [DString ''t'', DString ''bob'', DString ''SELECT'']]) \<and>
   sg_Targets stmt_grants_both = Some targets_zoo_t \<and>
   Databases targets_zoo_t = Some [''zoo''] \<and> Tables targets_zoo_t = Some [''t''] \<and>
   sg_Grantees stmt_grants_both = None \<and>
   (\<exists>d node. ShowGrants planner_grants stmt_grants_both = Inr d \<and>
      outcome (dn_constructor d planner_grants) = Ok node \<and>
      planRows node =
        [[DString ''t'', DString ''alice'', DString ''INSERT''],
         [DString ''t'', DString ''alice'', DString ''SELECT''],
         [DString ''t'', DString ''bob'', DString ''SELECT''],
         [DString ''zoo'', DString ''alice'', DString ''ALL'']])"
proof -
  have h: "(\<forall>sql args. \<exists>r rs.
        queryRowsAsRoot (cat planner_grants) (evalCtx_Database planner_grants) sql args =
          Inr (r # rs)) \<and>
      (\<forall>sql args. \<exists>rows.
        queryRows (cat planner_grants) (evalCtx_Database planner_grants) sql args = Inr rows) \<and>
      (\<forall>t. \<exists>g. NormalizeTablePattern (prs planner_grants) t = Inr g) \<and>
      (\<forall>g. \<exists>ts. expandTableGlob (cat planner_grants) g = Inr ts) \<and>
      (\<forall>rs r. accepts planner_grants rs r)"
    by (simp add: grants_defs planner0_def catalog0_def parserfns0_def)
  have acc: "\<forall>rs r. accepts planner_grants rs r"
    by (simp add: grants_defs planner0_def)
  have s1: "sg_Targets stmt_grants = Some targets_t"
    and t1: "Databases targets_t = None" "Tables targets_t = Some [''t'']"
    and g1: "sg_Grantees stmt_grants = Some [''alice'', ''bob'']"
    and s2: "sg_Targets stmt_grants_both = Some targets_zoo_t"
    and t2: "Databases targets_zoo_t = Some [''zoo'']" "Tables targets_zoo_t = Some [''t'']"
    and g2: "sg_Grantees stmt_grants_both = None"
    by (simp_all add: grants_defs)
  have lit: "tablePrivilegesQuery 1 (Some [''alice'', ''bob'']) =
     ''SELECT TABLE_NAME, GRANTEE, PRIVILEGE_TYPE FROM information_schema.table_privileges'' @
     [newline] @ replicate 9 tab @
     ''WHERE (TABLE_SCHEMA, TABLE_NAME) IN (($1,$2)) AND GRANTEE IN($3,$4)''"
    by (simp add: query_defs upt_rec)
  have q1: "queryRows (cat planner_grants) (evalCtx_Database planner_grants)
       (tablePrivilegesQuery (length [tn_t]) (sg_Grantees stmt_grants))
       (tableArgs [tn_t] @ granteeArgs (sg_Grantees stmt_grants)) = Inr rows \<Longrightarrow>
     rows = grants_rows" for rows
    by (simp add: grants_defs query_defs planner0_def catalog0_def upt_rec)
  have q2: "queryRows (cat planner_grants) (evalCtx_Database planner_grants)
       (schemaPrivilegesQuery (length [''zoo'']) (sg_Grantees stmt_grants_both))
       ([''zoo''] @ granteeArgs (sg_Grantees stmt_grants_both)) = Inr rows \<Longrightarrow>
     rows = [[DString ''zoo'', DString ''alice'', DString ''ALL'']]" for rows
    by (simp add: grants_defs query_defs planner0_def catalog0_def upt_rec)
  have q3: "queryRows (cat planner_grants) (evalCtx_Database planner_grants)
       (tablePrivilegesQuery (length [tn_t]) (sg_Grantees stmt_grants_both))
       (tableArgs [tn_t] @ granteeArgs (sg_Grantees stmt_grants_both)) = Inr rows \<Longrightarrow>
     rows = grants_rows" for rows
    by (simp add: grants_defs query_defs planner0_def catalog0_def upt_rec)
  have b1: "2 * length [tn_t] + length (granteeArgs (sg_Grantees stmt_grants)) < 2 ^ 63"
    by (simp add: g1 granteeArgs_def)
  have b2: "length [''zoo''] + length (granteeArgs (sg_Grantees stmt_grants_both)) < 2 ^ 63"
    by (simp add: g2 granteeArgs_def)
  have b3: "2 * length [tn_t] + length (granteeArgs (sg_Grantees stmt_grants_both)) < 2 ^ 63"
    by (simp add: g2 granteeArgs_def)

  \<comment> \<open>\<^verbatim>\<open>SHOW GRANTS ON t FOR alice, bob\<close>\<close>
  from ShowGrants_rows_sorted[where n = stmt_grants and targets = targets_t and p = planner_grants,
      THEN conjunct2, THEN conjunct2, THEN conjunct2, THEN mp, OF s1]
  obtain d1 where dc1: "ShowGrants planner_grants stmt_grants = Inr d1 \<and>
      dn_constructor d1 = ShowGrants_constructor stmt_grants targets_t (dn_columns d1)"
    by (erule exE)
  note inst1 = ShowGrants_rows_sorted[where n = stmt_grants and targets = targets_t
      and columns = "dn_columns d1" and p = planner_grants]
  from inst1[THEN conjunct2, THEN conjunct1, THEN mp, OF h] obtain node1 where
    n1: "outcome (ShowGrants_constructor stmt_grants targets_t (dn_columns d1) planner_grants) =
          Ok node1"
    by (erule exE)
  from inst1[THEN conjunct1, THEN spec, THEN mp, OF n1] obtain v1 dbRows1 tableRows1 where
    big1: "node1 = SelectTopNode v1
             \<lparr>ordering =
                 [\<lparr>ColIdx = 0, Dir = Ascending\<rparr>, \<lparr>ColIdx = 1, Dir = Ascending\<rparr>,
                  \<lparr>ColIdx = 2, Dir = Ascending\<rparr>],
               sn_columns = dn_columns d1\<rparr> \<and>
         rows_of (vn_rows v1) = dbRows1 @ tableRows1 \<and>
         (Databases targets_t = None \<longrightarrow> dbRows1 = []) \<and>
         (\<forall>dbs. Databases targets_t = Some dbs \<longrightarrow>
            (\<forall>db \<in> set dbs. \<exists>r rs.
               queryRowsAsRoot (cat planner_grants) (evalCtx_Database planner_grants) checkSchema
                 [db] = Inr (r # rs)) \<and>
            (length dbs + length (granteeArgs (sg_Grantees stmt_grants)) < 2 ^ 63 \<longrightarrow>
               queryRows (cat planner_grants) (evalCtx_Database planner_grants)
                 (schemaPrivilegesQuery (length dbs) (sg_Grantees stmt_grants))
                 (dbs @ granteeArgs (sg_Grantees stmt_grants)) = Inr dbRows1)) \<and>
         (Tables targets_t = None \<longrightarrow> tableRows1 = []) \<and>
         (\<forall>tts. Tables targets_t = Some tts \<longrightarrow>
            (\<exists>ts. expandTargets planner_grants tts = Inr ts \<and>
               (\<forall>t \<in> set ts. \<exists>r rs.
                  queryRowsAsRoot (cat planner_grants) (evalCtx_Database planner_grants) checkTable
                    [DatabaseName t, TableName t] = Inr (r # rs)) \<and>
               (2 * length ts + length (granteeArgs (sg_Grantees stmt_grants)) < 2 ^ 63 \<longrightarrow>
                  queryRows (cat planner_grants) (evalCtx_Database planner_grants)
                    (tablePrivilegesQuery (length ts) (sg_Grantees stmt_grants))
                    (tableArgs ts @ granteeArgs (sg_Grantees stmt_grants)) = Inr tableRows1))) \<and>
         planRows node1 = sortStage grantsOrdering (dbRows1 @ tableRows1) \<and>
         mset (planRows node1) = mset (dbRows1 @ tableRows1) \<and>
         sorted_wrt (\<lambda>r s. grantKey r \<le> grantKey s) (planRows node1)"
    by (elim exE)
  note db1 = big1[THEN conjunct2, THEN conjunct2, THEN conjunct1]
  note tb1 = big1[THEN conjunct2, THEN conjunct2, THEN conjunct2, THEN conjunct2,
                  THEN conjunct2, THEN conjunct1]
  note pr1 = big1[THEN conjunct2, THEN conjunct2, THEN conjunct2, THEN conjunct2,
                  THEN conjunct2, THEN conjunct2, THEN conjunct1]
  from tb1[THEN spec, THEN mp, OF t1(2)] obtain ts1 where
    e1: "expandTargets planner_grants [''t''] = Inr ts1 \<and>
       (\<forall>t \<in> set ts1. \<exists>r rs.
          queryRowsAsRoot (cat planner_grants) (evalCtx_Database planner_grants) checkTable
            [DatabaseName t, TableName t] = Inr (r # rs)) \<and>
       (2 * length ts1 + length (granteeArgs (sg_Grantees stmt_grants)) < 2 ^ 63 \<longrightarrow>
          queryRows (cat planner_grants) (evalCtx_Database planner_grants)
            (tablePrivilegesQuery (length ts1) (sg_Grantees stmt_grants))
            (tableArgs ts1 @ granteeArgs (sg_Grantees stmt_grants)) = Inr tableRows1)"
    by (elim exE)
  have ts1: "ts1 = [tn_t]"
    using e1[THEN conjunct1, unfolded expandTargets_t] by simp
  have tr1: "tableRows1 = grants_rows"
    by (rule q1, rule e1[THEN conjunct2, THEN conjunct2, unfolded ts1, THEN mp, OF b1])
  have dr1: "dbRows1 = []"
    by (rule db1[THEN mp, OF t1(1)])
  have r1: "planRows node1 =
        [[DString ''t'', DString ''alice'', DString ''INSERT''],
         [DString ''t'', DString ''alice'', DString ''SELECT''],
         [DString ''t'', DString ''bob'', DString ''SELECT'']]"
    unfolding pr1 dr1 tr1 append_Nil by (rule sortStage_grants_rows)
  have o1: "outcome (dn_constructor d1 planner_grants) = Ok node1"
    using dc1 n1 by simp
  have w1: "\<exists>d node. ShowGrants planner_grants stmt_grants = Inr d \<and>
      outcome (dn_constructor d planner_grants) = Ok node \<and>
      planRows node =
        [[DString ''t'', DString ''alice'', DString ''INSERT''],
         [DString ''t'', DString ''alice'', DString ''SELECT''],
         [DString ''t'', DString ''bob'', DString ''SELECT'']]"
    using dc1[THEN conjunct1] o1 r1 by (intro exI[of _ d1] exI[of _ node1] conjI)

  \<comment> \<open>the database \<^verbatim>\<open>zoo\<close> and the table \<^verbatim>\<open>t\<close>\<close>
  from ShowGrants_rows_sorted[where n = stmt_grants_both and targets = targets_zoo_t
      and p = planner_grants,
      THEN conjunct2, THEN conjunct2, THEN conjunct2, THEN mp, OF s2]
  obtain d2 where dc2: "ShowGrants planner_grants stmt_grants_both = Inr d2 \<and>
      dn_constructor d2 = ShowGrants_constructor stmt_grants_both targets_zoo_t (dn_columns d2)"
    by (erule exE)
  note inst2 = ShowGrants_rows_sorted[where n = stmt_grants_both and targets = targets_zoo_t
      and columns = "dn_columns d2" and p = planner_grants]
  from inst2[THEN conjunct2, THEN conjunct1, THEN mp, OF h] obtain node2 where
    n2: "outcome (ShowGrants_constructor stmt_grants_both targets_zoo_t (dn_columns d2)
           planner_grants) = Ok node2"
    by (erule exE)
  from inst2[THEN conjunct1, THEN spec, THEN mp, OF n2] obtain v2 dbRows2 tableRows2 where
    big2: "node2 = SelectTopNode v2
             \<lparr>ordering =
                 [\<lparr>ColIdx = 0, Dir = Ascending\<rparr>, \<lparr>ColIdx = 1, Dir = Ascending\<rparr>,
                  \<lparr>ColIdx = 2, Dir = Ascending\<rparr>],
               sn_columns = dn_columns d2\<rparr> \<and>
         rows_of (vn_rows v2) = dbRows2 @ tableRows2 \<and>
         (Databases targets_zoo_t = None \<longrightarrow> dbRows2 = []) \<and>
         (\<forall>dbs. Databases targets_zoo_t = Some dbs \<longrightarrow>
            (\<forall>db \<in> set dbs. \<exists>r rs.
               queryRowsAsRoot (cat planner_grants) (evalCtx_Database planner_grants) checkSchema
                 [db] = Inr (r # rs)) \<and>
            (length dbs + length (granteeArgs (sg_Grantees stmt_grants_both)) < 2 ^ 63 \<longrightarrow>
               queryRows (cat planner_grants) (evalCtx_Database planner_grants)
                 (schemaPrivilegesQuery (length dbs) (sg_Grantees stmt_grants_both))
                 (dbs @ granteeArgs (sg_Grantees stmt_grants_both)) = Inr dbRows2)) \<and>
         (Tables targets_zoo_t = None \<longrightarrow> tableRows2 = []) \<and>
         (\<forall>tts. Tables targets_zoo_t = Some tts \<longrightarrow>
            (\<exists>ts. expandTargets planner_grants tts = Inr ts \<and>
               (\<forall>t \<in> set ts. \<exists>r rs.
                  queryRowsAsRoot (cat planner_grants) (evalCtx_Database planner_grants) checkTable
                    [DatabaseName t, TableName t] = Inr (r # rs)) \<and>
               (2 * length ts + length (granteeArgs (sg_Grantees stmt_grants_both)) < 2 ^ 63 \<longrightarrow>
                  queryRows (cat planner_grants) (evalCtx_Database planner_grants)
                    (tablePrivilegesQuery (length ts) (sg_Grantees stmt_grants_both))
                    (tableArgs ts @ granteeArgs (sg_Grantees stmt_grants_both)) = Inr tableRows2))) \<and>
         planRows node2 = sortStage grantsOrdering (dbRows2 @ tableRows2) \<and>
         mset (planRows node2) = mset (dbRows2 @ tableRows2) \<and>
         sorted_wrt (\<lambda>r s. grantKey r \<le> grantKey s) (planRows node2)"
    by (elim exE)
  note db2 = big2[THEN conjunct2, THEN conjunct2, THEN conjunct2, THEN conjunct1]
  note tb2 = big2[THEN conjunct2, THEN conjunct2, THEN conjunct2, THEN conjunct2,
                  THEN conjunct2, THEN conjunct1]
  note pr2 = big2[THEN conjunct2, THEN conjunct2, THEN conjunct2, THEN conjunct2,
                  THEN conjunct2, THEN conjunct2, THEN conjunct1]
  have dr2: "dbRows2 = [[DString ''zoo'', DString ''alice'', DString ''ALL'']]"
    by (rule q2, rule db2[THEN spec, THEN mp, OF t2(1), THEN conjunct2, THEN mp, OF b2])
  from tb2[THEN spec, THEN mp, OF t2(2)] obtain ts2 where
    e2: "expandTargets planner_grants [''t''] = Inr ts2 \<and>
       (\<forall>t \<in> set ts2. \<exists>r rs.
          queryRowsAsRoot (cat planner_grants) (evalCtx_Database planner_grants) checkTable
            [DatabaseName t, TableName t] = Inr (r # rs)) \<and>
       (2 * length ts2 + length (granteeArgs (sg_Grantees stmt_grants_both)) < 2 ^ 63 \<longrightarrow>
          queryRows (cat planner_grants) (evalCtx_Database planner_grants)
            (tablePrivilegesQuery (length ts2) (sg_Grantees stmt_grants_both))
            (tableArgs ts2 @ granteeArgs (sg_Grantees stmt_grants_both)) = Inr tableRows2)"
    by (elim exE)
  have ts2: "ts2 = [tn_t]"
    using e2[THEN conjunct1, unfolded expandTargets_t] by simp
  have tr2: "tableRows2 = grants_rows"
    by (rule q3, rule e2[THEN conjunct2, THEN conjunct2, unfolded ts2, THEN mp, OF b3])
  have r2: "planRows node2 =
        [[DString ''t'', DString ''alice'', DString ''INSERT''],
         [DString ''t'', DString ''alice'', DString ''SELECT''],
         [DString ''t'', DString ''bob'', DString ''SELECT''],
         [DString ''zoo'', DString ''alice'', DString ''ALL'']]"
    unfolding pr2 dr2 tr2 by (rule sortStage_zoo_grants_rows)
  have o2: "outcome (dn_constructor d2 planner_grants) = Ok node2"
    using dc2 n2 by simp
  have w2: "\<exists>d node. ShowGrants planner_grants stmt_grants_both = Inr d \<and>
      outcome (dn_constructor d planner_grants) = Ok node \<and>
      planRows node =
        [[DString ''t'', DString ''alice'', DString ''INSERT''],
         [DString ''t'', DString ''alice'', DString ''SELECT''],
         [DString ''t'', DString ''bob'', DString ''SELECT''],
         [DString ''zoo'', DString ''alice'', DString ''ALL'']]"
    using dc2[THEN conjunct1] o2 r2 by (intro exI[of _ d2] exI[of _ node2] conjI)
  show ?thesis
    apply (intro conjI)
                apply (rule s1)
               apply (rule t1(1))
              apply (rule t1(2))
             apply (rule g1)
            apply (rule expandTargets_t)
           apply (rule lit)
          apply (rule acc)
         apply (rule w1)
        apply (rule s2)
       apply (rule t2(1))
      apply (rule t2(2))
     apply (rule g2)
    apply (rule w2)
    done
qed
subsection \<open>Constructors that return an error with the rows left open\<close>

lemmas view_defs =
  planner_nopriv_def view0_def name_v_def tn_v_def stmt_v_def planner_view_def
  planner_view_unplannable_def planner_view_full_def planner_constraints_def
  planner_constraints_full_def

text \<open>
  Claim C2, at concrete inputs. SHOW CREATE VIEW for a view whose stored text the parser
  rejects, or whose stored query no longer plans, and SHOW CONSTRAINTS for a table whose
  constraints cannot be read return the error with the rows of the values node they
  created left open; the same two constructors close the rows when \<^verbatim>\<open>AddRow\<close> fails.
\<close>

theorem constructors_leave_rows_open:
  "runPlan planner_view (ShowCreateView planner_view stmt_v) =
     Some (Err (FailedToParseView (CollaboratorError ''syntax error'') ''d.v''), Some False) \<and>
   runPlan planner_view_unplannable (ShowCreateView planner_view_unplannable stmt_v) =
     Some (Err (UndefinedTableError ''d.t''), Some False) \<and>
   runPlan planner_view_full (ShowCreateView planner_view_full stmt_v) =
     Some (Err (CollaboratorError ''memory budget exceeded''), Some True) \<and>
   runPlan planner_constraints (ShowConstraints planner_constraints \<lparr>scn_Table = name_t\<rparr>) =
     Some (Err (CollaboratorError ''descriptor not found''), Some False) \<and>
   runPlan planner_constraints_full
       (ShowConstraints planner_constraints_full \<lparr>scn_Table = name_t\<rparr>) =
     Some (Err (CollaboratorError ''memory budget exceeded''), Some True)"
proof -
  have v1: "runPlan planner_view (ShowCreateView planner_view stmt_v) =
     Some (Err (FailedToParseView (CollaboratorError ''syntax error'') ''d.v''), Some False)"
    by (simp add: runPlan_def ShowCreateView_def ShowCreateView_constructor_def view_defs
        planner0_def catalog0_def parserfns0_def NormalizeWithDatabaseName_def
        TableName_String_def newContainerValuesNode_def failed_def closedAfter_def Let_def)
  have v2: "runPlan planner_view_unplannable (ShowCreateView planner_view_unplannable stmt_v) =
     Some (Err (UndefinedTableError ''d.t''), Some False)"
    by (simp add: runPlan_def ShowCreateView_def ShowCreateView_constructor_def view_defs
        planner0_def catalog0_def parserfns0_def NormalizeWithDatabaseName_def
        TableName_String_def newContainerValuesNode_def failed_def closedAfter_def Let_def)
  have v3: "runPlan planner_view_full (ShowCreateView planner_view_full stmt_v) =
     Some (Err (CollaboratorError ''memory budget exceeded''), Some True)"
    by (simp add: runPlan_def ShowCreateView_def ShowCreateView_constructor_def view_defs
        planner0_def catalog0_def parserfns0_def NormalizeWithDatabaseName_def
        TableName_String_def newContainerValuesNode_def failed_def closedAfter_def Let_def
        elemAt_def column_a_def AddRow_def closeRows_def Close_def)
  have c1: "runPlan planner_constraints
       (ShowConstraints planner_constraints \<lparr>scn_Table = name_t\<rparr>) =
     Some (Err (CollaboratorError ''descriptor not found''), Some False)"
    by (simp add: runPlan_def ShowConstraints_def ShowConstraints_constructor_def view_defs
        planner0_def catalog0_def name_t_def NormalizeWithDatabaseName_def
        TableName_String_def newContainerValuesNode_def failed_def closedAfter_def Let_def)
  have c2: "runPlan planner_constraints_full
       (ShowConstraints planner_constraints_full \<lparr>scn_Table = name_t\<rparr>) =
     Some (Err (CollaboratorError ''memory budget exceeded''), Some True)"
    by (simp add: runPlan_def ShowConstraints_def ShowConstraints_constructor_def view_defs
        planner0_def catalog0_def name_t_def NormalizeWithDatabaseName_def
        TableName_String_def newContainerValuesNode_def failed_def closedAfter_def Let_def
        AddRow_def closeRows_def Close_def)
  show ?thesis
    using v1 v2 v3 c1 c2 by (intro conjI)
qed

subsection \<open>Errors at plan-build time\<close>

text \<open>
  Claim C1, at concrete inputs. SHOW INDEX for a table the catalog does not have returns
  the undefined-table error from \<^verbatim>\<open>ShowIndex\<close> itself, and SHOW CREATE TABLE for a table the
  user has no privilege on returns the privilege error from \<^verbatim>\<open>ShowCreateTable\<close> itself:
  no plan is returned whose constructor could report them later.
\<close>

theorem table_errors_at_plan_build_counterexample:
  "ShowIndex planner0 \<lparr>si_Table = name_t\<rparr> = Inl (UndefinedTableError ''d.t'') \<and>
   ShowCreateTable planner_nopriv stmt_t = Inl (NoPrivilegesOnTable ''alice'' ''t'')"
  by (simp add: ShowIndex_def ShowCreateTable_def planner_nopriv_def planner0_def catalog0_def
      name_t_def stmt_t_def table_a_def NormalizeWithDatabaseName_def TableName_String_def)

text \<open>
  Claim C1, amended. SHOW of a variable, SHOW COLUMNS, SHOW TABLES, SHOW GRANTS and HELP
  consult no catalog while the plan is built: the only errors before the plan is
  returned are the unknown variable, a table name that cannot be normalized, SHOW TABLES
  without a database and SHOW GRANTS without targets. SHOW CREATE TABLE, SHOW CREATE
  VIEW, SHOW INDEX and SHOW CONSTRAINTS resolve the name, fetch the descriptor and check
  the privilege while the plan is built: they return a plan exactly when all three
  succeed and otherwise return the error of the first that fails. The stored text of a
  view is parsed in the constructor only: a text the parser rejects, or that is not a
  select, is the error of the constructor, attributed to the view.
\<close>

theorem errors_at_plan_build_and_in_constructor:
  "(Show p n1 = Inl e \<longrightarrow> e = UnknownVariable (ToUpper (show_Name n1))) \<and>
   (ShowColumns p n2 = Inl e \<longrightarrow>
      NormalizeWithDatabaseName (sc_Table n2) (Database (session p)) = Inl e) \<and>
   (ShowTables p n3 = Inl e \<longrightarrow>
      e = errNoDatabase \<and> st_Database n3 = [] \<and> Database (session p) = []) \<and>
   (ShowGrants p n4 = Inl e \<longrightarrow> e = GrantsWithoutTargets \<and> sg_Targets n4 = None) \<and>
   Help p n5 \<noteq> Inl e \<and>
   (ShowCreateTable p n6 = Inl e \<longleftrightarrow>
      resolveAndCheck p (mustGetTableDesc (cat p)) (sct_Table n6) = Inl e) \<and>
   (ShowIndex p n7 = Inl e \<longleftrightarrow>
      resolveAndCheck p (mustGetTableDesc (cat p)) (si_Table n7) = Inl e) \<and>
   (ShowConstraints p n8 = Inl e \<longleftrightarrow>
      resolveAndCheck p (mustGetTableDesc (cat p)) (scn_Table n8) = Inl e) \<and>
   (ShowCreateView p n9 = Inl e \<longleftrightarrow>
      resolveAndCheck p (mustGetViewDesc (cat p)) (scv_View n9) = Inl e) \<and>
   (resolveAndCheck p (mustGetViewDesc (cat p)) (scv_View n9) = Inr (tn, desc) \<longrightarrow>
      (\<exists>d. ShowCreateView p n9 = Inr d \<and>
           dn_constructor d = ShowCreateView_constructor n9 tn desc (dn_columns d))) \<and>
   (ParseOneTraditional (prs p) (td_ViewQuery desc) = Inl err \<longrightarrow>
      outcome (ShowCreateView_constructor n9 tn desc columns p) =
        Err (FailedToParseView err (TableName_String tn))) \<and>
   (ParseOneTraditional (prs p) (td_ViewQuery desc) = Inr (OtherStatement other) \<longrightarrow>
      outcome (ShowCreateView_constructor n9 tn desc columns p) =
        Err (ViewNotASelect (TableName_String tn)))"
proof -
  have show_var: "e = UnknownVariable (ToUpper (show_Name n1))" if "Show p n1 = Inl e"
    using that by (auto simp: Show_def Let_def split: if_splits option.splits)
  have cols: "NormalizeWithDatabaseName (sc_Table n2) (Database (session p)) = Inl e"
    if "ShowColumns p n2 = Inl e"
    using that by (auto simp: ShowColumns_def Let_def split: sum.splits)
  have tables: "e = errNoDatabase \<and> st_Database n3 = [] \<and> Database (session p) = []"
    if "ShowTables p n3 = Inl e"
    using that by (auto simp: ShowTables_def Let_def split: if_splits)
  have grants: "e = GrantsWithoutTargets \<and> sg_Targets n4 = None" if "ShowGrants p n4 = Inl e"
    using that by (auto simp: ShowGrants_def Let_def split: option.splits)
  have no_help_error: "Help p n5 \<noteq> Inl e"
    by (simp add: Help_def Let_def)
  have ct: "ShowCreateTable p n6 = Inl e \<longleftrightarrow>
      resolveAndCheck p (mustGetTableDesc (cat p)) (sct_Table n6) = Inl e"
    by (auto simp: ShowCreateTable_def resolveAndCheck_def Let_def split: sum.splits option.splits)
  have ix: "ShowIndex p n7 = Inl e \<longleftrightarrow>
      resolveAndCheck p (mustGetTableDesc (cat p)) (si_Table n7) = Inl e"
    by (auto simp: ShowIndex_def resolveAndCheck_def Let_def split: sum.splits option.splits)
  have cn: "ShowConstraints p n8 = Inl e \<longleftrightarrow>
      resolveAndCheck p (mustGetTableDesc (cat p)) (scn_Table n8) = Inl e"
    by (auto simp: ShowConstraints_def resolveAndCheck_def Let_def
        split: sum.splits option.splits)
  have cv: "ShowCreateView p n9 = Inl e \<longleftrightarrow>
      resolveAndCheck p (mustGetViewDesc (cat p)) (scv_View n9) = Inl e"
    by (auto simp: ShowCreateView_def resolveAndCheck_def Let_def
        split: sum.splits option.splits)
  have built: "\<exists>d. ShowCreateView p n9 = Inr d \<and>
           dn_constructor d = ShowCreateView_constructor n9 tn desc (dn_columns d)"
    if "resolveAndCheck p (mustGetViewDesc (cat p)) (scv_View n9) = Inr (tn, desc)"
    using that
    by (auto simp: ShowCreateView_def resolveAndCheck_def Let_def
        split: sum.splits option.splits)
  have parse: "outcome (ShowCreateView_constructor n9 tn desc columns p) =
        Err (FailedToParseView err (TableName_String tn))"
    if "ParseOneTraditional (prs p) (td_ViewQuery desc) = Inl err"
    using that by (simp add: ShowCreateView_constructor_def Let_def failed_def)
  have not_select: "outcome (ShowCreateView_constructor n9 tn desc columns p) =
        Err (ViewNotASelect (TableName_String tn))"
    if "ParseOneTraditional (prs p) (td_ViewQuery desc) = Inr (OtherStatement other)"
    using that by (simp add: ShowCreateView_constructor_def Let_def failed_def)
  show ?thesis
    apply (intro conjI impI)
               apply (erule show_var)
              apply (erule cols)
             apply (drule tables, simp)
            apply (drule tables, simp)
           apply (drule tables, simp)
          apply (drule grants, simp)
         apply (drule grants, simp)
        apply (rule no_help_error)
       apply (rule ct)
      apply (rule ix)
     apply (rule cn)
    apply (rule cv)
      apply (erule built)
     apply (erule parse)
    apply (erule not_select)
    done
qed

lemma ToUpper_nope: "ToUpper ''nope'' = ''NOPE''"
  by code_simp

theorem errors_at_plan_build_and_in_constructor_witness:
  "Show planner0 \<lparr>show_Name = ''nope''\<rparr> = Inl (UnknownVariable ''NOPE'') \<and>
   resolveAndCheck planner0 (mustGetTableDesc (cat planner0)) (si_Table \<lparr>si_Table = name_t\<rparr>) =
     Inl (UndefinedTableError ''d.t'') \<and>
   ShowIndex planner0 \<lparr>si_Table = name_t\<rparr> = Inl (UndefinedTableError ''d.t'') \<and>
   resolveAndCheck planner_view (mustGetViewDesc (cat planner_view)) (scv_View stmt_v) =
     Inr (tn_v, view0) \<and>
   ParseOneTraditional (prs planner_view) (td_ViewQuery view0) =
     Inl (CollaboratorError ''syntax error'') \<and>
   (\<exists>d. ShowCreateView planner_view stmt_v = Inr d \<and>
        outcome (dn_constructor d planner_view) =
          Err (FailedToParseView (CollaboratorError ''syntax error'') ''d.v''))"
proof -
  have s0: "Show planner0 \<lparr>show_Name = ''nope''\<rparr> = Inl (UnknownVariable ''NOPE'')"
    by (simp add: Show_def Let_def ToUpper_nope varGen_def)
  have s1: "UnknownVariable ''NOPE'' = UnknownVariable (ToUpper (show_Name \<lparr>show_Name = ''nope''\<rparr>))"
    using errors_at_plan_build_and_in_constructor[where p = planner0
        and ?n1.0 = "\<lparr>show_Name = ''nope''\<rparr>" and e = "UnknownVariable ''NOPE''",
        THEN conjunct1, THEN mp, OF s0] .
  have r: "resolveAndCheck planner0 (mustGetTableDesc (cat planner0))
             (si_Table \<lparr>si_Table = name_t\<rparr>) = Inl (UndefinedTableError ''d.t'')"
    by (simp add: resolveAndCheck_def planner0_def catalog0_def name_t_def
        NormalizeWithDatabaseName_def TableName_String_def)
  have i: "ShowIndex planner0 \<lparr>si_Table = name_t\<rparr> = Inl (UndefinedTableError ''d.t'')"
    using errors_at_plan_build_and_in_constructor[where p = planner0
        and ?n7.0 = "\<lparr>si_Table = name_t\<rparr>" and e = "UndefinedTableError ''d.t''",
        THEN conjunct2, THEN conjunct2, THEN conjunct2, THEN conjunct2, THEN conjunct2,
        THEN conjunct2, THEN conjunct1, THEN iffD2, OF r] .
  have v: "resolveAndCheck planner_view (mustGetViewDesc (cat planner_view)) (scv_View stmt_v) =
             Inr (tn_v, view0)"
    by (simp add: resolveAndCheck_def view_defs planner0_def catalog0_def
        NormalizeWithDatabaseName_def)
  have q: "ParseOneTraditional (prs planner_view) (td_ViewQuery view0) =
             Inl (CollaboratorError ''syntax error'')"
    by (simp add: view_defs planner0_def parserfns0_def)
  note tail = errors_at_plan_build_and_in_constructor[where p = planner_view
        and ?n9.0 = stmt_v and tn = tn_v and desc = view0
        and err = "CollaboratorError ''syntax error''",
        THEN conjunct2, THEN conjunct2, THEN conjunct2, THEN conjunct2, THEN conjunct2,
        THEN conjunct2, THEN conjunct2, THEN conjunct2, THEN conjunct2]
  from tail[THEN conjunct1, THEN mp, OF v] obtain d where
    d: "ShowCreateView planner_view stmt_v = Inr d \<and>
        dn_constructor d = ShowCreateView_constructor stmt_v tn_v view0 (dn_columns d)"
    by (erule exE)
  have o: "outcome (ShowCreateView_constructor stmt_v tn_v view0 (dn_columns d) planner_view) =
        Err (FailedToParseView (CollaboratorError ''syntax error'') (TableName_String tn_v))"
    using errors_at_plan_build_and_in_constructor[where p = planner_view
        and ?n9.0 = stmt_v and tn = tn_v and desc = view0
        and err = "CollaboratorError ''syntax error''" and columns = "dn_columns d",
        THEN conjunct2, THEN conjunct2, THEN conjunct2, THEN conjunct2, THEN conjunct2,
        THEN conjunct2, THEN conjunct2, THEN conjunct2, THEN conjunct2, THEN conjunct2,
        THEN conjunct1, THEN mp, OF q] .
  have nm: "TableName_String tn_v = ''d.v''"
    by (simp add: TableName_String_def tn_v_def)
  have "\<exists>d. ShowCreateView planner_view stmt_v = Inr d \<and>
        outcome (dn_constructor d planner_view) =
          Err (FailedToParseView (CollaboratorError ''syntax error'') ''d.v'')"
    using d o unfolding nm by (intro exI[of _ d]) simp
  with s0 r i v q show ?thesis
    by (intro conjI)
qed

end
